theory Spec2Isabelle
  imports Main "HOL-Library.Sublist"
begin

section \<open>Data of the image definition\<close>

text \<open>
  The types of package \<open>image\<close> that \<open>pkg/combustion/kubernetes.go\<close> reads. Only the
  fields the code and the installer template touch are kept: a node has a hostname and a
  type (both Go strings), the network has the API VIP and the API host.
\<close>

record Node =
  Hostname :: string
  Type :: string

record Network =
  APIVIP :: string
  APIHost :: string

section \<open>Template values and their reading by the template engine\<close>

text \<open>
  \<open>templateValues\<close> is a Go \<open>map[string]any\<close>. The installers store strings and, under
  \<open>nodes\<close>, the slice of nodes.
\<close>

datatype tvalue = TString string | TNodes "Node list"

type_synonym tvalues = "string \<rightharpoonup> tvalue"

text \<open>Truth of a pipeline value in a template \<open>if\<close>: a missing key, the empty
  string and the empty slice are false.\<close>

fun truth :: "tvalue option \<Rightarrow> bool" where
  "truth None = False"
| "truth (Some (TString s)) = (s \<noteq> [])"
| "truth (Some (TNodes ns)) = (ns \<noteq> [])"

text \<open>The template function \<open>and\<close>: the first false argument, or else the last one.\<close>

definition tpl_and :: "tvalue option \<Rightarrow> tvalue option \<Rightarrow> tvalue option" where
  "tpl_and a b = (if truth a then b else a)"

text \<open>Printing of a node struct and of a value in an action \<open>{{ .key }}\<close>: a missing
  key of a map prints as \<open><no value>\<close>, a slice prints its elements between brackets.\<close>

definition print_node :: "Node \<Rightarrow> string" where
  "print_node n = ''{'' @ Hostname n @ '' '' @ Type n @ ''}''"

fun join_with :: "string \<Rightarrow> string list \<Rightarrow> string" where
  "join_with sep [] = []"
| "join_with sep [x] = x"
| "join_with sep (x # y # zs) = x @ sep @ join_with sep (y # zs)"

fun print_value :: "tvalue option \<Rightarrow> string" where
  "print_value None = ''<no value>''"
| "print_value (Some (TString s)) = s"
| "print_value (Some (TNodes ns)) = ''['' @ join_with '' '' (map print_node ns) @ '']''"

text \<open>\<open>{{ range .nodes }}\<close>: a slice is iterated in order, a missing key gives no
  iteration, a string cannot be iterated (the execution of the template fails).\<close>

fun range_nodes :: "tvalue option \<Rightarrow> Node list option" where
  "range_nodes None = Some []"
| "range_nodes (Some (TNodes ns)) = Some ns"
| "range_nodes (Some (TString s)) = None"

section \<open>The shell fragment of the installer script\<close>

text \<open>
  The rendered script is kept as a list of commands instead of as text. A word is a
  sequence of segments: literal text, the expansion \<open>$NAME\<close> of a variable, and the
  expansion \<open>${a[$k]:-d}\<close> of an array element with a default.
\<close>

datatype seg =
    Lit string
  | Var string
  | ArrDefault string string string

type_synonym word = "seg list"

datatype cond =
    IsEmpty word
  | StrEq word word
  | IsFile word
  | Or cond cond

datatype cmd =
    DeclareAssoc string
  | ArrSet string word word
  | Assign string word
  | AssignCat string string
  | Export string word
  | Run "word list"
  | RunAppend "word list" string
  | CatHereDoc string "string list"
  | Exit nat
  | If cond "cmd list"

text \<open>What the script did to the machine, in order: every external command it started
  (also one that then failed), with its arguments expanded.\<close>

datatype action =
    Ran "string list"
  | Appended "string list" string
  | Wrote string "string list"

record sh_state =
  vars :: "string \<rightharpoonup> string"
  arrays :: "string \<rightharpoonup> (string \<rightharpoonup> string)"
  exported :: "string list"
  actions :: "action list"

text \<open>The machine the script boots on: the exit status of each external command,
  the output of \<open>cat\<close> on a file (trailing newlines removed, as \<open>$(...)\<close> does), the
  regular files \<open>[ -f ]\<close> sees, and the variables the script inherits from the process
  that starts it (such as \<open>ARTEFACTS_DIR\<close>). The variables of \<open>sh_state\<close> are those the
  script itself has assigned.\<close>

record boot_env =
  exit_status :: "action \<Rightarrow> nat"
  cat_out :: "string \<Rightarrow> string"
  is_file :: "string \<Rightarrow> bool"
  environ :: "string \<rightharpoonup> string"

datatype flow = Continue | Stop nat

text \<open>The value of a variable: what the script assigned to it, or else what it
  inherited.\<close>

definition lookup_var :: "boot_env \<Rightarrow> sh_state \<Rightarrow> string \<Rightarrow> string option" where
  "lookup_var env st v = (case vars st v of Some x \<Rightarrow> Some x | None \<Rightarrow> environ env v)"

text \<open>Expansion under \<open>set -u\<close> (line 2): an unset variable is an error (\<open>None\<close>).
  \<open>ArrDefault a k d\<close> is \<open>${a[$k]:-d}\<close>: the default replaces an unset and an empty
  element.\<close>

fun expand_seg :: "boot_env \<Rightarrow> sh_state \<Rightarrow> seg \<Rightarrow> string option" where
  "expand_seg env st (Lit s) = Some s"
| "expand_seg env st (Var v) = lookup_var env st v"
| "expand_seg env st (ArrDefault a k d) =
     (case lookup_var env st k of
        None \<Rightarrow> None
      | Some key \<Rightarrow>
          (case arrays st a of
             None \<Rightarrow> Some d
           | Some m \<Rightarrow>
               (case m key of
                  None \<Rightarrow> Some d
                | Some v \<Rightarrow> if v = [] then Some d else Some v)))"

fun expand :: "boot_env \<Rightarrow> sh_state \<Rightarrow> word \<Rightarrow> string option" where
  "expand env st [] = Some []"
| "expand env st (s # ss) =
     (case expand_seg env st s of
        None \<Rightarrow> None
      | Some a \<Rightarrow> (case expand env st ss of None \<Rightarrow> None | Some b \<Rightarrow> Some (a @ b)))"

fun expand_all :: "boot_env \<Rightarrow> sh_state \<Rightarrow> word list \<Rightarrow> string list option" where
  "expand_all env st [] = Some []"
| "expand_all env st (w # ws) =
     (case expand env st w of
        None \<Rightarrow> None
      | Some a \<Rightarrow> (case expand_all env st ws of None \<Rightarrow> None | Some b \<Rightarrow> Some (a # b)))"

fun eval_cond :: "boot_env \<Rightarrow> sh_state \<Rightarrow> cond \<Rightarrow> bool option" where
  "eval_cond env st (IsEmpty w) =
     (case expand env st w of None \<Rightarrow> None | Some s \<Rightarrow> Some (s = []))"
| "eval_cond env st (StrEq a b) =
     (case expand env st a of
        None \<Rightarrow> None
      | Some x \<Rightarrow> (case expand env st b of None \<Rightarrow> None | Some y \<Rightarrow> Some (x = y)))"
| "eval_cond env st (IsFile w) =
     (case expand env st w of None \<Rightarrow> None | Some s \<Rightarrow> Some (is_file env s))"
| "eval_cond env st (Or c d) =
     (case eval_cond env st c of
        None \<Rightarrow> None
      | Some True \<Rightarrow> Some True
      | Some False \<Rightarrow> eval_cond env st d)"

text \<open>An external command under \<open>set -e\<close>: it is recorded, and a non-zero status ends
  the script with that status.\<close>

definition external :: "boot_env \<Rightarrow> action \<Rightarrow> sh_state \<Rightarrow> flow \<times> sh_state" where
  "external env a st =
     (let st' = st\<lparr>actions := actions st @ [a]\<rparr>
      in if exit_status env a = 0 then (Continue, st') else (Stop (exit_status env a), st'))"

fun exec :: "boot_env \<Rightarrow> cmd \<Rightarrow> sh_state \<Rightarrow> flow \<times> sh_state"
  and exec_list :: "boot_env \<Rightarrow> cmd list \<Rightarrow> sh_state \<Rightarrow> flow \<times> sh_state" where
  "exec env (DeclareAssoc a) st =
     (Continue, st\<lparr>arrays := (arrays st)(a \<mapsto> (case arrays st a of None \<Rightarrow> Map.empty | Some m \<Rightarrow> m))\<rparr>)"
| "exec env (ArrSet a k v) st =
     (case expand env st k of
        None \<Rightarrow> (Stop 1, st)
      | Some key \<Rightarrow>
          (case expand env st v of
             None \<Rightarrow> (Stop 1, st)
           | Some x \<Rightarrow>
               (Continue,
                st\<lparr>arrays := (arrays st)
                  (a \<mapsto> (case arrays st a of None \<Rightarrow> Map.empty | Some m \<Rightarrow> m)(key \<mapsto> x))\<rparr>)))"
| "exec env (Assign x w) st =
     (case expand env st w of
        None \<Rightarrow> (Stop 1, st)
      | Some s \<Rightarrow> (Continue, st\<lparr>vars := (vars st)(x \<mapsto> s)\<rparr>))"
| "exec env (AssignCat x f) st =
     (case external env (Ran [''cat'', f]) st of
        (Stop n, st') \<Rightarrow> (Stop n, st')
      | (Continue, st') \<Rightarrow> (Continue, st'\<lparr>vars := (vars st')(x \<mapsto> cat_out env f)\<rparr>))"
| "exec env (Export x w) st =
     (case expand env st w of
        None \<Rightarrow> (Stop 1, st)
      | Some s \<Rightarrow> (Continue, st\<lparr>vars := (vars st)(x \<mapsto> s), exported := exported st @ [x]\<rparr>))"
| "exec env (Run ws) st =
     (case expand_all env st ws of
        None \<Rightarrow> (Stop 1, st)
      | Some argv \<Rightarrow> external env (Ran argv) st)"
| "exec env (RunAppend ws f) st =
     (case expand_all env st ws of
        None \<Rightarrow> (Stop 1, st)
      | Some argv \<Rightarrow> external env (Appended argv f) st)"
| "exec env (CatHereDoc f body) st = external env (Wrote f body) st"
| "exec env (Exit n) st = (Stop n, st)"
| "exec env (If c body) st =
     (case eval_cond env st c of
        None \<Rightarrow> (Stop 1, st)
      | Some True \<Rightarrow> exec_list env body st
      | Some False \<Rightarrow> (Continue, st))"
| "exec_list env [] st = (Continue, st)"
| "exec_list env (c # cs) st =
     (case exec env c st of
        (Stop n, st') \<Rightarrow> (Stop n, st')
      | (Continue, st') \<Rightarrow> exec_list env cs st')"

definition init_state :: sh_state where
  "init_state = \<lparr>vars = Map.empty, arrays = Map.empty, exported = [], actions = []\<rparr>"

definition run_script :: "boot_env \<Rightarrow> cmd list \<Rightarrow> flow \<times> sh_state" where
  "run_script env script = exec_list env script init_state"

section \<open>The multi-node k3s installer template\<close>

text \<open>
  \<open>templates/k3s-multi-node-installer.sh.tpl\<close>, action by action. The value of a key is
  printed where the template prints it; \<open>{{ if }}\<close> keeps or drops the commands of its
  body at render time, while the shell's own \<open>if\<close> stays in the script.

  The paths and names the build computes (\<open>imagesPath\<close>, \<open>configFilePath\<close>,
  \<open>initialiser\<close>, \<open>initialiserConfigFile\<close>, \<open>manifestsPath\<close>, \<open>registryMirrors\<close>,
  \<open>binaryPath\<close>, \<open>installScript\<close>) are printed outside quotes, so what is printed is
  shell text: \<open>$NAME\<close> in it is the expansion of the variable \<open>NAME\<close> when the script
  runs, as in \<open>$ARTEFACTS_DIR/kubernetes\<close>. \<open>shell_text\<close> reads such a text; every
  other character is kept as it is, which is how the shell reads the texts of
  \<open>shell_plain\<close> (letters, digits, \<open>_\<close>, \<open>/\<close>, \<open>.\<close>, \<open>-\<close>, and \<open>$\<close> before a name).
  The arguments of a command are recorded as expanded, before the shell splits fields
  and expands \<open>*\<close>.
\<close>

definition name_start :: "char \<Rightarrow> bool" where
  "name_start c = (c \<in> set ''ABCDEFGHIJKLMNOPQRSTUVWXYZabcdefghijklmnopqrstuvwxyz_'')"

definition name_char :: "char \<Rightarrow> bool" where
  "name_char c = (name_start c \<or> c \<in> set ''0123456789'')"

function shell_text :: "string \<Rightarrow> word" where
  "shell_text [] = []"
| "shell_text (c # cs) =
     (if c = CHR ''$'' \<and> cs \<noteq> [] \<and> name_start (hd cs)
      then Var (takeWhile name_char cs) # shell_text (dropWhile name_char cs)
      else Lit [c] # shell_text cs)"
  by pat_completeness auto
termination
  by (relation "measure length") (auto simp add: length_dropWhile_le less_Suc_eq_le)

fun shell_plain :: "string \<Rightarrow> bool" where
  "shell_plain [] = True"
| "shell_plain (c # cs) =
     ((if c = CHR ''$'' then cs \<noteq> [] \<and> name_start (hd cs)
       else name_char c \<or> c \<in> set ''/.-'')
      \<and> shell_plain cs)"

text \<open>\<open>refers s x\<close>: the text \<open>s\<close> has the expansion of the variable \<open>x\<close>.\<close>

definition refers :: "string \<Rightarrow> string \<Rightarrow> bool" where
  "refers s x = (Var x \<in> set (shell_text s))"

definition squote :: string where
  "squote = [CHR 0x27]"

definition dquote :: string where
  "dquote = [CHR 0x22]"

text \<open>The entries of the table (lines 6 to 8): the hostname and the type of a node are
  the key and the element as they are printed.\<close>

definition hosts_entries :: "Node list \<Rightarrow> cmd list" where
  "hosts_entries ns = map (\<lambda>n. ArrSet ''hosts'' [Lit (Hostname n)] [Lit (Type n)]) ns"

definition hostname_discovery :: "cmd list" where
  "hostname_discovery =
     [AssignCat ''HOSTNAME'' ''/etc/hostname'',
      If (IsEmpty [Var ''HOSTNAME''])
        [AssignCat ''HOSTNAME'' ''/proc/sys/kernel/hostname'',
         If (Or (IsEmpty [Var ''HOSTNAME''])
                (StrEq [Var ''HOSTNAME''] [Lit ''localhost.localdomain'']))
           [Run [[Lit ''echo''],
                 [Lit ''ERROR: Could not identify whether the host is a k3s server or agent due to missing hostname'']],
            Exit 1]]]"

definition nodetype_lookup :: "cmd list" where
  "nodetype_lookup =
     [Assign ''NODETYPE'' [ArrDefault ''hosts'' ''HOSTNAME'' ''none''],
      If (StrEq [Var ''NODETYPE''] [Lit ''none''])
        [Run [[Lit ''echo''],
              [Lit ''ERROR: Could not identify whether host '', Lit squote, Var ''HOSTNAME'',
               Lit squote, Lit '' is a k3s server or agent'']],
         Exit 1]]"

definition image_staging :: "tvalues \<Rightarrow> cmd list" where
  "image_staging vals =
     [Run [[Lit ''mount''], [Lit ''/var'']],
      Run [[Lit ''mkdir''], [Lit ''-p''], [Lit ''/var/lib/rancher/k3s/agent/images/'']],
      Run [[Lit ''cp''], shell_text (print_value (vals ''imagesPath'')) @ [Lit ''/*''],
           [Lit ''/var/lib/rancher/k3s/agent/images/'']],
      Run [[Lit ''umount''], [Lit ''/var'']]]"

definition resources_unit :: "string list" where
  "resources_unit =
     [''[Unit]'',
      ''Description=Kubernetes Resources Install'',
      ''Requires=k3s.service'',
      ''After=k3s.service'',
      ''ConditionPathExists=/opt/bin/kubectl'',
      ''ConditionPathExists=/etc/rancher/k3s/k3s.yaml'',
      [],
      ''[Install]'',
      ''WantedBy=multi-user.target'',
      [],
      ''[Service]'',
      ''Type=oneshot'',
      ''Restart=on-failure'',
      ''RestartSec=60'',
      ''ExecStart=/opt/bin/kubectl apply -f /opt/eib-k8s/manifests --kubeconfig=/etc/rancher/k3s/k3s.yaml'',
      ''# Disable the service and clean up'',
      ''ExecStartPost=/bin/sh -c '' @ dquote @ ''systemctl disable kubernetes-resources-install.service'' @ dquote,
      ''ExecStartPost=rm -f /etc/systemd/system/kubernetes-resources-install.service'',
      ''ExecStartPost=rm -rf /opt/eib-k8s'']"

definition manifests_install :: "tvalues \<Rightarrow> cmd list" where
  "manifests_install vals =
     (if truth (vals ''manifestsPath'') then
        [Run [[Lit ''mkdir''], [Lit ''-p''], [Lit ''/opt/eib-k8s/manifests'']],
         Run [[Lit ''cp''], shell_text (print_value (vals ''manifestsPath'')) @ [Lit ''/*''],
              [Lit ''/opt/eib-k8s/manifests/'']],
         CatHereDoc ''/etc/systemd/system/kubernetes-resources-install.service'' resources_unit,
         Run [[Lit ''systemctl''], [Lit ''enable''], [Lit ''kubernetes-resources-install.service'']]]
      else [])"

definition config_selection :: "tvalues \<Rightarrow> cmd list" where
  "config_selection vals =
     [Assign ''CONFIGFILE''
        (shell_text (print_value (vals ''configFilePath''))
         @ [Lit ''/'', Var ''NODETYPE'', Lit ''.yaml'']),
      If (StrEq [Var ''HOSTNAME''] (shell_text (print_value (vals ''initialiser''))))
        (Assign ''CONFIGFILE''
           (shell_text (print_value (vals ''configFilePath'')) @ [Lit ''/'']
            @ shell_text (print_value (vals ''initialiserConfigFile'')))
         # manifests_install vals)]"

text \<open>The entry for the API host (lines 67 to 69): the address and the host name are
  printed inside double quotes and kept as they are printed.\<close>

definition vip_hosts_entry :: "tvalues \<Rightarrow> cmd list" where
  "vip_hosts_entry vals =
     (if truth (tpl_and (vals ''apiVIP'') (vals ''apiHost'')) then
        [RunAppend
           [[Lit ''echo''],
            [Lit (print_value (vals ''apiVIP'')), Lit '' '', Lit (print_value (vals ''apiHost''))]]
           ''/etc/hosts'']
      else [])"

definition config_placement :: "tvalues \<Rightarrow> cmd list" where
  "config_placement vals =
     [Run [[Lit ''mkdir''], [Lit ''-p''], [Lit ''/etc/rancher/k3s/'']],
      Run [[Lit ''cp''], [Var ''CONFIGFILE''], [Lit ''/etc/rancher/k3s/config.yaml'']],
      If (IsFile (shell_text (print_value (vals ''registryMirrors''))))
        [Run [[Lit ''cp''], shell_text (print_value (vals ''registryMirrors'')),
              [Lit ''/etc/rancher/k3s/registries.yaml'']]]]"

definition runtime_installation :: "tvalues \<Rightarrow> cmd list" where
  "runtime_installation vals =
     [Export ''INSTALL_K3S_EXEC'' [Var ''NODETYPE''],
      Export ''INSTALL_K3S_SKIP_DOWNLOAD'' [Lit ''true''],
      Export ''INSTALL_K3S_SKIP_START'' [Lit ''true''],
      Export ''INSTALL_K3S_BIN_DIR'' [Lit ''/opt/bin''],
      Run [[Lit ''mkdir''], [Lit ''-p''], [Var ''INSTALL_K3S_BIN_DIR'']],
      Run [[Lit ''cp''], shell_text (print_value (vals ''binaryPath'')),
           [Var ''INSTALL_K3S_BIN_DIR'', Lit ''/k3s'']],
      Run [[Lit ''chmod''], [Lit ''+x''], [Var ''INSTALL_K3S_BIN_DIR'', Lit ''/k3s'']],
      Run [[Lit ''sh''], shell_text (print_value (vals ''installScript''))]]"

definition render_k3s_multi_node :: "tvalues \<Rightarrow> cmd list option" where
  "render_k3s_multi_node vals =
     (case range_nodes (vals ''nodes'') of
        None \<Rightarrow> None
      | Some ns \<Rightarrow>
          Some (DeclareAssoc ''hosts'' # hosts_entries ns
                @ hostname_discovery
                @ nodetype_lookup
                @ image_staging vals
                @ config_selection vals
                @ vip_hosts_entry vals
                @ config_placement vals
                @ runtime_installation vals))"

text \<open>What the shell makes of a text printed outside quotes, before the script has
  assigned a variable: its expansion in the inherited variables, \<open>None\<close> when one of
  them is unset.\<close>

definition shell_value :: "boot_env \<Rightarrow> string \<Rightarrow> string option" where
  "shell_value env s = expand env init_state (shell_text s)"

text \<open>The hostname-to-role table the script builds: a later entry for a hostname
  replaces an earlier one, as a later assignment to an array element does.\<close>

definition hosts_table :: "Node list \<Rightarrow> (string \<rightharpoonup> string)" where
  "hosts_table ns = fold (\<lambda>n m. m(Hostname n \<mapsto> Type n)) ns Map.empty"

section \<open>What a script assigns and what it writes\<close>

text \<open>\<open>assigns x c\<close>: the command \<open>c\<close> (or a command in its body) assigns the variable
  \<open>x\<close>. \<open>writes_file f c\<close>: the command redirects its output to the file \<open>f\<close>, or is a
  \<open>cp\<close> whose last argument is the literal \<open>f\<close>.\<close>

fun assigns :: "string \<Rightarrow> cmd \<Rightarrow> bool" where
  "assigns x (Assign y w) = (x = y)"
| "assigns x (AssignCat y f) = (x = y)"
| "assigns x (Export y w) = (x = y)"
| "assigns x (If c body) = list_ex (assigns x) body"
| "assigns x c = False"

fun writes_file :: "string \<Rightarrow> cmd \<Rightarrow> bool" where
  "writes_file f (RunAppend ws g) = (f = g)"
| "writes_file f (CatHereDoc g body) = (f = g)"
| "writes_file f (Run ws) = (ws \<noteq> [] \<and> hd ws = [Lit ''cp''] \<and> last ws = [Lit f])"
| "writes_file f (If c body) = list_ex (writes_file f) body"
| "writes_file f c = False"

section \<open>Paths and strings of the Go standard library\<close>

text \<open>\<open>strings.Contains\<close>: the second string occurs in the first as a contiguous run.\<close>

fun strings_Contains :: "string \<Rightarrow> string \<Rightarrow> bool" where
  "strings_Contains [] substr = (substr = [])"
| "strings_Contains (c # s) substr = (prefix substr (c # s) \<or> strings_Contains s substr)"

text \<open>\<open>filepath.Clean\<close> and \<open>filepath.Join\<close> on a Unix path: empty and \<open>.\<close> elements
  go, \<open>..\<close> removes the element before it (at the root it is dropped, at the start of a
  relative path it stays), the empty result is \<open>.\<close>; \<open>Join\<close> ignores empty arguments and
  returns the empty string when nothing is left.\<close>

fun splitOn :: "char \<Rightarrow> string \<Rightarrow> string list" where
  "splitOn c [] = [[]]"
| "splitOn c (x # xs) =
     (if x = c then [] # splitOn c xs
      else (case splitOn c xs of [] \<Rightarrow> [[x]] | h # t \<Rightarrow> (x # h) # t))"

fun clean_step :: "bool \<Rightarrow> string list \<Rightarrow> string \<Rightarrow> string list" where
  "clean_step rooted stack el =
     (if el = [] \<or> el = ''.'' then stack
      else if el = ''..'' then
        (if stack \<noteq> [] \<and> last stack \<noteq> ''..'' then butlast stack
         else if rooted then stack
         else stack @ [el])
      else stack @ [el])"

definition filepath_Clean :: "string \<Rightarrow> string" where
  "filepath_Clean path =
     (if path = [] then ''.''
      else
        (let rooted = (hd path = CHR ''/'');
             stack = foldl (clean_step rooted) [] (splitOn (CHR ''/'') path);
             out = (if rooted then ''/'' else []) @ join_with ''/'' stack
         in if out = [] then ''.'' else out))"

definition filepath_Join :: "string list \<Rightarrow> string" where
  "filepath_Join elems =
     (let nonempty = filter (\<lambda>e. e \<noteq> []) elems
      in if nonempty = [] then [] else filepath_Clean (join_with ''/'' nonempty))"

section \<open>The build: data, collaborators and the record of calls\<close>

text \<open>A Go \<open>error\<close> is its message; \<open>fmt.Errorf("...: %w", err)\<close> puts a prefix
  before the message of the error it wraps.\<close>

type_synonym error = string

record Kubernetes =
  Version :: string
  Nodes :: "Node list"
  Network :: Network

record Image =
  Arch :: string

record ImageDefinition =
  Image :: Image
  Kubernetes :: Kubernetes

record Context =
  ImageConfigDir :: string
  CombustionDir :: string
  ArtefactsDir :: string
  ImageDefinition :: ImageDefinition

text \<open>A cluster configuration is a \<open>map[string]any\<close> that this code only hands to the
  YAML encoder.\<close>

datatype yaml =
    YString string
  | YBool bool
  | YInt int
  | YList "yaml list"
  | YMap "(string \<times> yaml) list"

record Cluster =
  InitialiserName :: string
  InitialiserConfig :: "yaml option"
  ServerConfig :: yaml
  AgentConfig :: "yaml option"

record Metadata =
  Name :: string

record HelmChart =
  Metadata :: Metadata
  Content :: yaml

text \<open>The registry collaborator \<open>c.Registry\<close>, by what its two methods return.\<close>

record registry =
  ManifestsPath :: string
  HelmCharts :: "error + HelmChart list"

record DirEntry =
  EntryName :: string
  IsDir :: bool

datatype FileMode = ModePerm | ExecutablePerms | NonExecutablePerms

text \<open>The embedded templates, and the data a template is rendered with: the installer
  templates get the map of template values (an association list: a Go map literal and
  the assignments that follow it), the VIP manifest gets a struct of an address and a
  flag.\<close>

datatype template =
    rke2SingleNodeInstaller
  | rke2MultiNodeInstaller
  | k3sSingleNodeInstaller
  | k3sMultiNodeInstaller
  | k8sVIPManifest

datatype tdata =
    TMap "(string \<times> tvalue) list"
  | TVIP string bool

text \<open>Every call that leaves the package is recorded, in order, with its arguments.\<close>

datatype event =
    MkdirAll string FileMode
  | WriteFile string string FileMode
  | ReadDir string
  | DownloadInstallScript string string
  | DownloadK3sArtefacts string string string string
  | DownloadRKE2Artefacts string string string bool string string
  | CopyFiles string string string bool
  | TemplateParse string template tdata
  | NewCluster Kubernetes string

datatype log_entry =
    AuditComponentSkipped string
  | AuditComponentFailed string
  | AuditComponentSuccessful string
  | Audit string
  | ZapInfo string
  | ZapWarn string

record world =
  events :: "event list"
  logs :: "log_entry list"

text \<open>
  What is outside \<open>kubernetes.go\<close>: the operating system, the downloaders, the file copy
  of \<open>fileio\<close>, the registry, the cluster package, the template and YAML encoders, and
  the helpers and constants of the package that other files declare. The result of a
  call on the file system may depend on every call made before it, so those functions
  take the record of calls so far.
\<close>

record platform =
  mkdirAll_result :: "event list \<Rightarrow> string \<Rightarrow> FileMode \<Rightarrow> error option"
  writeFile_result :: "event list \<Rightarrow> string \<Rightarrow> string \<Rightarrow> FileMode \<Rightarrow> error option"
  readDir_result :: "event list \<Rightarrow> string \<Rightarrow> error + DirEntry list"
  installScript_result :: "event list \<Rightarrow> string \<Rightarrow> string \<Rightarrow> error + string"
  k3sArtefacts_result :: "event list \<Rightarrow> string \<Rightarrow> string \<Rightarrow> string \<Rightarrow> string \<Rightarrow> error option"
  rke2Artefacts_result ::
    "event list \<Rightarrow> string \<Rightarrow> string \<Rightarrow> string \<Rightarrow> bool \<Rightarrow> string \<Rightarrow> string \<Rightarrow> error option"
  copyFiles_result :: "event list \<Rightarrow> string \<Rightarrow> string \<Rightarrow> string \<Rightarrow> bool \<Rightarrow> error option"
  Registry :: "registry option"
  newCluster_result :: "Kubernetes \<Rightarrow> string \<Rightarrow> error + Cluster"
  ServersCount :: "Node list \<Rightarrow> int"
  ExtractCNI :: "Cluster \<Rightarrow> error + (string \<times> bool)"
  parse_result :: "string \<Rightarrow> template \<Rightarrow> tdata \<Rightarrow> error + string"
  yaml_Marshal :: "yaml \<Rightarrow> error + string"
  yaml_Marshal_chart :: "HelmChart \<Rightarrow> error + string"
  fmt_entries :: "DirEntry list \<Rightarrow> string"
  generateComponentPath :: "Context \<Rightarrow> string \<Rightarrow> string"
  prependArtefactPath :: "string \<Rightarrow> string"
  KubernetesDistroRKE2 :: string
  KubernetesDistroK3S :: string
  registryMirrorsFileName :: string

definition record_event :: "event \<Rightarrow> world \<Rightarrow> world" where
  "record_event e w = w\<lparr>events := events w @ [e]\<rparr>"

definition log :: "log_entry \<Rightarrow> world \<Rightarrow> world" where
  "log l w = w\<lparr>logs := logs w @ [l]\<rparr>"

definition os_MkdirAll :: "platform \<Rightarrow> string \<Rightarrow> FileMode \<Rightarrow> world \<Rightarrow> error option \<times> world" where
  "os_MkdirAll p path mode w =
     (mkdirAll_result p (events w) path mode, record_event (MkdirAll path mode) w)"

definition os_WriteFile ::
  "platform \<Rightarrow> string \<Rightarrow> string \<Rightarrow> FileMode \<Rightarrow> world \<Rightarrow> error option \<times> world" where
  "os_WriteFile p path data mode w =
     (writeFile_result p (events w) path data mode, record_event (WriteFile path data mode) w)"

definition os_ReadDir :: "platform \<Rightarrow> string \<Rightarrow> world \<Rightarrow> (error + DirEntry list) \<times> world" where
  "os_ReadDir p path w = (readDir_result p (events w) path, record_event (ReadDir path) w)"

definition downloader_DownloadInstallScript ::
  "platform \<Rightarrow> string \<Rightarrow> string \<Rightarrow> world \<Rightarrow> (error + string) \<times> world" where
  "downloader_DownloadInstallScript p distribution path w =
     (installScript_result p (events w) distribution path,
      record_event (DownloadInstallScript distribution path) w)"

definition downloader_DownloadK3sArtefacts ::
  "platform \<Rightarrow> string \<Rightarrow> string \<Rightarrow> string \<Rightarrow> string \<Rightarrow> world \<Rightarrow> error option \<times> world" where
  "downloader_DownloadK3sArtefacts p arch version installDir imagesDir w =
     (k3sArtefacts_result p (events w) arch version installDir imagesDir,
      record_event (DownloadK3sArtefacts arch version installDir imagesDir) w)"

definition downloader_DownloadRKE2Artefacts ::
  "platform \<Rightarrow> string \<Rightarrow> string \<Rightarrow> string \<Rightarrow> bool \<Rightarrow> string \<Rightarrow> string \<Rightarrow> world
     \<Rightarrow> error option \<times> world" where
  "downloader_DownloadRKE2Artefacts p arch version cni multus installDir imagesDir w =
     (rke2Artefacts_result p (events w) arch version cni multus installDir imagesDir,
      record_event (DownloadRKE2Artefacts arch version cni multus installDir imagesDir) w)"

text \<open>\<open>fileio.CopyFiles\<close> is one call that leaves the package; what it does to its
  destination is not in these sources.\<close>

definition fileio_CopyFiles ::
  "platform \<Rightarrow> string \<Rightarrow> string \<Rightarrow> string \<Rightarrow> bool \<Rightarrow> world \<Rightarrow> error option \<times> world" where
  "fileio_CopyFiles p src dest ext copySubDir w =
     (copyFiles_result p (events w) src dest ext copySubDir,
      record_event (CopyFiles src dest ext copySubDir) w)"

definition template_Parse ::
  "platform \<Rightarrow> string \<Rightarrow> template \<Rightarrow> tdata \<Rightarrow> world \<Rightarrow> (error + string) \<times> world" where
  "template_Parse p name contents data w =
     (parse_result p name contents data, record_event (TemplateParse name contents data) w)"

definition kubernetes_NewCluster ::
  "platform \<Rightarrow> Kubernetes \<Rightarrow> string \<Rightarrow> world \<Rightarrow> (error + Cluster) \<times> world" where
  "kubernetes_NewCluster p k configPath w =
     (newCluster_result p k configPath, record_event (NewCluster k configPath) w)"

section \<open>\<open>pkg/combustion/kubernetes.go\<close>\<close>

definition k8sComponentName :: string where
  "k8sComponentName = ''kubernetes''"

definition k8sDir :: string where
  "k8sDir = ''kubernetes''"

definition k8sConfigDir :: string where
  "k8sConfigDir = ''config''"

definition k8sInstallDir :: string where
  "k8sInstallDir = ''install''"

definition k8sImagesDir :: string where
  "k8sImagesDir = ''images''"

definition k8sManifestsDir :: string where
  "k8sManifestsDir = ''manifests''"

definition k8sInitServerConfigFile :: string where
  "k8sInitServerConfigFile = ''init_server.yaml''"

definition k8sServerConfigFile :: string where
  "k8sServerConfigFile = ''server.yaml''"

definition k8sAgentConfigFile :: string where
  "k8sAgentConfigFile = ''agent.yaml''"

definition k8sInstallScript :: string where
  "k8sInstallScript = ''20-k8s-install.sh''"

definition kubernetesArtefactsPath :: "Context \<Rightarrow> string" where
  "kubernetesArtefactsPath ctx = filepath_Join [ArtefactsDir ctx, k8sDir]"

definition localKubernetesManifestsPath :: string where
  "localKubernetesManifestsPath = filepath_Join [k8sDir, k8sManifestsDir]"

definition downloadKubernetesInstallScript ::
  "platform \<Rightarrow> Context \<Rightarrow> string \<Rightarrow> world \<Rightarrow> (error + string) \<times> world" where
  "downloadKubernetesInstallScript p ctx distribution w =
     (let path = kubernetesArtefactsPath ctx
      in case downloader_DownloadInstallScript p distribution path w of
           (Inl err, w1) \<Rightarrow> (Inl (''downloading install script: '' @ err), w1)
         | (Inr installScript, w1) \<Rightarrow>
             (Inr (prependArtefactPath p (filepath_Join [k8sDir, installScript])), w1))"

definition storeKubernetesInstaller ::
  "platform \<Rightarrow> Context \<Rightarrow> string \<Rightarrow> template \<Rightarrow> tdata \<Rightarrow> world \<Rightarrow> (error + string) \<times> world" where
  "storeKubernetesInstaller p ctx templateName templateContents templateValues w =
     (case template_Parse p templateName templateContents templateValues w of
        (Inl err, w1) \<Rightarrow>
          (Inl (''parsing '' @ squote @ templateName @ squote @ '' template: '' @ err), w1)
      | (Inr data, w1) \<Rightarrow>
          (let installScript = filepath_Join [CombustionDir ctx, k8sInstallScript]
           in case os_WriteFile p installScript data ExecutablePerms w1 of
                (Some err, w2) \<Rightarrow> (Inl (''writing kubernetes install script: '' @ err), w2)
              | (None, w2) \<Rightarrow> (Inr k8sInstallScript, w2)))"

definition downloadK3sArtefacts ::
  "platform \<Rightarrow> Context \<Rightarrow> world \<Rightarrow> (error + string \<times> string) \<times> world" where
  "downloadK3sArtefacts p ctx w =
     (let imagesPath = filepath_Join [k8sDir, k8sImagesDir];
          imagesDestination = filepath_Join [ArtefactsDir ctx, imagesPath]
      in case os_MkdirAll p imagesDestination ModePerm w of
           (Some err, w1) \<Rightarrow> (Inl (''creating kubernetes images dir: '' @ err), w1)
         | (None, w1) \<Rightarrow>
      (let installPath = filepath_Join [k8sDir, k8sInstallDir];
           installDestination = filepath_Join [ArtefactsDir ctx, installPath]
       in case os_MkdirAll p installDestination ModePerm w1 of
            (Some err, w2) \<Rightarrow> (Inl (''creating kubernetes install dir: '' @ err), w2)
          | (None, w2) \<Rightarrow>
       (case downloader_DownloadK3sArtefacts p
               (Arch (Image (ImageDefinition ctx)))
               (Version (Kubernetes (ImageDefinition ctx)))
               installDestination imagesDestination w2 of
          (Some err, w3) \<Rightarrow> (Inl (''downloading artefacts: '' @ err), w3)
        | (None, w3) \<Rightarrow>
       (case os_ReadDir p installDestination w3 of
          (Inl err, w4) \<Rightarrow> (Inl (''reading k3s install path: '' @ err), w4)
        | (Inr entries, w4) \<Rightarrow>
            if length entries \<noteq> 1 \<or> IsDir (entries ! 0) then
              (Inl (''k3s install path contains unexpected entries: '' @ fmt_entries p entries), w4)
            else
              (let binaryPath = filepath_Join [installPath, EntryName (entries ! 0)]
               in (Inr (prependArtefactPath p binaryPath, prependArtefactPath p imagesPath),
                   w4))))))"

definition downloadRKE2Artefacts ::
  "platform \<Rightarrow> Context \<Rightarrow> Cluster \<Rightarrow> world \<Rightarrow> (error + string \<times> string) \<times> world" where
  "downloadRKE2Artefacts p ctx cluster w =
     (case ExtractCNI p cluster of
        Inl err \<Rightarrow> (Inl (''extracting CNI from cluster config: '' @ err), w)
      | Inr (cni, multusEnabled) \<Rightarrow>
     (let imagesPath = filepath_Join [k8sDir, k8sImagesDir];
          imagesDestination = filepath_Join [ArtefactsDir ctx, imagesPath]
      in case os_MkdirAll p imagesDestination ModePerm w of
           (Some err, w1) \<Rightarrow> (Inl (''creating kubernetes images dir: '' @ err), w1)
         | (None, w1) \<Rightarrow>
      (let installPath = filepath_Join [k8sDir, k8sInstallDir];
           installDestination = filepath_Join [ArtefactsDir ctx, installPath]
       in case os_MkdirAll p installDestination ModePerm w1 of
            (Some err, w2) \<Rightarrow> (Inl (''creating kubernetes install dir: '' @ err), w2)
          | (None, w2) \<Rightarrow>
       (case downloader_DownloadRKE2Artefacts p
               (Arch (Image (ImageDefinition ctx)))
               (Version (Kubernetes (ImageDefinition ctx)))
               cni multusEnabled installDestination imagesDestination w2 of
          (Some err, w3) \<Rightarrow> (Inl (''downloading artefacts: '' @ err), w3)
        | (None, w3) \<Rightarrow>
            (Inr (prependArtefactPath p installPath, prependArtefactPath p imagesPath), w3)))))"

definition kubernetesVIPManifest :: "platform \<Rightarrow> Kubernetes \<Rightarrow> world \<Rightarrow> (error + string) \<times> world" where
  "kubernetesVIPManifest p k w =
     template_Parse p ''k8s-vip'' k8sVIPManifest
       (TVIP (APIVIP (Network k)) (strings_Contains (Version k) (KubernetesDistroRKE2 p))) w"

definition storeKubernetesConfig ::
  "platform \<Rightarrow> yaml \<Rightarrow> string \<Rightarrow> world \<Rightarrow> error option \<times> world" where
  "storeKubernetesConfig p config configPath w =
     (case yaml_Marshal p config of
        Inl err \<Rightarrow> (Some (''serializing kubernetes config: '' @ err), w)
      | Inr data \<Rightarrow> os_WriteFile p configPath data NonExecutablePerms w)"

definition storeKubernetesClusterConfig ::
  "platform \<Rightarrow> Cluster \<Rightarrow> string \<Rightarrow> world \<Rightarrow> error option \<times> world" where
  "storeKubernetesClusterConfig p cluster destPath w =
     (let serverConfig = filepath_Join [destPath, k8sServerConfigFile]
      in case storeKubernetesConfig p (ServerConfig cluster) serverConfig w of
           (Some err, w1) \<Rightarrow> (Some (''storing server config file: '' @ err), w1)
         | (None, w1) \<Rightarrow>
      (case (case InitialiserConfig cluster of
               None \<Rightarrow> (None, w1)
             | Some config \<Rightarrow>
                 (let initialiserConfig = filepath_Join [destPath, k8sInitServerConfigFile]
                  in case storeKubernetesConfig p config initialiserConfig w1 of
                       (Some err, w2) \<Rightarrow> (Some (''storing init server config file: '' @ err), w2)
                     | (None, w2) \<Rightarrow> (None, w2))) of
         (Some err, w2) \<Rightarrow> (Some err, w2)
       | (None, w2) \<Rightarrow>
      (case AgentConfig cluster of
         None \<Rightarrow> (None, w2)
       | Some config \<Rightarrow>
           (let agentConfig = filepath_Join [destPath, k8sAgentConfigFile]
            in case storeKubernetesConfig p config agentConfig w2 of
                 (Some err, w3) \<Rightarrow> (Some (''storing agent config file: '' @ err), w3)
               | (None, w3) \<Rightarrow> (None, w3)))))"

text \<open>The loop of \<open>configureManifests\<close> over the Helm charts.\<close>

fun storeHelmCharts :: "platform \<Rightarrow> string \<Rightarrow> HelmChart list \<Rightarrow> world \<Rightarrow> error option \<times> world" where
  "storeHelmCharts p manifestDestDir [] w = (None, w)"
| "storeHelmCharts p manifestDestDir (chart # charts) w =
     (case yaml_Marshal_chart p chart of
        Inl err \<Rightarrow> (Some (''marshaling helm chart: '' @ err), w)
      | Inr data \<Rightarrow>
          (let chartFileName = Name (Metadata chart) @ ''.yaml''
           in case os_WriteFile p (filepath_Join [manifestDestDir, chartFileName]) data
                     NonExecutablePerms w of
                (Some err, w1) \<Rightarrow> (Some (''storing helm chart: '' @ err), w1)
              | (None, w1) \<Rightarrow> storeHelmCharts p manifestDestDir charts w1))"

text \<open>\<open>configureManifests\<close> in its parts: the VIP manifest (lines 370 to 386), the raw
  manifests of the registry (lines 389 to 395) and its Helm charts (lines 397 to 420).
  Each part returns the error it stops with, or the value of \<open>manifestsPathPopulated\<close>
  after it.\<close>

definition configureManifests_vip ::
  "platform \<Rightarrow> Context \<Rightarrow> string \<Rightarrow> world \<Rightarrow> (error + bool) \<times> world" where
  "configureManifests_vip p ctx manifestDestDir w =
     (if APIVIP (Network (Kubernetes (ImageDefinition ctx))) \<noteq> [] then
        (case os_MkdirAll p manifestDestDir ModePerm w of
           (Some err, w1) \<Rightarrow> (Inl (''creating manifests destination dir: '' @ err), w1)
         | (None, w1) \<Rightarrow>
        (case kubernetesVIPManifest p (Kubernetes (ImageDefinition ctx)) w1 of
           (Inl err, w2) \<Rightarrow> (Inl (''parsing VIP manifest: '' @ err), w2)
         | (Inr manifest, w2) \<Rightarrow>
             (let manifestPath = filepath_Join [manifestDestDir, ''k8s-vip.yaml'']
              in case os_WriteFile p manifestPath manifest NonExecutablePerms w2 of
                   (Some err, w3) \<Rightarrow> (Inl (''storing VIP manifest: '' @ err), w3)
                 | (None, w3) \<Rightarrow> (Inr True, w3))))
      else (Inr False, w))"

definition configureManifests_raw ::
  "platform \<Rightarrow> registry \<Rightarrow> string \<Rightarrow> bool \<Rightarrow> world \<Rightarrow> (error + bool) \<times> world" where
  "configureManifests_raw p reg manifestDestDir populated w =
     (if ManifestsPath reg \<noteq> [] then
        (case fileio_CopyFiles p (ManifestsPath reg) manifestDestDir [] False w of
           (Some err, w1) \<Rightarrow> (Inl (''copying manifests to combustion dir: '' @ err), w1)
         | (None, w1) \<Rightarrow> (Inr True, w1))
      else (Inr populated, w))"

definition configureManifests_charts ::
  "platform \<Rightarrow> registry \<Rightarrow> string \<Rightarrow> bool \<Rightarrow> world \<Rightarrow> (error + bool) \<times> world" where
  "configureManifests_charts p reg manifestDestDir populated w =
     (case HelmCharts reg of
        Inl err \<Rightarrow> (Inl (''getting helm charts: '' @ err), w)
      | Inr charts \<Rightarrow>
          if length charts \<noteq> 0 then
            (case os_MkdirAll p manifestDestDir ModePerm w of
               (Some err, w1) \<Rightarrow> (Inl (''creating manifests destination dir: '' @ err), w1)
             | (None, w1) \<Rightarrow>
                 (case storeHelmCharts p manifestDestDir charts w1 of
                    (Some err, w2) \<Rightarrow> (Inl err, w2)
                  | (None, w2) \<Rightarrow> (Inr True, w2)))
          else (Inr populated, w))"

definition configureManifests_registry ::
  "platform \<Rightarrow> registry \<Rightarrow> string \<Rightarrow> bool \<Rightarrow> world \<Rightarrow> (error + bool) \<times> world" where
  "configureManifests_registry p reg manifestDestDir populated w =
     (case configureManifests_raw p reg manifestDestDir populated w of
        (Inl err, w1) \<Rightarrow> (Inl err, w1)
      | (Inr populated1, w1) \<Rightarrow> configureManifests_charts p reg manifestDestDir populated1 w1)"

definition configureManifests :: "platform \<Rightarrow> Context \<Rightarrow> world \<Rightarrow> (error + string) \<times> world" where
  "configureManifests p ctx w =
     (let manifestsPath = localKubernetesManifestsPath;
          manifestDestDir = filepath_Join [ArtefactsDir ctx, manifestsPath]
      in case configureManifests_vip p ctx manifestDestDir w of
           (Inl err, w1) \<Rightarrow> (Inl err, w1)
         | (Inr populated, w1) \<Rightarrow>
      (case (case Registry p of
               None \<Rightarrow> (Inr populated, w1)
             | Some reg \<Rightarrow> configureManifests_registry p reg manifestDestDir populated w1) of
         (Inl err, w2) \<Rightarrow> (Inl err, w2)
       | (Inr manifestsPathPopulated, w2) \<Rightarrow>
           if \<not> manifestsPathPopulated then (Inr [], w2)
           else (Inr (prependArtefactPath p manifestsPath), w2)))"

text \<open>The map literal both installers start from; the key of the staged runtime is
  \<open>binaryPath\<close> for k3s and \<open>installPath\<close> for RKE2.\<close>

definition templateValues_base ::
  "platform \<Rightarrow> Context \<Rightarrow> string \<Rightarrow> string \<Rightarrow> string \<Rightarrow> string \<Rightarrow> string
     \<Rightarrow> (string \<times> tvalue) list" where
  "templateValues_base p ctx installScript runtimeKey runtimePath imagesPath manifestsPath =
     [(''installScript'', TString installScript),
      (''apiVIP'', TString (APIVIP (Network (Kubernetes (ImageDefinition ctx))))),
      (''apiHost'', TString (APIHost (Network (Kubernetes (ImageDefinition ctx))))),
      (runtimeKey, TString runtimePath),
      (''imagesPath'', TString imagesPath),
      (''manifestsPath'', TString manifestsPath),
      (''configFilePath'', TString (prependArtefactPath p k8sDir)),
      (''registryMirrors'',
         TString (prependArtefactPath p (filepath_Join [k8sDir, registryMirrorsFileName p])))]"

text \<open>\<open>templateValues[key] = v\<close> on a Go map.\<close>

fun map_assign :: "string \<Rightarrow> tvalue \<Rightarrow> (string \<times> tvalue) list \<Rightarrow> (string \<times> tvalue) list" where
  "map_assign k v [] = [(k, v)]"
| "map_assign k v ((k', v') # kvs) =
     (if k = k' then (k, v) # kvs else (k', v') # map_assign k v kvs)"

definition configureK3S ::
  "platform \<Rightarrow> Context \<Rightarrow> Cluster \<Rightarrow> world \<Rightarrow> (error + string) \<times> world" where
  "configureK3S p ctx cluster w0 =
     (let w = log (ZapInfo ''Configuring K3s cluster'') w0
      in case downloadKubernetesInstallScript p ctx (KubernetesDistroK3S p) w of
           (Inl err, w1) \<Rightarrow> (Inl (''downloading k3s install script: '' @ err), w1)
         | (Inr installScript, w1) \<Rightarrow>
      (case downloadK3sArtefacts p ctx w1 of
         (Inl err, w2) \<Rightarrow> (Inl (''downloading k3s artefacts: '' @ err), w2)
       | (Inr (binaryPath, imagesPath), w2) \<Rightarrow>
      (case configureManifests p ctx w2 of
         (Inl err, w3) \<Rightarrow> (Inl (''configuring kubernetes manifests: '' @ err), w3)
       | (Inr manifestsPath, w3) \<Rightarrow>
      (let templateValues =
             templateValues_base p ctx installScript ''binaryPath'' binaryPath imagesPath manifestsPath;
           singleNode = (length (Nodes (Kubernetes (ImageDefinition ctx))) < 2)
       in if singleNode then
            (let w4 =
                   (if APIVIP (Network (Kubernetes (ImageDefinition ctx))) = [] then
                      log (ZapInfo ''Virtual IP address for k3s cluster is not provided and will not be configured'') w3
                    else
                      log (ZapWarn ''Virtual IP address for k3s cluster is requested and will invalidate Traefik configuration'')
                        (log (Audit (''WARNING: A Virtual IP address for the k3s cluster has been provided. '' @
                                     ''An external IP address for the Ingress Controller (Traefik) must be manually configured.''))
                           w3))
             in storeKubernetesInstaller p ctx ''single-node-k3s'' k3sSingleNodeInstaller
                  (TMap (map_assign ''configFile'' (TString k8sServerConfigFile) templateValues)) w4)
          else
            (let w4 =
                   log (ZapWarn ''Virtual IP address for k3s cluster is necessary for multi node clusters and will invalidate Traefik configuration'')
                     (log (Audit ''WARNING: An external IP address for the Ingress Controller (Traefik) must be manually configured in multi-node clusters.'')
                        w3)
             in storeKubernetesInstaller p ctx ''multi-node-k3s'' k3sMultiNodeInstaller
                  (TMap (map_assign ''initialiserConfigFile'' (TString k8sInitServerConfigFile)
                           (map_assign ''initialiser'' (TString (InitialiserName cluster))
                              (map_assign ''nodes'' (TNodes (Nodes (Kubernetes (ImageDefinition ctx))))
                                 templateValues))))
                  w4)))))"

definition configureRKE2 ::
  "platform \<Rightarrow> Context \<Rightarrow> Cluster \<Rightarrow> world \<Rightarrow> (error + string) \<times> world" where
  "configureRKE2 p ctx cluster w0 =
     (let w = log (ZapInfo ''Configuring RKE2 cluster'') w0
      in case downloadKubernetesInstallScript p ctx (KubernetesDistroRKE2 p) w of
           (Inl err, w1) \<Rightarrow> (Inl (''downloading RKE2 install script: '' @ err), w1)
         | (Inr installScript, w1) \<Rightarrow>
      (case downloadRKE2Artefacts p ctx cluster w1 of
         (Inl err, w2) \<Rightarrow> (Inl (''downloading RKE2 artefacts: '' @ err), w2)
       | (Inr (installPath, imagesPath), w2) \<Rightarrow>
      (case configureManifests p ctx w2 of
         (Inl err, w3) \<Rightarrow> (Inl (''configuring kubernetes manifests: '' @ err), w3)
       | (Inr manifestsPath, w3) \<Rightarrow>
      (let templateValues =
             templateValues_base p ctx installScript ''installPath'' installPath imagesPath manifestsPath;
           singleNode = (length (Nodes (Kubernetes (ImageDefinition ctx))) < 2)
       in if singleNode then
            (let w4 =
                   (if APIVIP (Network (Kubernetes (ImageDefinition ctx))) = [] then
                      log (ZapInfo ''Virtual IP address for RKE2 cluster is not provided and will not be configured'') w3
                    else w3)
             in storeKubernetesInstaller p ctx ''single-node-rke2'' rke2SingleNodeInstaller
                  (TMap (map_assign ''configFile'' (TString k8sServerConfigFile) templateValues)) w4)
          else
            storeKubernetesInstaller p ctx ''multi-node-rke2'' rke2MultiNodeInstaller
              (TMap (map_assign ''initialiserConfigFile'' (TString k8sInitServerConfigFile)
                       (map_assign ''initialiser'' (TString (InitialiserName cluster))
                          (map_assign ''nodes'' (TNodes (Nodes (Kubernetes (ImageDefinition ctx))))
                             templateValues))))
              w3))))"

definition kubernetesConfigurator ::
  "platform \<Rightarrow> string \<Rightarrow> (Context \<Rightarrow> Cluster \<Rightarrow> world \<Rightarrow> (error + string) \<times> world) option" where
  "kubernetesConfigurator p version =
     (if strings_Contains version (KubernetesDistroRKE2 p) then Some (configureRKE2 p)
      else if strings_Contains version (KubernetesDistroK3S p) then Some (configureK3S p)
      else None)"

text \<open>\<open>configureKubernetes\<close> returns the list of scripts; \<open>(nil, nil)\<close> is the empty
  list without an error.\<close>

definition configureKubernetes ::
  "platform \<Rightarrow> Context \<Rightarrow> world \<Rightarrow> (error + string list) \<times> world" where
  "configureKubernetes p ctx w =
     (let version = Version (Kubernetes (ImageDefinition ctx))
      in if version = [] then (Inr [], log (AuditComponentSkipped k8sComponentName) w)
         else
      (case kubernetesConfigurator p version of
         None \<Rightarrow>
           (Inl (''cannot configure kubernetes version: '' @ version),
            log (AuditComponentFailed k8sComponentName) w)
       | Some configureFunc \<Rightarrow>
      (let w1 = log (Audit ''Configuring Kubernetes component...'') w;
           w2 = (if ServersCount p (Nodes (Kubernetes (ImageDefinition ctx))) = 2 then
                   log (ZapWarn ''Kubernetes cluster of two server nodes has been requested'')
                     (log (Audit ''WARNING: Kubernetes clusters consisting of two server nodes cannot form a highly available architecture'')
                        w1)
                 else w1);
           configDir = generateComponentPath p ctx k8sDir;
           configPath = filepath_Join [configDir, k8sConfigDir]
       in case kubernetes_NewCluster p (Kubernetes (ImageDefinition ctx)) configPath w2 of
            (Inl err, w3) \<Rightarrow>
              (Inl (''initialising cluster config: '' @ err),
               log (AuditComponentFailed k8sComponentName) w3)
          | (Inr cluster, w3) \<Rightarrow>
       (let artefactsPath = kubernetesArtefactsPath ctx
        in case os_MkdirAll p artefactsPath ModePerm w3 of
             (Some err, w4) \<Rightarrow> (Inl (''creating kubernetes artefacts path: '' @ err), w4)
           | (None, w4) \<Rightarrow>
        (case storeKubernetesClusterConfig p cluster artefactsPath w4 of
           (Some err, w5) \<Rightarrow>
             (Inl (''storing cluster config: '' @ err),
              log (AuditComponentFailed k8sComponentName) w5)
         | (None, w5) \<Rightarrow>
        (case configureFunc ctx cluster w5 of
           (Inl err, w6) \<Rightarrow>
             (Inl (''configuring kubernetes components: '' @ err),
              log (AuditComponentFailed k8sComponentName) w6)
         | (Inr script, w6) \<Rightarrow>
             (Inr [script], log (AuditComponentSuccessful k8sComponentName) w6)))))))"


section \<open>Directory creation before file placement, read off the record of calls\<close>

text \<open>
  A call creates the directory \<open>d\<close> when it is \<open>os.MkdirAll\<close> of \<open>d\<close> and returns no
  error (the result is the one the platform gave after the calls \<open>h\<close> made before it).
  \<open>created_after\<close> runs over the calls \<open>es\<close> that follow \<open>h\<close> and says whether the
  directory has been created by their end; \<open>placed_after_creation\<close> says that each of
  those calls that places files came after a creating one.
\<close>

fun creates :: "platform \<Rightarrow> string \<Rightarrow> event list \<Rightarrow> event \<Rightarrow> bool" where
  "creates p d h (MkdirAll path mode) = (path = d \<and> mkdirAll_result p h path mode = None)"
| "creates p d h e = False"

fun created_after :: "platform \<Rightarrow> string \<Rightarrow> bool \<Rightarrow> event list \<Rightarrow> event list \<Rightarrow> bool" where
  "created_after p d created h [] = created"
| "created_after p d created h (e # es) =
     created_after p d (created \<or> creates p d h e) (h @ [e]) es"

fun placed_after_creation ::
  "platform \<Rightarrow> string \<Rightarrow> (event \<Rightarrow> bool) \<Rightarrow> bool \<Rightarrow> event list \<Rightarrow> event list \<Rightarrow> bool" where
  "placed_after_creation p d places created h [] = True"
| "placed_after_creation p d places created h (e # es) =
     ((places e \<longrightarrow> created)
      \<and> placed_after_creation p d places (created \<or> creates p d h e) (h @ [e]) es)"




text \<open>The calls made between two states of the build.\<close>

definition new_events :: "world \<Rightarrow> world \<Rightarrow> event list" where
  "new_events w w' = drop (length (events w)) (events w')"

section \<open>A concrete build and a concrete machine\<close>

text \<open>A three-node cluster (\<open>node-1\<close> the initialising server, two agents) on a platform
  where every call succeeds and the k3s install directory holds the one binary; the
  properties below are also evaluated on it.\<close>

definition demo_nodes :: "Node list" where
  "demo_nodes =
     [\<lparr>Hostname = ''node-1'', Type = ''server''\<rparr>,
      \<lparr>Hostname = ''node-2'', Type = ''agent''\<rparr>,
      \<lparr>Hostname = ''node-3'', Type = ''agent''\<rparr>]"

definition demo_ctx :: "string \<Rightarrow> Node list \<Rightarrow> string \<Rightarrow> string \<Rightarrow> Context" where
  "demo_ctx version nodes vip host =
     \<lparr>ImageConfigDir = ''/eib'', CombustionDir = ''/build/combustion'',
      ArtefactsDir = ''/build/artefacts'',
      ImageDefinition =
        \<lparr>Image = \<lparr>Arch = ''x86_64''\<rparr>,
         Kubernetes = \<lparr>Version = version, Nodes = nodes,
                       Network = \<lparr>APIVIP = vip, APIHost = host\<rparr>\<rparr>\<rparr>\<rparr>"

definition demo_cluster :: Cluster where
  "demo_cluster =
     \<lparr>InitialiserName = ''node-1'', InitialiserConfig = Some (YMap []),
      ServerConfig = YMap [], AgentConfig = Some (YMap [])\<rparr>"

definition demo_platform :: "registry option \<Rightarrow> DirEntry list \<Rightarrow> platform" where
  "demo_platform reg entries =
     \<lparr>mkdirAll_result = (\<lambda>h path mode. None),
      writeFile_result = (\<lambda>h path data mode. None),
      readDir_result = (\<lambda>h path. Inr entries),
      installScript_result = (\<lambda>h distribution path. Inr ''install.sh''),
      k3sArtefacts_result = (\<lambda>h arch version installDir imagesDir. None),
      rke2Artefacts_result = (\<lambda>h arch version cni multus installDir imagesDir. None),
      copyFiles_result = (\<lambda>h src dest ext copySubDir. None),
      Registry = reg,
      newCluster_result = (\<lambda>k configPath. Inr demo_cluster),
      ServersCount = (\<lambda>ns. int (length (filter (\<lambda>n. Type n = ''server'') ns))),
      ExtractCNI = (\<lambda>cluster. Inr (''cilium'', False)),
      parse_result = (\<lambda>name contents data. Inr name),
      yaml_Marshal = (\<lambda>y. Inr ''{}''),
      yaml_Marshal_chart = (\<lambda>chart. Inr (Name (Metadata chart))),
      fmt_entries = (\<lambda>es. ''['' @ join_with '' '' (map EntryName es) @ '']''),
      generateComponentPath = (\<lambda>ctx dir. filepath_Join [ImageConfigDir ctx, dir]),
      prependArtefactPath = (\<lambda>path. ''$ARTEFACTS_DIR/'' @ path),
      KubernetesDistroRKE2 = ''rke2'',
      KubernetesDistroK3S = ''k3s'',
      registryMirrorsFileName = ''registries.yaml''\<rparr>"

definition demo_world :: world where
  "demo_world = \<lparr>events = [], logs = []\<rparr>"

definition demo_values :: "string \<Rightarrow> string \<Rightarrow> string \<Rightarrow> tvalues" where
  "demo_values vip host manifests =
     map_of
       [(''installScript'', TString ''$ARTEFACTS_DIR/kubernetes/install.sh''),
        (''apiVIP'', TString vip),
        (''apiHost'', TString host),
        (''binaryPath'', TString ''$ARTEFACTS_DIR/kubernetes/install/k3s''),
        (''imagesPath'', TString ''$ARTEFACTS_DIR/kubernetes/images''),
        (''manifestsPath'', TString manifests),
        (''configFilePath'', TString ''$ARTEFACTS_DIR/kubernetes''),
        (''registryMirrors'', TString ''$ARTEFACTS_DIR/kubernetes/registries.yaml''),
        (''nodes'', TNodes demo_nodes),
        (''initialiser'', TString ''node-1''),
        (''initialiserConfigFile'', TString ''init_server.yaml'')]"

definition demo_env :: "string \<Rightarrow> string \<Rightarrow> boot_env" where
  "demo_env etc_hostname kernel_hostname =
     \<lparr>exit_status = (\<lambda>a. 0),
      cat_out = (\<lambda>f. if f = ''/etc/hostname'' then etc_hostname
                     else if f = ''/proc/sys/kernel/hostname'' then kernel_hostname
                     else []),
      is_file = (\<lambda>f. False),
      environ = [''ARTEFACTS_DIR'' \<mapsto> ''/artefacts'']\<rparr>"

section \<open>Properties of the build\<close>

lemma events_log [simp]: "events (log l w) = events w"
  by (simp add: log_def)

lemma map_of_map_assign: "map_of (map_assign k v kvs) = (map_of kvs)(k \<mapsto> v)"
  by (induction kvs) auto

lemma storeKubernetesInstaller_events:
  "\<exists>rest. events (snd (storeKubernetesInstaller p ctx n t d w)) = events w @ TemplateParse n t d # rest"
  by (auto simp add: storeKubernetesInstaller_def template_Parse_def os_WriteFile_def
        record_event_def Let_def
      split: sum.splits option.splits)

text \<open>Once the install script, the artefacts and the manifests are there, each
  installer ends in one call of \<open>storeKubernetesInstaller\<close>; only log entries lie
  between.\<close>

lemma configureK3S_render:
  assumes "downloadKubernetesInstallScript p ctx (KubernetesDistroK3S p)
             (log (ZapInfo ''Configuring K3s cluster'') w) = (Inr installScript, w1)"
    and "downloadK3sArtefacts p ctx w1 = (Inr (binaryPath, imagesPath), w2)"
    and "configureManifests p ctx w2 = (Inr manifestsPath, w3)"
  shows "\<exists>w4. events w4 = events w3 \<and>
     configureK3S p ctx cluster w =
       (if length (Nodes (Kubernetes (ImageDefinition ctx))) < 2 then
          storeKubernetesInstaller p ctx ''single-node-k3s'' k3sSingleNodeInstaller
            (TMap (map_assign ''configFile'' (TString k8sServerConfigFile)
               (templateValues_base p ctx installScript ''binaryPath'' binaryPath imagesPath
                  manifestsPath))) w4
        else
          storeKubernetesInstaller p ctx ''multi-node-k3s'' k3sMultiNodeInstaller
            (TMap (map_assign ''initialiserConfigFile'' (TString k8sInitServerConfigFile)
                     (map_assign ''initialiser'' (TString (InitialiserName cluster))
                        (map_assign ''nodes'' (TNodes (Nodes (Kubernetes (ImageDefinition ctx))))
                           (templateValues_base p ctx installScript ''binaryPath'' binaryPath
                              imagesPath manifestsPath))))) w4)"
  using assms
  apply (auto simp add: configureK3S_def Let_def)
     apply (rule exI, rule conjI[rotated], rule refl, simp)+
  done

lemma configureRKE2_render:
  assumes "downloadKubernetesInstallScript p ctx (KubernetesDistroRKE2 p)
             (log (ZapInfo ''Configuring RKE2 cluster'') w) = (Inr installScript, w1)"
    and "downloadRKE2Artefacts p ctx cluster w1 = (Inr (installPath, imagesPath), w2)"
    and "configureManifests p ctx w2 = (Inr manifestsPath, w3)"
  shows "\<exists>w4. events w4 = events w3 \<and>
     configureRKE2 p ctx cluster w =
       (if length (Nodes (Kubernetes (ImageDefinition ctx))) < 2 then
          storeKubernetesInstaller p ctx ''single-node-rke2'' rke2SingleNodeInstaller
            (TMap (map_assign ''configFile'' (TString k8sServerConfigFile)
               (templateValues_base p ctx installScript ''installPath'' installPath imagesPath
                  manifestsPath))) w4
        else
          storeKubernetesInstaller p ctx ''multi-node-rke2'' rke2MultiNodeInstaller
            (TMap (map_assign ''initialiserConfigFile'' (TString k8sInitServerConfigFile)
                     (map_assign ''initialiser'' (TString (InitialiserName cluster))
                        (map_assign ''nodes'' (TNodes (Nodes (Kubernetes (ImageDefinition ctx))))
                           (templateValues_base p ctx installScript ''installPath'' installPath
                              imagesPath manifestsPath))))) w4)"
  using assms
  apply (auto simp add: configureRKE2_def Let_def)
     apply (rule exI, rule conjI[rotated], rule refl, simp)+
  done

lemma single_values_nodes:
  "rk \<noteq> ''nodes'' \<Longrightarrow>
   map_of (map_assign ''configFile'' (TString k8sServerConfigFile)
            (templateValues_base p ctx i rk rp ip mp)) ''nodes'' = None"
  by (simp add: map_of_map_assign templateValues_base_def)

lemma multi_values_nodes:
  "map_of (map_assign ''initialiserConfigFile'' (TString k8sInitServerConfigFile)
            (map_assign ''initialiser'' (TString nm)
               (map_assign ''nodes'' (TNodes ns) base))) ''nodes'' = Some (TNodes ns)"
  by (simp add: map_of_map_assign)

lemma multi_values_initialiser:
  "map_of (map_assign ''initialiserConfigFile'' (TString k8sInitServerConfigFile)
            (map_assign ''initialiser'' (TString nm)
               (map_assign ''nodes'' (TNodes ns) base))) ''initialiser'' = Some (TString nm)"
  by (simp add: map_of_map_assign)

lemma multi_values_initialiserConfigFile:
  "map_of (map_assign ''initialiserConfigFile'' (TString k8sInitServerConfigFile)
            (map_assign ''initialiser'' (TString nm)
               (map_assign ''nodes'' (TNodes ns) base))) ''initialiserConfigFile''
     = Some (TString ''init_server.yaml'')"
  by (simp add: map_of_map_assign k8sInitServerConfigFile_def)

lemma single_values_manifestsPath:
  "rk = ''binaryPath'' \<or> rk = ''installPath'' \<Longrightarrow>
   map_of (map_assign ''configFile'' (TString k8sServerConfigFile)
            (templateValues_base p ctx i rk rp ip mp)) ''manifestsPath'' = Some (TString mp)"
  by (auto simp add: map_of_map_assign templateValues_base_def)

lemma multi_values_manifestsPath:
  "rk = ''binaryPath'' \<or> rk = ''installPath'' \<Longrightarrow>
   map_of (map_assign ''initialiserConfigFile'' (TString k8sInitServerConfigFile)
            (map_assign ''initialiser'' (TString nm)
               (map_assign ''nodes'' (TNodes ns)
                  (templateValues_base p ctx i rk rp ip mp)))) ''manifestsPath''
     = Some (TString mp)"
  by (auto simp add: map_of_map_assign templateValues_base_def)

lemma configureManifests_nothing:
  assumes "APIVIP (Network (Kubernetes (ImageDefinition ctx))) = []"
    and "Registry p = None
         \<or> (\<exists>reg. Registry p = Some reg \<and> ManifestsPath reg = [] \<and> HelmCharts reg = Inr [])"
  shows "configureManifests p ctx w = (Inr [], w)"
  using assms
  by (auto simp add: configureManifests_def configureManifests_vip_def
        configureManifests_registry_def configureManifests_raw_def
        configureManifests_charts_def Let_def)

text \<open>The definitions a concrete build is evaluated with.\<close>

lemmas demo_eval =
  demo_platform_def demo_ctx_def demo_world_def demo_nodes_def demo_cluster_def
  log_def record_event_def
  os_MkdirAll_def os_WriteFile_def os_ReadDir_def
  downloader_DownloadInstallScript_def downloader_DownloadK3sArtefacts_def
  downloader_DownloadRKE2Artefacts_def fileio_CopyFiles_def template_Parse_def
  kubernetes_NewCluster_def
  kubernetesArtefactsPath_def localKubernetesManifestsPath_def
  filepath_Join_def filepath_Clean_def Let_def
  k8sDir_def k8sConfigDir_def k8sInstallDir_def k8sImagesDir_def k8sManifestsDir_def
  k8sInitServerConfigFile_def k8sServerConfigFile_def k8sAgentConfigFile_def
  k8sInstallScript_def k8sComponentName_def

text \<open>
  C10. With the empty string as Kubernetes version, \<open>configureKubernetes\<close> returns no
  script and no error, and makes no call at all: no cluster is computed, no directory is
  created, no template is rendered; only the audit entry that the component was skipped
  is logged. With a non-empty version that contains neither the RKE2 nor the k3s marker
  it returns the error \<open>cannot configure kubernetes version: <version>\<close>, again without
  any call.
\<close>

theorem configureKubernetes_version_gate:
  "(Version (Kubernetes (ImageDefinition ctx)) = [] \<longrightarrow>
      configureKubernetes p ctx w = (Inr [], log (AuditComponentSkipped k8sComponentName) w)
      \<and> events (snd (configureKubernetes p ctx w)) = events w)
   \<and> (Version (Kubernetes (ImageDefinition ctx)) \<noteq> []
        \<and> \<not> strings_Contains (Version (Kubernetes (ImageDefinition ctx))) (KubernetesDistroRKE2 p)
        \<and> \<not> strings_Contains (Version (Kubernetes (ImageDefinition ctx))) (KubernetesDistroK3S p)
      \<longrightarrow>
      configureKubernetes p ctx w =
        (Inl (''cannot configure kubernetes version: ''
              @ Version (Kubernetes (ImageDefinition ctx))),
         log (AuditComponentFailed k8sComponentName) w)
      \<and> events (snd (configureKubernetes p ctx w)) = events w)"
  by (simp add: configureKubernetes_def kubernetesConfigurator_def)

theorem configureKubernetes_version_gate_witness:
  "configureKubernetes (demo_platform None []) (demo_ctx [] demo_nodes [] []) demo_world
     = (Inr [], \<lparr>events = [], logs = [AuditComponentSkipped ''kubernetes'']\<rparr>)
   \<and> configureKubernetes (demo_platform None []) (demo_ctx ''v1.29.0'' demo_nodes [] []) demo_world
     = (Inl ''cannot configure kubernetes version: v1.29.0'',
        \<lparr>events = [], logs = [AuditComponentFailed ''kubernetes'']\<rparr>)"
  using configureKubernetes_version_gate
          [of "demo_ctx [] demo_nodes [] []" "demo_platform None []" demo_world]
        configureKubernetes_version_gate
          [of "demo_ctx ''v1.29.0'' demo_nodes [] []" "demo_platform None []" demo_world]
  by (simp add: demo_ctx_def demo_platform_def demo_world_def log_def k8sComponentName_def)

text \<open>
  C6. When no API VIP is configured and the registry collaborator is absent, or has an
  empty manifests path and returns no Helm chart, \<open>configureManifests\<close> makes no call (so
  no manifests directory is created) and returns the empty string. Both installers then
  put that empty string under \<open>manifestsPath\<close> in the values they render with, and no
  call lies between the artefact download and the rendering.
\<close>

theorem configureManifests_without_contributors:
  assumes "APIVIP (Network (Kubernetes (ImageDefinition ctx))) = []"
    and "Registry p = None
         \<or> (\<exists>reg. Registry p = Some reg \<and> ManifestsPath reg = [] \<and> HelmCharts reg = Inr [])"
  shows "configureManifests p ctx w = (Inr [], w)
    \<and> (downloadKubernetesInstallScript p ctx (KubernetesDistroK3S p)
          (log (ZapInfo ''Configuring K3s cluster'') w) = (Inr installScript, w1)
       \<and> downloadK3sArtefacts p ctx w1 = (Inr (binaryPath, imagesPath), w2)
       \<longrightarrow> (\<exists>name contents vals rest.
              events (snd (configureK3S p ctx cluster w)) =
                events w2 @ TemplateParse name contents (TMap vals) # rest
              \<and> map_of vals ''manifestsPath'' = Some (TString [])))
    \<and> (downloadKubernetesInstallScript p ctx (KubernetesDistroRKE2 p)
          (log (ZapInfo ''Configuring RKE2 cluster'') w) = (Inr installScript', w1')
       \<and> downloadRKE2Artefacts p ctx cluster w1' = (Inr (installPath, imagesPath'), w2')
       \<longrightarrow> (\<exists>name contents vals rest.
              events (snd (configureRKE2 p ctx cluster w)) =
                events w2' @ TemplateParse name contents (TMap vals) # rest
              \<and> map_of vals ''manifestsPath'' = Some (TString [])))"
proof (intro conjI impI)
  show "configureManifests p ctx w = (Inr [], w)"
    using assms by (rule configureManifests_nothing)
next
  assume a: "downloadKubernetesInstallScript p ctx (KubernetesDistroK3S p)
          (log (ZapInfo ''Configuring K3s cluster'') w) = (Inr installScript, w1)
       \<and> downloadK3sArtefacts p ctx w1 = (Inr (binaryPath, imagesPath), w2)"
  have m: "configureManifests p ctx w2 = (Inr [], w2)"
    using assms by (rule configureManifests_nothing)
  from configureK3S_render[OF conjunct1[OF a] conjunct2[OF a] m, of cluster]
  obtain w4 name contents vals where w4: "events w4 = events w2"
    and eq: "configureK3S p ctx cluster w = storeKubernetesInstaller p ctx name contents (TMap vals) w4"
    and v: "map_of vals ''manifestsPath'' = Some (TString [])"
    by (cases "length (Nodes (Kubernetes (ImageDefinition ctx))) < 2")
       (auto simp add: single_values_manifestsPath multi_values_manifestsPath)
  from storeKubernetesInstaller_events[of p ctx name contents "TMap vals" w4] eq w4 v
  show "\<exists>name contents vals rest.
              events (snd (configureK3S p ctx cluster w)) =
                events w2 @ TemplateParse name contents (TMap vals) # rest
              \<and> map_of vals ''manifestsPath'' = Some (TString [])"
    by auto
next
  assume a: "downloadKubernetesInstallScript p ctx (KubernetesDistroRKE2 p)
          (log (ZapInfo ''Configuring RKE2 cluster'') w) = (Inr installScript', w1')
       \<and> downloadRKE2Artefacts p ctx cluster w1' = (Inr (installPath, imagesPath'), w2')"
  have m: "configureManifests p ctx w2' = (Inr [], w2')"
    using assms by (rule configureManifests_nothing)
  from configureRKE2_render[OF conjunct1[OF a] conjunct2[OF a] m]
  obtain w4 name contents vals where w4: "events w4 = events w2'"
    and eq: "configureRKE2 p ctx cluster w = storeKubernetesInstaller p ctx name contents (TMap vals) w4"
    and v: "map_of vals ''manifestsPath'' = Some (TString [])"
    by (cases "length (Nodes (Kubernetes (ImageDefinition ctx))) < 2")
       (auto simp add: single_values_manifestsPath multi_values_manifestsPath)
  from storeKubernetesInstaller_events[of p ctx name contents "TMap vals" w4] eq w4 v
  show "\<exists>name contents vals rest.
              events (snd (configureRKE2 p ctx cluster w)) =
                events w2' @ TemplateParse name contents (TMap vals) # rest
              \<and> map_of vals ''manifestsPath'' = Some (TString [])"
    by auto
qed

theorem configureManifests_without_contributors_witness:
  "configureManifests
     (demo_platform (Some \<lparr>ManifestsPath = [], HelmCharts = Inr []\<rparr>)
        [\<lparr>EntryName = ''k3s'', IsDir = False\<rparr>])
     (demo_ctx ''v1.29.0+k3s1'' demo_nodes [] []) demo_world = (Inr [], demo_world)
   \<and> (\<exists>name contents vals rest.
        events (snd (configureK3S
          (demo_platform (Some \<lparr>ManifestsPath = [], HelmCharts = Inr []\<rparr>)
             [\<lparr>EntryName = ''k3s'', IsDir = False\<rparr>])
          (demo_ctx ''v1.29.0+k3s1'' demo_nodes [] []) demo_cluster demo_world)) =
          [DownloadInstallScript ''k3s'' ''/build/artefacts/kubernetes'',
           MkdirAll ''/build/artefacts/kubernetes/images'' ModePerm,
           MkdirAll ''/build/artefacts/kubernetes/install'' ModePerm,
           DownloadK3sArtefacts ''x86_64'' ''v1.29.0+k3s1''
             ''/build/artefacts/kubernetes/install'' ''/build/artefacts/kubernetes/images'',
           ReadDir ''/build/artefacts/kubernetes/install'']
          @ TemplateParse name contents (TMap vals) # rest
        \<and> map_of vals ''manifestsPath'' = Some (TString []))
   \<and> (\<exists>name contents vals rest.
        events (snd (configureRKE2
          (demo_platform (Some \<lparr>ManifestsPath = [], HelmCharts = Inr []\<rparr>)
             [\<lparr>EntryName = ''k3s'', IsDir = False\<rparr>])
          (demo_ctx ''v1.29.0+k3s1'' demo_nodes [] []) demo_cluster demo_world)) =
          [DownloadInstallScript ''rke2'' ''/build/artefacts/kubernetes'',
           MkdirAll ''/build/artefacts/kubernetes/images'' ModePerm,
           MkdirAll ''/build/artefacts/kubernetes/install'' ModePerm,
           DownloadRKE2Artefacts ''x86_64'' ''v1.29.0+k3s1'' ''cilium'' False
             ''/build/artefacts/kubernetes/install'' ''/build/artefacts/kubernetes/images'']
          @ TemplateParse name contents (TMap vals) # rest
        \<and> map_of vals ''manifestsPath'' = Some (TString []))"
proof -
  let ?P = "demo_platform (Some \<lparr>ManifestsPath = [], HelmCharts = Inr []\<rparr>)
              [\<lparr>EntryName = ''k3s'', IsDir = False\<rparr>]"
  let ?C = "demo_ctx ''v1.29.0+k3s1'' demo_nodes [] []"
  let ?w1 = "\<lparr>events = [DownloadInstallScript ''k3s'' ''/build/artefacts/kubernetes''],
              logs = [ZapInfo ''Configuring K3s cluster'']\<rparr>"
  let ?w2 = "\<lparr>events = [DownloadInstallScript ''k3s'' ''/build/artefacts/kubernetes'',
           MkdirAll ''/build/artefacts/kubernetes/images'' ModePerm,
           MkdirAll ''/build/artefacts/kubernetes/install'' ModePerm,
           DownloadK3sArtefacts ''x86_64'' ''v1.29.0+k3s1''
             ''/build/artefacts/kubernetes/install'' ''/build/artefacts/kubernetes/images'',
           ReadDir ''/build/artefacts/kubernetes/install''],
              logs = [ZapInfo ''Configuring K3s cluster'']\<rparr>"
  let ?v1 = "\<lparr>events = [DownloadInstallScript ''rke2'' ''/build/artefacts/kubernetes''],
              logs = [ZapInfo ''Configuring RKE2 cluster'']\<rparr>"
  let ?v2 = "\<lparr>events = [DownloadInstallScript ''rke2'' ''/build/artefacts/kubernetes'',
           MkdirAll ''/build/artefacts/kubernetes/images'' ModePerm,
           MkdirAll ''/build/artefacts/kubernetes/install'' ModePerm,
           DownloadRKE2Artefacts ''x86_64'' ''v1.29.0+k3s1'' ''cilium'' False
             ''/build/artefacts/kubernetes/install'' ''/build/artefacts/kubernetes/images''],
              logs = [ZapInfo ''Configuring RKE2 cluster'']\<rparr>"
  have h1: "APIVIP (Network (Kubernetes (ImageDefinition ?C))) = []"
    by (simp add: demo_ctx_def)
  have h2: "Registry ?P = None
         \<or> (\<exists>reg. Registry ?P = Some reg \<and> ManifestsPath reg = [] \<and> HelmCharts reg = Inr [])"
    by (simp add: demo_platform_def)
  have k1: "downloadKubernetesInstallScript ?P ?C (KubernetesDistroK3S ?P)
              (log (ZapInfo ''Configuring K3s cluster'') demo_world)
            = (Inr ''$ARTEFACTS_DIR/kubernetes/install.sh'', ?w1)"
    by (simp add: downloadKubernetesInstallScript_def demo_eval)
  have k2: "downloadK3sArtefacts ?P ?C ?w1
            = (Inr (''$ARTEFACTS_DIR/kubernetes/install/k3s'', ''$ARTEFACTS_DIR/kubernetes/images''), ?w2)"
    by (simp add: downloadK3sArtefacts_def demo_eval)
  have r1: "downloadKubernetesInstallScript ?P ?C (KubernetesDistroRKE2 ?P)
              (log (ZapInfo ''Configuring RKE2 cluster'') demo_world)
            = (Inr ''$ARTEFACTS_DIR/kubernetes/install.sh'', ?v1)"
    by (simp add: downloadKubernetesInstallScript_def demo_eval)
  have r2: "downloadRKE2Artefacts ?P ?C demo_cluster ?v1
            = (Inr (''$ARTEFACTS_DIR/kubernetes/install'', ''$ARTEFACTS_DIR/kubernetes/images''), ?v2)"
    by (simp add: downloadRKE2Artefacts_def demo_eval)
  from configureManifests_without_contributors[OF h1 h2, of demo_world
      "''$ARTEFACTS_DIR/kubernetes/install.sh''" ?w1
      "''$ARTEFACTS_DIR/kubernetes/install/k3s''" "''$ARTEFACTS_DIR/kubernetes/images''" ?w2
      demo_cluster
      "''$ARTEFACTS_DIR/kubernetes/install.sh''" ?v1
      "''$ARTEFACTS_DIR/kubernetes/install''" "''$ARTEFACTS_DIR/kubernetes/images''" ?v2]
    k1 k2 r1 r2
  show ?thesis by simp
qed

text \<open>
  C2. Once the install script, the artefacts and the manifests are staged, \<open>configureK3S\<close>
  and \<open>configureRKE2\<close> next call the template engine, with the single-node template of
  their distribution when fewer than two nodes are declared and with its multi-node
  template otherwise. The values of the multi-node case hold the declared nodes under
  \<open>nodes\<close>, the cluster's initialiser name under \<open>initialiser\<close> and \<open>init_server.yaml\<close> under
  \<open>initialiserConfigFile\<close>; the single-node values have no \<open>nodes\<close> key.
\<close>

theorem template_selection_by_node_count:
  fixes ctx :: Context
  defines "nodes \<equiv> Nodes (Kubernetes (ImageDefinition ctx))"
  shows
  "(downloadKubernetesInstallScript p ctx (KubernetesDistroK3S p)
       (log (ZapInfo ''Configuring K3s cluster'') w) = (Inr installScript, w1)
    \<and> downloadK3sArtefacts p ctx w1 = (Inr (binaryPath, imagesPath), w2)
    \<and> configureManifests p ctx w2 = (Inr manifestsPath, w3)
    \<longrightarrow> (\<exists>vals rest.
           events (snd (configureK3S p ctx cluster w)) =
             events w3 @
             TemplateParse (if length nodes < 2 then ''single-node-k3s'' else ''multi-node-k3s'')
               (if length nodes < 2 then k3sSingleNodeInstaller else k3sMultiNodeInstaller)
               (TMap vals) # rest
           \<and> (if length nodes < 2 then map_of vals ''nodes'' = None
               else map_of vals ''nodes'' = Some (TNodes nodes)
                  \<and> map_of vals ''initialiser'' = Some (TString (InitialiserName cluster))
                  \<and> map_of vals ''initialiserConfigFile'' = Some (TString ''init_server.yaml''))))
   \<and> (downloadKubernetesInstallScript p ctx (KubernetesDistroRKE2 p)
       (log (ZapInfo ''Configuring RKE2 cluster'') w) = (Inr installScript', w1')
    \<and> downloadRKE2Artefacts p ctx cluster w1' = (Inr (installPath, imagesPath'), w2')
    \<and> configureManifests p ctx w2' = (Inr manifestsPath', w3')
    \<longrightarrow> (\<exists>vals rest.
           events (snd (configureRKE2 p ctx cluster w)) =
             events w3' @
             TemplateParse (if length nodes < 2 then ''single-node-rke2'' else ''multi-node-rke2'')
               (if length nodes < 2 then rke2SingleNodeInstaller else rke2MultiNodeInstaller)
               (TMap vals) # rest
           \<and> (if length nodes < 2 then map_of vals ''nodes'' = None
               else map_of vals ''nodes'' = Some (TNodes nodes)
                  \<and> map_of vals ''initialiser'' = Some (TString (InitialiserName cluster))
                  \<and> map_of vals ''initialiserConfigFile'' = Some (TString ''init_server.yaml''))))"
proof (intro conjI impI)
  assume a: "downloadKubernetesInstallScript p ctx (KubernetesDistroK3S p)
       (log (ZapInfo ''Configuring K3s cluster'') w) = (Inr installScript, w1)
    \<and> downloadK3sArtefacts p ctx w1 = (Inr (binaryPath, imagesPath), w2)
    \<and> configureManifests p ctx w2 = (Inr manifestsPath, w3)"
  from a obtain w4 where w4: "events w4 = events w3"
    and eq: "configureK3S p ctx cluster w =
       (if length nodes < 2 then
          storeKubernetesInstaller p ctx ''single-node-k3s'' k3sSingleNodeInstaller
            (TMap (map_assign ''configFile'' (TString k8sServerConfigFile)
               (templateValues_base p ctx installScript ''binaryPath'' binaryPath imagesPath manifestsPath))) w4
        else
          storeKubernetesInstaller p ctx ''multi-node-k3s'' k3sMultiNodeInstaller
            (TMap (map_assign ''initialiserConfigFile'' (TString k8sInitServerConfigFile)
                           (map_assign ''initialiser'' (TString (InitialiserName cluster))
                              (map_assign ''nodes'' (TNodes nodes)
               (templateValues_base p ctx installScript ''binaryPath'' binaryPath imagesPath manifestsPath))))) w4)"
    unfolding nodes_def using configureK3S_render[of p ctx w installScript w1 binaryPath imagesPath w2 manifestsPath w3 cluster]
    by blast
  show "\<exists>vals rest.
           events (snd (configureK3S p ctx cluster w)) =
             events w3 @
             TemplateParse (if length nodes < 2 then ''single-node-k3s'' else ''multi-node-k3s'')
               (if length nodes < 2 then k3sSingleNodeInstaller else k3sMultiNodeInstaller)
               (TMap vals) # rest
           \<and> (if length nodes < 2 then map_of vals ''nodes'' = None
               else map_of vals ''nodes'' = Some (TNodes nodes)
                  \<and> map_of vals ''initialiser'' = Some (TString (InitialiserName cluster))
                  \<and> map_of vals ''initialiserConfigFile'' = Some (TString ''init_server.yaml''))"
  proof (cases "length nodes < 2")
    case True
    let ?vals = "map_assign ''configFile'' (TString k8sServerConfigFile)
               (templateValues_base p ctx installScript ''binaryPath'' binaryPath imagesPath manifestsPath)"
    from storeKubernetesInstaller_events[of p ctx "''single-node-k3s''" k3sSingleNodeInstaller "TMap ?vals" w4]
    obtain rest where "events (snd (configureK3S p ctx cluster w)) =
        events w3 @ TemplateParse ''single-node-k3s'' k3sSingleNodeInstaller (TMap ?vals) # rest"
      using eq True w4 by auto
    moreover have "map_of ?vals ''nodes'' = None" by (rule single_values_nodes) simp
    ultimately show ?thesis using True by auto
  next
    case False
    let ?vals = "map_assign ''initialiserConfigFile'' (TString k8sInitServerConfigFile)
                           (map_assign ''initialiser'' (TString (InitialiserName cluster))
                              (map_assign ''nodes'' (TNodes nodes)
               (templateValues_base p ctx installScript ''binaryPath'' binaryPath imagesPath manifestsPath)))"
    from storeKubernetesInstaller_events[of p ctx "''multi-node-k3s''" k3sMultiNodeInstaller "TMap ?vals" w4]
    obtain rest where "events (snd (configureK3S p ctx cluster w)) =
        events w3 @ TemplateParse ''multi-node-k3s'' k3sMultiNodeInstaller (TMap ?vals) # rest"
      using eq False w4 by auto
    then show ?thesis using False multi_values_nodes multi_values_initialiser multi_values_initialiserConfigFile by auto
  qed
next
  assume a: "downloadKubernetesInstallScript p ctx (KubernetesDistroRKE2 p)
       (log (ZapInfo ''Configuring RKE2 cluster'') w) = (Inr installScript', w1')
    \<and> downloadRKE2Artefacts p ctx cluster w1' = (Inr (installPath, imagesPath'), w2')
    \<and> configureManifests p ctx w2' = (Inr manifestsPath', w3')"
  from a obtain w4 where w4: "events w4 = events w3'"
    and eq: "configureRKE2 p ctx cluster w =
       (if length nodes < 2 then
          storeKubernetesInstaller p ctx ''single-node-rke2'' rke2SingleNodeInstaller
            (TMap (map_assign ''configFile'' (TString k8sServerConfigFile)
               (templateValues_base p ctx installScript' ''installPath'' installPath imagesPath' manifestsPath'))) w4
        else
          storeKubernetesInstaller p ctx ''multi-node-rke2'' rke2MultiNodeInstaller
            (TMap (map_assign ''initialiserConfigFile'' (TString k8sInitServerConfigFile)
                           (map_assign ''initialiser'' (TString (InitialiserName cluster))
                              (map_assign ''nodes'' (TNodes nodes)
               (templateValues_base p ctx installScript' ''installPath'' installPath imagesPath' manifestsPath'))))) w4)"
    unfolding nodes_def using configureRKE2_render[of p ctx w installScript' w1' cluster installPath imagesPath' w2' manifestsPath' w3']
    by blast
  show "\<exists>vals rest.
           events (snd (configureRKE2 p ctx cluster w)) =
             events w3' @
             TemplateParse (if length nodes < 2 then ''single-node-rke2'' else ''multi-node-rke2'')
               (if length nodes < 2 then rke2SingleNodeInstaller else rke2MultiNodeInstaller)
               (TMap vals) # rest
           \<and> (if length nodes < 2 then map_of vals ''nodes'' = None
               else map_of vals ''nodes'' = Some (TNodes nodes)
                  \<and> map_of vals ''initialiser'' = Some (TString (InitialiserName cluster))
                  \<and> map_of vals ''initialiserConfigFile'' = Some (TString ''init_server.yaml''))"
  proof (cases "length nodes < 2")
    case True
    let ?vals = "map_assign ''configFile'' (TString k8sServerConfigFile)
               (templateValues_base p ctx installScript' ''installPath'' installPath imagesPath' manifestsPath')"
    from storeKubernetesInstaller_events[of p ctx "''single-node-rke2''" rke2SingleNodeInstaller "TMap ?vals" w4]
    obtain rest where "events (snd (configureRKE2 p ctx cluster w)) =
        events w3' @ TemplateParse ''single-node-rke2'' rke2SingleNodeInstaller (TMap ?vals) # rest"
      using eq True w4 by auto
    moreover have "map_of ?vals ''nodes'' = None" by (rule single_values_nodes) simp
    ultimately show ?thesis using True by auto
  next
    case False
    let ?vals = "map_assign ''initialiserConfigFile'' (TString k8sInitServerConfigFile)
                           (map_assign ''initialiser'' (TString (InitialiserName cluster))
                              (map_assign ''nodes'' (TNodes nodes)
               (templateValues_base p ctx installScript' ''installPath'' installPath imagesPath' manifestsPath')))"
    from storeKubernetesInstaller_events[of p ctx "''multi-node-rke2''" rke2MultiNodeInstaller "TMap ?vals" w4]
    obtain rest where "events (snd (configureRKE2 p ctx cluster w)) =
        events w3' @ TemplateParse ''multi-node-rke2'' rke2MultiNodeInstaller (TMap ?vals) # rest"
      using eq False w4 by auto
    then show ?thesis using False multi_values_nodes multi_values_initialiser multi_values_initialiserConfigFile by auto
  qed
qed

theorem template_selection_by_node_count_witness:
  "(\<exists>vals rest.
      events (snd (configureK3S (demo_platform None [\<lparr>EntryName = ''k3s'', IsDir = False\<rparr>])
                     (demo_ctx ''v1.29.0+k3s1'' demo_nodes [] []) demo_cluster demo_world)) =
        [DownloadInstallScript ''k3s'' ''/build/artefacts/kubernetes'',
         MkdirAll ''/build/artefacts/kubernetes/images'' ModePerm,
         MkdirAll ''/build/artefacts/kubernetes/install'' ModePerm,
         DownloadK3sArtefacts ''x86_64'' ''v1.29.0+k3s1''
           ''/build/artefacts/kubernetes/install'' ''/build/artefacts/kubernetes/images'',
         ReadDir ''/build/artefacts/kubernetes/install'']
        @ TemplateParse ''multi-node-k3s'' k3sMultiNodeInstaller (TMap vals) # rest
      \<and> map_of vals ''nodes'' = Some (TNodes demo_nodes)
      \<and> map_of vals ''initialiser'' = Some (TString ''node-1'')
      \<and> map_of vals ''initialiserConfigFile'' = Some (TString ''init_server.yaml''))
   \<and> (\<exists>vals rest.
      events (snd (configureRKE2 (demo_platform None [])
                     (demo_ctx ''v1.29.0+rke2r1'' [\<lparr>Hostname = ''node-1'', Type = ''server''\<rparr>] [] [])
                     demo_cluster demo_world)) =
        [DownloadInstallScript ''rke2'' ''/build/artefacts/kubernetes'',
         MkdirAll ''/build/artefacts/kubernetes/images'' ModePerm,
         MkdirAll ''/build/artefacts/kubernetes/install'' ModePerm,
         DownloadRKE2Artefacts ''x86_64'' ''v1.29.0+rke2r1'' ''cilium'' False
           ''/build/artefacts/kubernetes/install'' ''/build/artefacts/kubernetes/images'']
        @ TemplateParse ''single-node-rke2'' rke2SingleNodeInstaller (TMap vals) # rest
      \<and> map_of vals ''nodes'' = None)"
proof -
  let ?P = "demo_platform None [\<lparr>EntryName = ''k3s'', IsDir = False\<rparr>]"
  let ?C = "demo_ctx ''v1.29.0+k3s1'' demo_nodes [] []"
  let ?Q = "demo_platform None []"
  let ?D = "demo_ctx ''v1.29.0+rke2r1'' [\<lparr>Hostname = ''node-1'', Type = ''server''\<rparr>] [] []"
  let ?w1 = "\<lparr>events = [DownloadInstallScript ''k3s'' ''/build/artefacts/kubernetes''],
              logs = [ZapInfo ''Configuring K3s cluster'']\<rparr>"
  let ?w2 = "\<lparr>events = [DownloadInstallScript ''k3s'' ''/build/artefacts/kubernetes'',
           MkdirAll ''/build/artefacts/kubernetes/images'' ModePerm,
           MkdirAll ''/build/artefacts/kubernetes/install'' ModePerm,
           DownloadK3sArtefacts ''x86_64'' ''v1.29.0+k3s1''
             ''/build/artefacts/kubernetes/install'' ''/build/artefacts/kubernetes/images'',
           ReadDir ''/build/artefacts/kubernetes/install''],
              logs = [ZapInfo ''Configuring K3s cluster'']\<rparr>"
  let ?v1 = "\<lparr>events = [DownloadInstallScript ''rke2'' ''/build/artefacts/kubernetes''],
              logs = [ZapInfo ''Configuring RKE2 cluster'']\<rparr>"
  let ?v2 = "\<lparr>events = [DownloadInstallScript ''rke2'' ''/build/artefacts/kubernetes'',
           MkdirAll ''/build/artefacts/kubernetes/images'' ModePerm,
           MkdirAll ''/build/artefacts/kubernetes/install'' ModePerm,
           DownloadRKE2Artefacts ''x86_64'' ''v1.29.0+rke2r1'' ''cilium'' False
             ''/build/artefacts/kubernetes/install'' ''/build/artefacts/kubernetes/images''],
              logs = [ZapInfo ''Configuring RKE2 cluster'']\<rparr>"
  have k1: "downloadKubernetesInstallScript ?P ?C (KubernetesDistroK3S ?P)
              (log (ZapInfo ''Configuring K3s cluster'') demo_world)
            = (Inr ''$ARTEFACTS_DIR/kubernetes/install.sh'', ?w1)"
    by (simp add: downloadKubernetesInstallScript_def demo_eval)
  have k2: "downloadK3sArtefacts ?P ?C ?w1
            = (Inr (''$ARTEFACTS_DIR/kubernetes/install/k3s'', ''$ARTEFACTS_DIR/kubernetes/images''), ?w2)"
    by (simp add: downloadK3sArtefacts_def demo_eval)
  have k3: "configureManifests ?P ?C ?w2 = (Inr [], ?w2)"
    by (rule configureManifests_nothing) (simp_all add: demo_ctx_def demo_platform_def)
  have r1: "downloadKubernetesInstallScript ?Q ?D (KubernetesDistroRKE2 ?Q)
              (log (ZapInfo ''Configuring RKE2 cluster'') demo_world)
            = (Inr ''$ARTEFACTS_DIR/kubernetes/install.sh'', ?v1)"
    by (simp add: downloadKubernetesInstallScript_def demo_eval)
  have r2: "downloadRKE2Artefacts ?Q ?D demo_cluster ?v1
            = (Inr (''$ARTEFACTS_DIR/kubernetes/install'', ''$ARTEFACTS_DIR/kubernetes/images''), ?v2)"
    by (simp add: downloadRKE2Artefacts_def demo_eval)
  have r3: "configureManifests ?Q ?D ?v2 = (Inr [], ?v2)"
    by (rule configureManifests_nothing) (simp_all add: demo_ctx_def demo_platform_def)
  have n3: "Nodes (Kubernetes (ImageDefinition ?C)) = demo_nodes" "length demo_nodes = 3"
    "InitialiserName demo_cluster = ''node-1''"
    by (simp_all add: demo_ctx_def demo_nodes_def demo_cluster_def)
  have n1: "length (Nodes (Kubernetes (ImageDefinition ?D))) = 1"
    by (simp add: demo_ctx_def)
  have A: "\<exists>vals rest.
      events (snd (configureK3S ?P ?C demo_cluster demo_world)) =
        events ?w2 @ TemplateParse ''multi-node-k3s'' k3sMultiNodeInstaller (TMap vals) # rest
      \<and> map_of vals ''nodes'' = Some (TNodes demo_nodes)
      \<and> map_of vals ''initialiser'' = Some (TString ''node-1'')
      \<and> map_of vals ''initialiserConfigFile'' = Some (TString ''init_server.yaml'')"
    using template_selection_by_node_count[where p = ?P and ctx = ?C and w = demo_world
        and installScript = "''$ARTEFACTS_DIR/kubernetes/install.sh''" and ?w1.0 = ?w1
        and binaryPath = "''$ARTEFACTS_DIR/kubernetes/install/k3s''"
        and imagesPath = "''$ARTEFACTS_DIR/kubernetes/images''" and ?w2.0 = ?w2
        and manifestsPath = "[]" and ?w3.0 = ?w2 and cluster = demo_cluster]
      k1 k2 k3
    by (simp only: n3 simp_thms if_False numeral_less_iff num.simps rel_simps)
  have B: "\<exists>vals rest.
      events (snd (configureRKE2 ?Q ?D demo_cluster demo_world)) =
        events ?v2 @ TemplateParse ''single-node-rke2'' rke2SingleNodeInstaller (TMap vals) # rest
      \<and> map_of vals ''nodes'' = None"
    using template_selection_by_node_count[where p = ?Q and ctx = ?D and w = demo_world
        and installScript' = "''$ARTEFACTS_DIR/kubernetes/install.sh''" and w1' = ?v1
        and installPath = "''$ARTEFACTS_DIR/kubernetes/install''"
        and imagesPath' = "''$ARTEFACTS_DIR/kubernetes/images''" and w2' = ?v2
        and manifestsPath' = "[]" and w3' = ?v2 and cluster = demo_cluster]
      r1 r2 r3
    by (simp only: n1 simp_thms if_True one_less_numeral_iff semiring_norm)
  from A B show ?thesis by simp
qed

text \<open>A name that \<open>os.ReadDir\<close> can return: one path element that is neither empty
  nor \<open>.\<close> nor \<open>..\<close>.\<close>

lemma splitOn_absent: "c \<notin> set xs \<Longrightarrow> splitOn c xs = [xs]"
  by (induction xs) auto

lemma filepath_Join_install_entry:
  assumes "name \<noteq> []" "CHR ''/'' \<notin> set name" "name \<noteq> ''.''" "name \<noteq> ''..''"
  shows "filepath_Join [''kubernetes/install'', name] = ''kubernetes/install/'' @ name"
  using assms
  by (simp add: filepath_Join_def filepath_Clean_def splitOn_absent Let_def)

lemma installPath_value: "filepath_Join [k8sDir, k8sInstallDir] = ''kubernetes/install''"
  by (simp add: filepath_Join_def filepath_Clean_def Let_def k8sDir_def k8sInstallDir_def)

lemma imagesPath_value: "filepath_Join [k8sDir, k8sImagesDir] = ''kubernetes/images''"
  by (simp add: filepath_Join_def filepath_Clean_def Let_def k8sDir_def k8sImagesDir_def)

lemma downloadK3sArtefacts_run:
  assumes "os_MkdirAll p (filepath_Join [ArtefactsDir ctx, ''kubernetes/images'']) ModePerm w = (None, w1)"
    and "os_MkdirAll p (filepath_Join [ArtefactsDir ctx, ''kubernetes/install'']) ModePerm w1 = (None, w2)"
    and "downloader_DownloadK3sArtefacts p (Arch (Image (ImageDefinition ctx)))
           (Version (Kubernetes (ImageDefinition ctx)))
           (filepath_Join [ArtefactsDir ctx, ''kubernetes/install''])
           (filepath_Join [ArtefactsDir ctx, ''kubernetes/images'']) w2
         = (None, w3)"
    and "os_ReadDir p (filepath_Join [ArtefactsDir ctx, ''kubernetes/install'']) w3 = (Inr entries, w4)"
  shows "downloadK3sArtefacts p ctx w =
      (if length entries \<noteq> 1 \<or> IsDir (entries ! 0) then
         (Inl (''k3s install path contains unexpected entries: '' @ fmt_entries p entries), w4)
       else
         (Inr (prependArtefactPath p (filepath_Join [''kubernetes/install'', EntryName (entries ! 0)]),
               prependArtefactPath p ''kubernetes/images''), w4))"
  unfolding downloadK3sArtefacts_def Let_def installPath_value imagesPath_value
  using assms by simp


text \<open>
  C4. After both directories are created, the download delegate has returned without
  error and the install directory has been read, \<open>downloadK3sArtefacts\<close> succeeds exactly
  when the directory holds one entry and that entry is not a directory. Otherwise it
  returns the error \<open>k3s install path contains unexpected entries\<close>. On success the binary
  path is \<open>prependArtefactPath\<close> of \<open>kubernetes/install\<close> joined with the entry's name; it
  ends with that name when the name is one path element and \<open>prependArtefactPath\<close> only
  puts text before its argument.
\<close>

theorem downloadK3sArtefacts_single_entry:
  fixes ctx :: Context
  defines "imagesDestination \<equiv> filepath_Join [ArtefactsDir ctx, ''kubernetes/images'']"
    and "installDestination \<equiv> filepath_Join [ArtefactsDir ctx, ''kubernetes/install'']"
  assumes "os_MkdirAll p imagesDestination ModePerm w = (None, w1)"
    and "os_MkdirAll p installDestination ModePerm w1 = (None, w2)"
    and "downloader_DownloadK3sArtefacts p (Arch (Image (ImageDefinition ctx)))
           (Version (Kubernetes (ImageDefinition ctx))) installDestination imagesDestination w2
         = (None, w3)"
    and "os_ReadDir p installDestination w3 = (Inr entries, w4)"
  shows "((\<exists>paths. fst (downloadK3sArtefacts p ctx w) = Inr paths)
           \<longleftrightarrow> length entries = 1 \<and> \<not> IsDir (hd entries))
    \<and> (\<not> (length entries = 1 \<and> \<not> IsDir (hd entries)) \<longrightarrow>
          downloadK3sArtefacts p ctx w =
            (Inl (''k3s install path contains unexpected entries: '' @ fmt_entries p entries), w4))
    \<and> (length entries = 1 \<and> \<not> IsDir (hd entries) \<longrightarrow>
          downloadK3sArtefacts p ctx w =
            (Inr (prependArtefactPath p (filepath_Join [''kubernetes/install'', EntryName (hd entries)]),
                  prependArtefactPath p ''kubernetes/images''), w4)
          \<and> (EntryName (hd entries) \<noteq> [] \<and> CHR ''/'' \<notin> set (EntryName (hd entries))
              \<and> EntryName (hd entries) \<noteq> ''.'' \<and> EntryName (hd entries) \<noteq> ''..''
              \<and> (\<forall>path. suffix path (prependArtefactPath p path))
              \<longrightarrow> suffix (EntryName (hd entries))
                    (prependArtefactPath p
                       (filepath_Join [''kubernetes/install'', EntryName (hd entries)]))))"
proof -
  note run = downloadK3sArtefacts_run
    [OF assms(3-6)[unfolded imagesDestination_def installDestination_def]]
  have hd0: "entries ! 0 = hd entries" if "length entries = 1"
    using that by (cases entries) auto
  show ?thesis
  proof (cases "length entries = 1 \<and> \<not> IsDir (hd entries)")
    case True
    then have ok: "downloadK3sArtefacts p ctx w =
         (Inr (prependArtefactPath p (filepath_Join [''kubernetes/install'', EntryName (hd entries)]),
               prependArtefactPath p ''kubernetes/images''), w4)"
      using run hd0 by simp
    have ends: "suffix (EntryName (hd entries))
            (prependArtefactPath p (filepath_Join [''kubernetes/install'', EntryName (hd entries)]))"
      if n: "EntryName (hd entries) \<noteq> []" "CHR ''/'' \<notin> set (EntryName (hd entries))"
         "EntryName (hd entries) \<noteq> ''.''" "EntryName (hd entries) \<noteq> ''..''"
        and pre: "\<forall>path. suffix path (prependArtefactPath p path)"
    proof -
      have "suffix (EntryName (hd entries)) (''kubernetes/install/'' @ EntryName (hd entries))"
        by (rule suffixI) simp
      moreover have "suffix (''kubernetes/install/'' @ EntryName (hd entries))
               (prependArtefactPath p (''kubernetes/install/'' @ EntryName (hd entries)))"
        using pre by (rule spec)
      ultimately have "suffix (EntryName (hd entries))
               (prependArtefactPath p (''kubernetes/install/'' @ EntryName (hd entries)))"
        by (rule suffix_order.trans)
      then show ?thesis
        by (simp only: filepath_Join_install_entry[OF n])
    qed
    have first: "(\<exists>paths. fst (downloadK3sArtefacts p ctx w) = Inr paths)
           \<longleftrightarrow> length entries = 1 \<and> \<not> IsDir (hd entries)"
      using True by (simp only: ok fst_conv simp_thms sum.inject)
    from first True ok ends show ?thesis by blast
  next
    case False
    then have "length entries \<noteq> 1 \<or> IsDir (entries ! 0)"
      using hd0 by auto
    then have bad: "downloadK3sArtefacts p ctx w =
            (Inl (''k3s install path contains unexpected entries: '' @ fmt_entries p entries), w4)"
      using run by simp
    have first: "(\<exists>paths. fst (downloadK3sArtefacts p ctx w) = Inr paths)
           \<longleftrightarrow> length entries = 1 \<and> \<not> IsDir (hd entries)"
      using False by (simp only: bad fst_conv simp_thms sum.distinct)
    from first False bad show ?thesis by blast
  qed
qed

theorem downloadK3sArtefacts_single_entry_witness:
  "fst (downloadK3sArtefacts (demo_platform None [\<lparr>EntryName = ''k3s'', IsDir = False\<rparr>])
          (demo_ctx ''v1.29.0+k3s1'' demo_nodes [] []) demo_world)
     = Inr (''$ARTEFACTS_DIR/kubernetes/install/k3s'', ''$ARTEFACTS_DIR/kubernetes/images'')
   \<and> suffix ''k3s'' ''$ARTEFACTS_DIR/kubernetes/install/k3s''
   \<and> fst (downloadK3sArtefacts
        (demo_platform None [\<lparr>EntryName = ''k3s'', IsDir = False\<rparr>,
                             \<lparr>EntryName = ''k3s-arm64'', IsDir = False\<rparr>])
        (demo_ctx ''v1.29.0+k3s1'' demo_nodes [] []) demo_world)
     = Inl ''k3s install path contains unexpected entries: [k3s k3s-arm64]''
   \<and> fst (downloadK3sArtefacts (demo_platform None [])
        (demo_ctx ''v1.29.0+k3s1'' demo_nodes [] []) demo_world)
     = Inl ''k3s install path contains unexpected entries: []''
   \<and> fst (downloadK3sArtefacts (demo_platform None [\<lparr>EntryName = ''k3s'', IsDir = True\<rparr>])
        (demo_ctx ''v1.29.0+k3s1'' demo_nodes [] []) demo_world)
     = Inl ''k3s install path contains unexpected entries: [k3s]''"
proof -
  let ?C = "demo_ctx ''v1.29.0+k3s1'' demo_nodes [] []"
  let ?w1 = "\<lparr>events = [MkdirAll ''/build/artefacts/kubernetes/images'' ModePerm], logs = []\<rparr>"
  let ?w2 = "\<lparr>events = [MkdirAll ''/build/artefacts/kubernetes/images'' ModePerm,
                          MkdirAll ''/build/artefacts/kubernetes/install'' ModePerm], logs = []\<rparr>"
  let ?w3 = "\<lparr>events = [MkdirAll ''/build/artefacts/kubernetes/images'' ModePerm,
                          MkdirAll ''/build/artefacts/kubernetes/install'' ModePerm,
                          DownloadK3sArtefacts ''x86_64'' ''v1.29.0+k3s1''
                            ''/build/artefacts/kubernetes/install''
                            ''/build/artefacts/kubernetes/images''], logs = []\<rparr>"
  let ?w4 = "\<lparr>events = [MkdirAll ''/build/artefacts/kubernetes/images'' ModePerm,
                          MkdirAll ''/build/artefacts/kubernetes/install'' ModePerm,
                          DownloadK3sArtefacts ''x86_64'' ''v1.29.0+k3s1''
                            ''/build/artefacts/kubernetes/install''
                            ''/build/artefacts/kubernetes/images'',
                          ReadDir ''/build/artefacts/kubernetes/install''], logs = []\<rparr>"
  have pre: "\<forall>path. suffix path (prependArtefactPath (demo_platform reg es) path)" for reg es
    by (simp add: demo_platform_def suffix_def)
  have steps:
    "os_MkdirAll (demo_platform None es) (filepath_Join [ArtefactsDir ?C, ''kubernetes/images''])
       ModePerm demo_world = (None, ?w1)"
    "os_MkdirAll (demo_platform None es) (filepath_Join [ArtefactsDir ?C, ''kubernetes/install''])
       ModePerm ?w1 = (None, ?w2)"
    "downloader_DownloadK3sArtefacts (demo_platform None es) (Arch (Image (ImageDefinition ?C)))
       (Version (Kubernetes (ImageDefinition ?C)))
       (filepath_Join [ArtefactsDir ?C, ''kubernetes/install''])
       (filepath_Join [ArtefactsDir ?C, ''kubernetes/images'']) ?w2 = (None, ?w3)"
    "os_ReadDir (demo_platform None es) (filepath_Join [ArtefactsDir ?C, ''kubernetes/install''])
       ?w3 = (Inr es, ?w4)" for es
    by (simp_all add: demo_eval)
  note t = downloadK3sArtefacts_single_entry[OF steps]
  have vals: "prependArtefactPath (demo_platform reg es) path = ''$ARTEFACTS_DIR/'' @ path"
    "fmt_entries (demo_platform reg es) xs = ''['' @ join_with '' '' (map EntryName xs) @ '']''"
    for reg es path xs
    by (simp_all add: demo_platform_def)
  have j: "filepath_Join [''kubernetes/install'', ''k3s''] = ''kubernetes/install/k3s''"
    using filepath_Join_install_entry[of "''k3s''"] by simp
  have one: "downloadK3sArtefacts (demo_platform None [\<lparr>EntryName = ''k3s'', IsDir = False\<rparr>]) ?C
               demo_world
             = (Inr (''$ARTEFACTS_DIR/kubernetes/install/k3s'', ''$ARTEFACTS_DIR/kubernetes/images''), ?w4)"
    using t[of "[\<lparr>EntryName = ''k3s'', IsDir = False\<rparr>]"] by (simp add: vals j)
  have ends: "suffix ''k3s'' ''$ARTEFACTS_DIR/kubernetes/install/k3s''"
    using t[of "[\<lparr>EntryName = ''k3s'', IsDir = False\<rparr>]"] pre by (simp add: vals j)
  have two: "downloadK3sArtefacts
        (demo_platform None [\<lparr>EntryName = ''k3s'', IsDir = False\<rparr>,
                             \<lparr>EntryName = ''k3s-arm64'', IsDir = False\<rparr>]) ?C demo_world
     = (Inl ''k3s install path contains unexpected entries: [k3s k3s-arm64]'', ?w4)"
    using t[of "[\<lparr>EntryName = ''k3s'', IsDir = False\<rparr>, \<lparr>EntryName = ''k3s-arm64'', IsDir = False\<rparr>]"]
    by (simp add: vals)
  have none: "downloadK3sArtefacts (demo_platform None []) ?C demo_world
     = (Inl ''k3s install path contains unexpected entries: []'', ?w4)"
    using t[of "[]"] by (simp add: vals)
  have dir: "downloadK3sArtefacts (demo_platform None [\<lparr>EntryName = ''k3s'', IsDir = True\<rparr>]) ?C
        demo_world
     = (Inl ''k3s install path contains unexpected entries: [k3s]'', ?w4)"
    using t[of "[\<lparr>EntryName = ''k3s'', IsDir = True\<rparr>]"] by (simp add: vals)
  show ?thesis
    by (intro conjI) (simp_all only: one two none dir ends fst_conv)
qed

text \<open>Only the installers and \<open>configureKubernetes\<close> write to the log; what is logged
  stays logged.\<close>

lemma logs_record_event [simp]: "logs (record_event e w) = logs w"
  by (simp add: record_event_def)

lemma logs_os_MkdirAll [simp]: "logs (snd (os_MkdirAll p path mode w)) = logs w"
  by (simp add: os_MkdirAll_def)

lemma logs_os_WriteFile [simp]: "logs (snd (os_WriteFile p path data mode w)) = logs w"
  by (simp add: os_WriteFile_def)

lemma logs_os_ReadDir [simp]: "logs (snd (os_ReadDir p path w)) = logs w"
  by (simp add: os_ReadDir_def)

lemma logs_DownloadInstallScript [simp]:
  "logs (snd (downloader_DownloadInstallScript p d path w)) = logs w"
  by (simp add: downloader_DownloadInstallScript_def)

lemma logs_DownloadK3sArtefacts [simp]:
  "logs (snd (downloader_DownloadK3sArtefacts p a v i m w)) = logs w"
  by (simp add: downloader_DownloadK3sArtefacts_def)

lemma logs_DownloadRKE2Artefacts [simp]:
  "logs (snd (downloader_DownloadRKE2Artefacts p a v c mu i m w)) = logs w"
  by (simp add: downloader_DownloadRKE2Artefacts_def)

lemma logs_CopyFiles [simp]: "logs (snd (fileio_CopyFiles p s d e c w)) = logs w"
  by (simp add: fileio_CopyFiles_def)

lemma logs_template_Parse [simp]: "logs (snd (template_Parse p n t d w)) = logs w"
  by (simp add: template_Parse_def)

lemma logs_NewCluster [simp]: "logs (snd (kubernetes_NewCluster p k c w)) = logs w"
  by (simp add: kubernetes_NewCluster_def)

lemma logs_downloadKubernetesInstallScript [simp]:
  "logs (snd (downloadKubernetesInstallScript p ctx d w)) = logs w"
  by (simp add: downloadKubernetesInstallScript_def split_beta Let_def split: sum.splits)

lemma logs_storeKubernetesInstaller [simp]:
  "logs (snd (storeKubernetesInstaller p ctx n t d w)) = logs w"
  by (simp add: storeKubernetesInstaller_def split_beta Let_def split: sum.splits option.splits)

lemma logs_downloadK3sArtefacts [simp]: "logs (snd (downloadK3sArtefacts p ctx w)) = logs w"
  by (simp add: downloadK3sArtefacts_def split_beta Let_def split: sum.splits option.splits)

lemma logs_downloadRKE2Artefacts [simp]:
  "logs (snd (downloadRKE2Artefacts p ctx c w)) = logs w"
  by (simp add: downloadRKE2Artefacts_def split_beta Let_def split: sum.splits option.splits)

lemma logs_kubernetesVIPManifest [simp]: "logs (snd (kubernetesVIPManifest p k w)) = logs w"
  by (simp add: kubernetesVIPManifest_def)

lemma logs_storeKubernetesConfig [simp]:
  "logs (snd (storeKubernetesConfig p c path w)) = logs w"
  by (simp add: storeKubernetesConfig_def split: sum.splits)

lemma logs_storeKubernetesClusterConfig [simp]:
  "logs (snd (storeKubernetesClusterConfig p c path w)) = logs w"
  by (simp add: storeKubernetesClusterConfig_def split_beta Let_def split: sum.splits option.splits)

lemma logs_storeHelmCharts [simp]: "logs (snd (storeHelmCharts p d charts w)) = logs w"
  by (induction charts arbitrary: w)
     (simp_all add: split_beta Let_def split: sum.splits option.splits)

lemma logs_configureManifests_vip [simp]:
  "logs (snd (configureManifests_vip p ctx d w)) = logs w"
  by (simp add: configureManifests_vip_def split_beta Let_def split: sum.splits option.splits)

lemma logs_configureManifests_raw [simp]:
  "logs (snd (configureManifests_raw p reg d b w)) = logs w"
  by (simp add: configureManifests_raw_def split_beta split: option.splits)

lemma logs_configureManifests_charts [simp]:
  "logs (snd (configureManifests_charts p reg d b w)) = logs w"
  by (simp add: configureManifests_charts_def split_beta split: sum.splits option.splits)

lemma logs_configureManifests_registry [simp]:
  "logs (snd (configureManifests_registry p reg d b w)) = logs w"
  by (simp add: configureManifests_registry_def split_beta split: sum.splits)

lemma logs_configureManifests [simp]: "logs (snd (configureManifests p ctx w)) = logs w"
  by (simp add: configureManifests_def split_beta Let_def split: sum.splits option.splits)

lemma logs_log: "logs (log l w) = logs w @ [l]"
  by (simp add: log_def)

lemma logs_configureK3S:
  "x \<in> set (logs w) \<Longrightarrow> x \<in> set (logs (snd (configureK3S p ctx c w)))"
  by (simp add: configureK3S_def split_beta Let_def logs_log split: sum.splits)

lemma logs_configureRKE2:
  "x \<in> set (logs w) \<Longrightarrow> x \<in> set (logs (snd (configureRKE2 p ctx c w)))"
  by (simp add: configureRKE2_def split_beta Let_def logs_log split: sum.splits)

lemma kubernetesConfigurator_cases:
  "kubernetesConfigurator p version = Some f \<Longrightarrow> f = configureRKE2 p \<or> f = configureK3S p"
  by (auto simp add: kubernetesConfigurator_def split: if_splits)

lemma logs_configureKubernetes_two_servers:
  assumes "Version (Kubernetes (ImageDefinition ctx)) \<noteq> []"
    and "kubernetesConfigurator p (Version (Kubernetes (ImageDefinition ctx))) = Some f"
    and "ServersCount p (Nodes (Kubernetes (ImageDefinition ctx))) = 2"
  shows "Audit ''WARNING: Kubernetes clusters consisting of two server nodes cannot form a highly available architecture''
           \<in> set (logs (snd (configureKubernetes p ctx w)))"
proof -
  from assms(2) have "f = configureRKE2 p \<or> f = configureK3S p"
    by (rule kubernetesConfigurator_cases)
  then show ?thesis
  proof
    assume "f = configureRKE2 p"
    with assms show ?thesis
      by (simp add: configureKubernetes_def split_beta Let_def logs_log logs_configureRKE2
            split: sum.splits option.splits)
  next
    assume "f = configureK3S p"
    with assms show ?thesis
      by (simp add: configureKubernetes_def split_beta Let_def logs_log logs_configureK3S
            split: sum.splits option.splits)
  qed
qed

text \<open>Once the cluster configuration is stored, \<open>configureKubernetes\<close> ends as the
  installer of the distribution ends.\<close>

lemma configureKubernetes_installer:
  assumes "Version (Kubernetes (ImageDefinition ctx)) \<noteq> []"
    and "kubernetesConfigurator p (Version (Kubernetes (ImageDefinition ctx))) = Some f"
    and "kubernetes_NewCluster p (Kubernetes (ImageDefinition ctx))
           (filepath_Join [generateComponentPath p ctx k8sDir, k8sConfigDir])
           (if ServersCount p (Nodes (Kubernetes (ImageDefinition ctx))) = 2 then
              log (ZapWarn ''Kubernetes cluster of two server nodes has been requested'')
                (log (Audit ''WARNING: Kubernetes clusters consisting of two server nodes cannot form a highly available architecture'')
                   (log (Audit ''Configuring Kubernetes component...'') w))
            else log (Audit ''Configuring Kubernetes component...'') w)
           = (Inr cluster, w3)"
    and "os_MkdirAll p (kubernetesArtefactsPath ctx) ModePerm w3 = (None, w4)"
    and "storeKubernetesClusterConfig p cluster (kubernetesArtefactsPath ctx) w4 = (None, w5)"
  shows "configureKubernetes p ctx w =
     (case f ctx cluster w5 of
        (Inl err, w6) \<Rightarrow>
          (Inl (''configuring kubernetes components: '' @ err),
           log (AuditComponentFailed k8sComponentName) w6)
      | (Inr script, w6) \<Rightarrow>
          (Inr [script], log (AuditComponentSuccessful k8sComponentName) w6))"
  using assms by (simp add: configureKubernetes_def Let_def)

text \<open>\<open>storeKubernetesInstaller\<close> renders the template, and when rendering and writing
  succeed it has written the script and returns its name.\<close>

lemma storeKubernetesInstaller_ok:
  assumes "parse_result p n t d = Inr data"
    and "writeFile_result p (events w @ [TemplateParse n t d])
           (filepath_Join [CombustionDir ctx, k8sInstallScript]) data ExecutablePerms = None"
  shows "storeKubernetesInstaller p ctx n t d w =
     (Inr k8sInstallScript,
      record_event (WriteFile (filepath_Join [CombustionDir ctx, k8sInstallScript]) data
                      ExecutablePerms)
        (record_event (TemplateParse n t d) w))"
  using assms
  by (simp add: storeKubernetesInstaller_def template_Parse_def os_WriteFile_def
        record_event_def Let_def)

lemma configureKubernetes_renders:
  assumes run: "configureKubernetes p ctx w =
     (case r of
        (Inl err, w6) \<Rightarrow>
          (Inl (''configuring kubernetes components: '' @ err),
           log (AuditComponentFailed k8sComponentName) w6)
      | (Inr script, w6) \<Rightarrow>
          (Inr [script], log (AuditComponentSuccessful k8sComponentName) w6))"
    and inst: "r = storeKubernetesInstaller p ctx n t d w'"
    and ev: "events w' = events v3"
  shows "(\<exists>rest. events (snd (configureKubernetes p ctx w)) = events v3 @ TemplateParse n t d # rest)
    \<and> (\<forall>data.
          parse_result p n t d = Inr data
          \<and> writeFile_result p (events v3 @ [TemplateParse n t d])
               (filepath_Join [CombustionDir ctx, k8sInstallScript]) data ExecutablePerms = None
          \<longrightarrow> fst (configureKubernetes p ctx w) = Inr [k8sInstallScript]
              \<and> events (snd (configureKubernetes p ctx w)) =
                  events v3 @
                  [TemplateParse n t d,
                   WriteFile (filepath_Join [CombustionDir ctx, k8sInstallScript]) data
                     ExecutablePerms])"
proof (intro conjI allI impI)
  have e: "events (snd (configureKubernetes p ctx w))
             = events (snd (storeKubernetesInstaller p ctx n t d w'))"
    unfolding run inst by (simp add: split_beta split: sum.splits)
  from storeKubernetesInstaller_events[of p ctx n t d w']
  show "\<exists>rest. events (snd (configureKubernetes p ctx w)) = events v3 @ TemplateParse n t d # rest"
    unfolding e ev .
  fix data
  assume ok: "parse_result p n t d = Inr data
          \<and> writeFile_result p (events v3 @ [TemplateParse n t d])
               (filepath_Join [CombustionDir ctx, k8sInstallScript]) data ExecutablePerms = None"
  then have s: "storeKubernetesInstaller p ctx n t d w' =
     (Inr k8sInstallScript,
      record_event (WriteFile (filepath_Join [CombustionDir ctx, k8sInstallScript]) data
                      ExecutablePerms)
        (record_event (TemplateParse n t d) w'))"
    by (intro storeKubernetesInstaller_ok) (simp_all add: ev)
  show "fst (configureKubernetes p ctx w) = Inr [k8sInstallScript]"
    unfolding run inst s by simp
  show "events (snd (configureKubernetes p ctx w)) =
                  events v3 @
                  [TemplateParse n t d,
                   WriteFile (filepath_Join [CombustionDir ctx, k8sInstallScript]) data
                     ExecutablePerms]"
    unfolding e s by (simp add: record_event_def ev)
qed

lemma logs_configureKubernetes_installer:
  assumes run: "configureKubernetes p ctx w =
     (case r of
        (Inl err, w6) \<Rightarrow>
          (Inl (''configuring kubernetes components: '' @ err),
           log (AuditComponentFailed k8sComponentName) w6)
      | (Inr script, w6) \<Rightarrow>
          (Inr [script], log (AuditComponentSuccessful k8sComponentName) w6))"
    and "x \<in> set (logs (snd r))"
  shows "x \<in> set (logs (snd (configureKubernetes p ctx w)))"
  using assms(2) unfolding run by (simp add: split_beta logs_log split: sum.splits)

lemma configureK3S_vip_warning:
  assumes "length (Nodes (Kubernetes (ImageDefinition ctx))) < 2"
    and "APIVIP (Network (Kubernetes (ImageDefinition ctx))) \<noteq> []"
    and "downloadKubernetesInstallScript p ctx (KubernetesDistroK3S p)
           (log (ZapInfo ''Configuring K3s cluster'') w) = (Inr installScript, w1)"
    and "downloadK3sArtefacts p ctx w1 = (Inr (binaryPath, imagesPath), w2)"
    and "configureManifests p ctx w2 = (Inr manifestsPath, w3)"
  shows "Audit (''WARNING: A Virtual IP address for the k3s cluster has been provided. '' @
                ''An external IP address for the Ingress Controller (Traefik) must be manually configured.'')
          \<in> set (logs (snd (configureK3S p ctx cluster w)))"
  using assms by (simp add: configureK3S_def Let_def logs_log)

text \<open>
  C8. Two conditions are logged as warnings and are no errors.

  Two servers: when \<open>ServersCount\<close> gives 2 for a version that has a configurator, the
  warning is in the log whatever happens later.

  A k3s build, with any number of servers and with or without a VIP: when the cluster,
  the artefacts directory, the stored cluster configuration, the install script, the
  artefacts and the manifests succeed, \<open>configureKubernetes\<close> renders the installer
  template of the node count with the values of the build (the call is recorded right
  after the calls of the staging); with two servers the two-server warning is in the
  log, and with fewer than two nodes and an API VIP the VIP warning is. When rendering
  and writing succeed, the script is written to the combustion directory and
  \<open>configureKubernetes\<close> returns its name and no error.

  An RKE2 build: the same, with the RKE2 artefacts and templates; two servers give the
  two-server warning.
\<close>

theorem warnings_are_not_errors:
  fixes ctx :: Context and p :: platform and w :: world
  defines "k \<equiv> Kubernetes (ImageDefinition ctx)"
    and "two \<equiv> Audit ''WARNING: Kubernetes clusters consisting of two server nodes cannot form a highly available architecture''"
    and "w2 \<equiv>
       (if ServersCount p (Nodes (Kubernetes (ImageDefinition ctx))) = 2 then
          log (ZapWarn ''Kubernetes cluster of two server nodes has been requested'')
            (log (Audit ''WARNING: Kubernetes clusters consisting of two server nodes cannot form a highly available architecture'')
               (log (Audit ''Configuring Kubernetes component...'') w))
        else log (Audit ''Configuring Kubernetes component...'') w)"
    and "configPath \<equiv> filepath_Join [generateComponentPath p ctx k8sDir, k8sConfigDir]"
    and "scriptPath \<equiv> filepath_Join [CombustionDir ctx, k8sInstallScript]"
  shows
  "(Version k \<noteq> [] \<and> kubernetesConfigurator p (Version k) = Some configureFunc
     \<and> ServersCount p (Nodes k) = 2
    \<longrightarrow> two \<in> set (logs (snd (configureKubernetes p ctx w))))
   \<and> (Version k \<noteq> [] \<and> kubernetesConfigurator p (Version k) = Some (configureK3S p)
       \<and> kubernetes_NewCluster p k configPath w2 = (Inr cluster, w3)
       \<and> os_MkdirAll p (kubernetesArtefactsPath ctx) ModePerm w3 = (None, w4)
       \<and> storeKubernetesClusterConfig p cluster (kubernetesArtefactsPath ctx) w4 = (None, w5)
       \<and> downloadKubernetesInstallScript p ctx (KubernetesDistroK3S p)
            (log (ZapInfo ''Configuring K3s cluster'') w5) = (Inr installScript, v1)
       \<and> downloadK3sArtefacts p ctx v1 = (Inr (binaryPath, imagesPath), v2)
       \<and> configureManifests p ctx v2 = (Inr manifestsPath, v3)
       \<and> name = (if length (Nodes k) < 2 then ''single-node-k3s'' else ''multi-node-k3s'')
       \<and> tpl = (if length (Nodes k) < 2 then k3sSingleNodeInstaller else k3sMultiNodeInstaller)
       \<and> vals =
           (if length (Nodes k) < 2 then
              map_assign ''configFile'' (TString k8sServerConfigFile)
                (templateValues_base p ctx installScript ''binaryPath'' binaryPath imagesPath
                   manifestsPath)
            else
              map_assign ''initialiserConfigFile'' (TString k8sInitServerConfigFile)
                (map_assign ''initialiser'' (TString (InitialiserName cluster))
                   (map_assign ''nodes'' (TNodes (Nodes k))
                      (templateValues_base p ctx installScript ''binaryPath'' binaryPath
                         imagesPath manifestsPath))))
    \<longrightarrow> (ServersCount p (Nodes k) = 2 \<longrightarrow> two \<in> set (logs (snd (configureKubernetes p ctx w))))
       \<and> (length (Nodes k) < 2 \<and> APIVIP (Network k) \<noteq> [] \<longrightarrow>
            Audit (''WARNING: A Virtual IP address for the k3s cluster has been provided. '' @
                   ''An external IP address for the Ingress Controller (Traefik) must be manually configured.'')
              \<in> set (logs (snd (configureKubernetes p ctx w))))
       \<and> (\<exists>rest. events (snd (configureKubernetes p ctx w))
                    = events v3 @ TemplateParse name tpl (TMap vals) # rest)
       \<and> (\<forall>data.
             parse_result p name tpl (TMap vals) = Inr data
             \<and> writeFile_result p (events v3 @ [TemplateParse name tpl (TMap vals)])
                  scriptPath data ExecutablePerms = None
             \<longrightarrow> fst (configureKubernetes p ctx w) = Inr [k8sInstallScript]
                 \<and> events (snd (configureKubernetes p ctx w)) =
                     events v3 @
                     [TemplateParse name tpl (TMap vals),
                      WriteFile scriptPath data ExecutablePerms]))
   \<and> (Version k \<noteq> [] \<and> kubernetesConfigurator p (Version k) = Some (configureRKE2 p)
       \<and> kubernetes_NewCluster p k configPath w2 = (Inr cluster', u3)
       \<and> os_MkdirAll p (kubernetesArtefactsPath ctx) ModePerm u3 = (None, u4)
       \<and> storeKubernetesClusterConfig p cluster' (kubernetesArtefactsPath ctx) u4 = (None, u5)
       \<and> downloadKubernetesInstallScript p ctx (KubernetesDistroRKE2 p)
            (log (ZapInfo ''Configuring RKE2 cluster'') u5) = (Inr installScript', x1)
       \<and> downloadRKE2Artefacts p ctx cluster' x1 = (Inr (installPath, imagesPath'), x2)
       \<and> configureManifests p ctx x2 = (Inr manifestsPath', x3)
       \<and> name' = (if length (Nodes k) < 2 then ''single-node-rke2'' else ''multi-node-rke2'')
       \<and> tpl' = (if length (Nodes k) < 2 then rke2SingleNodeInstaller else rke2MultiNodeInstaller)
       \<and> vals' =
           (if length (Nodes k) < 2 then
              map_assign ''configFile'' (TString k8sServerConfigFile)
                (templateValues_base p ctx installScript' ''installPath'' installPath imagesPath'
                   manifestsPath')
            else
              map_assign ''initialiserConfigFile'' (TString k8sInitServerConfigFile)
                (map_assign ''initialiser'' (TString (InitialiserName cluster'))
                   (map_assign ''nodes'' (TNodes (Nodes k))
                      (templateValues_base p ctx installScript' ''installPath'' installPath
                         imagesPath' manifestsPath'))))
    \<longrightarrow> (ServersCount p (Nodes k) = 2 \<longrightarrow> two \<in> set (logs (snd (configureKubernetes p ctx w))))
       \<and> (\<exists>rest. events (snd (configureKubernetes p ctx w))
                    = events x3 @ TemplateParse name' tpl' (TMap vals') # rest)
       \<and> (\<forall>data.
             parse_result p name' tpl' (TMap vals') = Inr data
             \<and> writeFile_result p (events x3 @ [TemplateParse name' tpl' (TMap vals')])
                  scriptPath data ExecutablePerms = None
             \<longrightarrow> fst (configureKubernetes p ctx w) = Inr [k8sInstallScript]
                 \<and> events (snd (configureKubernetes p ctx w)) =
                     events x3 @
                     [TemplateParse name' tpl' (TMap vals'),
                      WriteFile scriptPath data ExecutablePerms]))"
proof (intro conjI)
  show "Version k \<noteq> [] \<and> kubernetesConfigurator p (Version k) = Some configureFunc
     \<and> ServersCount p (Nodes k) = 2
    \<longrightarrow> two \<in> set (logs (snd (configureKubernetes p ctx w)))"
    unfolding k_def two_def by (intro impI logs_configureKubernetes_two_servers) simp_all
next
  show "Version k \<noteq> [] \<and> kubernetesConfigurator p (Version k) = Some (configureK3S p)
       \<and> kubernetes_NewCluster p k configPath w2 = (Inr cluster, w3)
       \<and> os_MkdirAll p (kubernetesArtefactsPath ctx) ModePerm w3 = (None, w4)
       \<and> storeKubernetesClusterConfig p cluster (kubernetesArtefactsPath ctx) w4 = (None, w5)
       \<and> downloadKubernetesInstallScript p ctx (KubernetesDistroK3S p)
            (log (ZapInfo ''Configuring K3s cluster'') w5) = (Inr installScript, v1)
       \<and> downloadK3sArtefacts p ctx v1 = (Inr (binaryPath, imagesPath), v2)
       \<and> configureManifests p ctx v2 = (Inr manifestsPath, v3)
       \<and> name = (if length (Nodes k) < 2 then ''single-node-k3s'' else ''multi-node-k3s'')
       \<and> tpl = (if length (Nodes k) < 2 then k3sSingleNodeInstaller else k3sMultiNodeInstaller)
       \<and> vals =
           (if length (Nodes k) < 2 then
              map_assign ''configFile'' (TString k8sServerConfigFile)
                (templateValues_base p ctx installScript ''binaryPath'' binaryPath imagesPath
                   manifestsPath)
            else
              map_assign ''initialiserConfigFile'' (TString k8sInitServerConfigFile)
                (map_assign ''initialiser'' (TString (InitialiserName cluster))
                   (map_assign ''nodes'' (TNodes (Nodes k))
                      (templateValues_base p ctx installScript ''binaryPath'' binaryPath
                         imagesPath manifestsPath))))
    \<longrightarrow> (ServersCount p (Nodes k) = 2 \<longrightarrow> two \<in> set (logs (snd (configureKubernetes p ctx w))))
       \<and> (length (Nodes k) < 2 \<and> APIVIP (Network k) \<noteq> [] \<longrightarrow>
            Audit (''WARNING: A Virtual IP address for the k3s cluster has been provided. '' @
                   ''An external IP address for the Ingress Controller (Traefik) must be manually configured.'')
              \<in> set (logs (snd (configureKubernetes p ctx w))))
       \<and> (\<exists>rest. events (snd (configureKubernetes p ctx w))
                    = events v3 @ TemplateParse name tpl (TMap vals) # rest)
       \<and> (\<forall>data.
             parse_result p name tpl (TMap vals) = Inr data
             \<and> writeFile_result p (events v3 @ [TemplateParse name tpl (TMap vals)])
                  scriptPath data ExecutablePerms = None
             \<longrightarrow> fst (configureKubernetes p ctx w) = Inr [k8sInstallScript]
                 \<and> events (snd (configureKubernetes p ctx w)) =
                     events v3 @
                     [TemplateParse name tpl (TMap vals),
                      WriteFile scriptPath data ExecutablePerms])"
  proof (intro impI)
    assume a: "Version k \<noteq> [] \<and> kubernetesConfigurator p (Version k) = Some (configureK3S p)
       \<and> kubernetes_NewCluster p k configPath w2 = (Inr cluster, w3)
       \<and> os_MkdirAll p (kubernetesArtefactsPath ctx) ModePerm w3 = (None, w4)
       \<and> storeKubernetesClusterConfig p cluster (kubernetesArtefactsPath ctx) w4 = (None, w5)
       \<and> downloadKubernetesInstallScript p ctx (KubernetesDistroK3S p)
            (log (ZapInfo ''Configuring K3s cluster'') w5) = (Inr installScript, v1)
       \<and> downloadK3sArtefacts p ctx v1 = (Inr (binaryPath, imagesPath), v2)
       \<and> configureManifests p ctx v2 = (Inr manifestsPath, v3)
       \<and> name = (if length (Nodes k) < 2 then ''single-node-k3s'' else ''multi-node-k3s'')
       \<and> tpl = (if length (Nodes k) < 2 then k3sSingleNodeInstaller else k3sMultiNodeInstaller)
       \<and> vals =
           (if length (Nodes k) < 2 then
              map_assign ''configFile'' (TString k8sServerConfigFile)
                (templateValues_base p ctx installScript ''binaryPath'' binaryPath imagesPath
                   manifestsPath)
            else
              map_assign ''initialiserConfigFile'' (TString k8sInitServerConfigFile)
                (map_assign ''initialiser'' (TString (InitialiserName cluster))
                   (map_assign ''nodes'' (TNodes (Nodes k))
                      (templateValues_base p ctx installScript ''binaryPath'' binaryPath
                         imagesPath manifestsPath))))"
    then have v: "Version (Kubernetes (ImageDefinition ctx)) \<noteq> []"
      and f: "kubernetesConfigurator p (Version (Kubernetes (ImageDefinition ctx))) = Some (configureK3S p)"
      and c1: "kubernetes_NewCluster p (Kubernetes (ImageDefinition ctx))
           (filepath_Join [generateComponentPath p ctx k8sDir, k8sConfigDir])
           (if ServersCount p (Nodes (Kubernetes (ImageDefinition ctx))) = 2 then
              log (ZapWarn ''Kubernetes cluster of two server nodes has been requested'')
                (log (Audit ''WARNING: Kubernetes clusters consisting of two server nodes cannot form a highly available architecture'')
                   (log (Audit ''Configuring Kubernetes component...'') w))
            else log (Audit ''Configuring Kubernetes component...'') w)
           = (Inr cluster, w3)"
      and c2: "os_MkdirAll p (kubernetesArtefactsPath ctx) ModePerm w3 = (None, w4)"
      and c3: "storeKubernetesClusterConfig p cluster (kubernetesArtefactsPath ctx) w4 = (None, w5)"
      and s1: "downloadKubernetesInstallScript p ctx (KubernetesDistroK3S p)
            (log (ZapInfo ''Configuring K3s cluster'') w5) = (Inr installScript, v1)"
      and s2: "downloadK3sArtefacts p ctx v1 = (Inr (binaryPath, imagesPath), v2)"
      and s3: "configureManifests p ctx v2 = (Inr manifestsPath, v3)"
      unfolding k_def w2_def configPath_def by simp_all
    note run = configureKubernetes_installer[OF v f c1 c2 c3]
    from configureK3S_render[OF s1 s2 s3, of cluster] a obtain w' where
      ev: "events w' = events v3"
      and inst: "configureK3S p ctx cluster w5 =
                   storeKubernetesInstaller p ctx name tpl (TMap vals) w'"
      unfolding k_def by (auto split: if_splits)
    have two: "ServersCount p (Nodes k) = 2 \<longrightarrow> two \<in> set (logs (snd (configureKubernetes p ctx w)))"
      unfolding k_def two_def using v f by (intro impI logs_configureKubernetes_two_servers)
    have vip: "length (Nodes k) < 2 \<and> APIVIP (Network k) \<noteq> [] \<longrightarrow>
            Audit (''WARNING: A Virtual IP address for the k3s cluster has been provided. '' @
                   ''An external IP address for the Ingress Controller (Traefik) must be manually configured.'')
              \<in> set (logs (snd (configureKubernetes p ctx w)))"
    proof
      assume "length (Nodes k) < 2 \<and> APIVIP (Network k) \<noteq> []"
      then have "length (Nodes (Kubernetes (ImageDefinition ctx))) < 2"
        "APIVIP (Network (Kubernetes (ImageDefinition ctx))) \<noteq> []"
        unfolding k_def by simp_all
      from configureK3S_vip_warning[OF this s1 s2 s3, of cluster]
      show "Audit (''WARNING: A Virtual IP address for the k3s cluster has been provided. '' @
                   ''An external IP address for the Ingress Controller (Traefik) must be manually configured.'')
              \<in> set (logs (snd (configureKubernetes p ctx w)))"
        by (rule logs_configureKubernetes_installer[OF run])
    qed
    from two vip configureKubernetes_renders[OF run inst ev, folded scriptPath_def]
    show "(ServersCount p (Nodes k) = 2 \<longrightarrow> two \<in> set (logs (snd (configureKubernetes p ctx w))))
       \<and> (length (Nodes k) < 2 \<and> APIVIP (Network k) \<noteq> [] \<longrightarrow>
            Audit (''WARNING: A Virtual IP address for the k3s cluster has been provided. '' @
                   ''An external IP address for the Ingress Controller (Traefik) must be manually configured.'')
              \<in> set (logs (snd (configureKubernetes p ctx w))))
       \<and> (\<exists>rest. events (snd (configureKubernetes p ctx w))
                    = events v3 @ TemplateParse name tpl (TMap vals) # rest)
       \<and> (\<forall>data.
             parse_result p name tpl (TMap vals) = Inr data
             \<and> writeFile_result p (events v3 @ [TemplateParse name tpl (TMap vals)])
                  scriptPath data ExecutablePerms = None
             \<longrightarrow> fst (configureKubernetes p ctx w) = Inr [k8sInstallScript]
                 \<and> events (snd (configureKubernetes p ctx w)) =
                     events v3 @
                     [TemplateParse name tpl (TMap vals),
                      WriteFile scriptPath data ExecutablePerms])"
      by (intro conjI) (rule conjunct1, assumption | rule conjunct2, assumption | assumption)+
  qed
next
  show "Version k \<noteq> [] \<and> kubernetesConfigurator p (Version k) = Some (configureRKE2 p)
       \<and> kubernetes_NewCluster p k configPath w2 = (Inr cluster', u3)
       \<and> os_MkdirAll p (kubernetesArtefactsPath ctx) ModePerm u3 = (None, u4)
       \<and> storeKubernetesClusterConfig p cluster' (kubernetesArtefactsPath ctx) u4 = (None, u5)
       \<and> downloadKubernetesInstallScript p ctx (KubernetesDistroRKE2 p)
            (log (ZapInfo ''Configuring RKE2 cluster'') u5) = (Inr installScript', x1)
       \<and> downloadRKE2Artefacts p ctx cluster' x1 = (Inr (installPath, imagesPath'), x2)
       \<and> configureManifests p ctx x2 = (Inr manifestsPath', x3)
       \<and> name' = (if length (Nodes k) < 2 then ''single-node-rke2'' else ''multi-node-rke2'')
       \<and> tpl' = (if length (Nodes k) < 2 then rke2SingleNodeInstaller else rke2MultiNodeInstaller)
       \<and> vals' =
           (if length (Nodes k) < 2 then
              map_assign ''configFile'' (TString k8sServerConfigFile)
                (templateValues_base p ctx installScript' ''installPath'' installPath imagesPath'
                   manifestsPath')
            else
              map_assign ''initialiserConfigFile'' (TString k8sInitServerConfigFile)
                (map_assign ''initialiser'' (TString (InitialiserName cluster'))
                   (map_assign ''nodes'' (TNodes (Nodes k))
                      (templateValues_base p ctx installScript' ''installPath'' installPath
                         imagesPath' manifestsPath'))))
    \<longrightarrow> (ServersCount p (Nodes k) = 2 \<longrightarrow> two \<in> set (logs (snd (configureKubernetes p ctx w))))
       \<and> (\<exists>rest. events (snd (configureKubernetes p ctx w))
                    = events x3 @ TemplateParse name' tpl' (TMap vals') # rest)
       \<and> (\<forall>data.
             parse_result p name' tpl' (TMap vals') = Inr data
             \<and> writeFile_result p (events x3 @ [TemplateParse name' tpl' (TMap vals')])
                  scriptPath data ExecutablePerms = None
             \<longrightarrow> fst (configureKubernetes p ctx w) = Inr [k8sInstallScript]
                 \<and> events (snd (configureKubernetes p ctx w)) =
                     events x3 @
                     [TemplateParse name' tpl' (TMap vals'),
                      WriteFile scriptPath data ExecutablePerms])"
  proof (intro impI)
    assume a: "Version k \<noteq> [] \<and> kubernetesConfigurator p (Version k) = Some (configureRKE2 p)
       \<and> kubernetes_NewCluster p k configPath w2 = (Inr cluster', u3)
       \<and> os_MkdirAll p (kubernetesArtefactsPath ctx) ModePerm u3 = (None, u4)
       \<and> storeKubernetesClusterConfig p cluster' (kubernetesArtefactsPath ctx) u4 = (None, u5)
       \<and> downloadKubernetesInstallScript p ctx (KubernetesDistroRKE2 p)
            (log (ZapInfo ''Configuring RKE2 cluster'') u5) = (Inr installScript', x1)
       \<and> downloadRKE2Artefacts p ctx cluster' x1 = (Inr (installPath, imagesPath'), x2)
       \<and> configureManifests p ctx x2 = (Inr manifestsPath', x3)
       \<and> name' = (if length (Nodes k) < 2 then ''single-node-rke2'' else ''multi-node-rke2'')
       \<and> tpl' = (if length (Nodes k) < 2 then rke2SingleNodeInstaller else rke2MultiNodeInstaller)
       \<and> vals' =
           (if length (Nodes k) < 2 then
              map_assign ''configFile'' (TString k8sServerConfigFile)
                (templateValues_base p ctx installScript' ''installPath'' installPath imagesPath'
                   manifestsPath')
            else
              map_assign ''initialiserConfigFile'' (TString k8sInitServerConfigFile)
                (map_assign ''initialiser'' (TString (InitialiserName cluster'))
                   (map_assign ''nodes'' (TNodes (Nodes k))
                      (templateValues_base p ctx installScript' ''installPath'' installPath
                         imagesPath' manifestsPath'))))"
    then have v: "Version (Kubernetes (ImageDefinition ctx)) \<noteq> []"
      and f: "kubernetesConfigurator p (Version (Kubernetes (ImageDefinition ctx))) = Some (configureRKE2 p)"
      and c1: "kubernetes_NewCluster p (Kubernetes (ImageDefinition ctx))
           (filepath_Join [generateComponentPath p ctx k8sDir, k8sConfigDir])
           (if ServersCount p (Nodes (Kubernetes (ImageDefinition ctx))) = 2 then
              log (ZapWarn ''Kubernetes cluster of two server nodes has been requested'')
                (log (Audit ''WARNING: Kubernetes clusters consisting of two server nodes cannot form a highly available architecture'')
                   (log (Audit ''Configuring Kubernetes component...'') w))
            else log (Audit ''Configuring Kubernetes component...'') w)
           = (Inr cluster', u3)"
      and c2: "os_MkdirAll p (kubernetesArtefactsPath ctx) ModePerm u3 = (None, u4)"
      and c3: "storeKubernetesClusterConfig p cluster' (kubernetesArtefactsPath ctx) u4 = (None, u5)"
      and s1: "downloadKubernetesInstallScript p ctx (KubernetesDistroRKE2 p)
            (log (ZapInfo ''Configuring RKE2 cluster'') u5) = (Inr installScript', x1)"
      and s2: "downloadRKE2Artefacts p ctx cluster' x1 = (Inr (installPath, imagesPath'), x2)"
      and s3: "configureManifests p ctx x2 = (Inr manifestsPath', x3)"
      unfolding k_def w2_def configPath_def by simp_all
    note run = configureKubernetes_installer[OF v f c1 c2 c3]
    from configureRKE2_render[OF s1 s2 s3] a obtain w' where
      ev: "events w' = events x3"
      and inst: "configureRKE2 p ctx cluster' u5 =
                   storeKubernetesInstaller p ctx name' tpl' (TMap vals') w'"
      unfolding k_def by (auto split: if_splits)
    have two: "ServersCount p (Nodes k) = 2 \<longrightarrow> two \<in> set (logs (snd (configureKubernetes p ctx w)))"
      unfolding k_def two_def using v f by (intro impI logs_configureKubernetes_two_servers)
    from two configureKubernetes_renders[OF run inst ev, folded scriptPath_def]
    show "(ServersCount p (Nodes k) = 2 \<longrightarrow> two \<in> set (logs (snd (configureKubernetes p ctx w))))
       \<and> (\<exists>rest. events (snd (configureKubernetes p ctx w))
                    = events x3 @ TemplateParse name' tpl' (TMap vals') # rest)
       \<and> (\<forall>data.
             parse_result p name' tpl' (TMap vals') = Inr data
             \<and> writeFile_result p (events x3 @ [TemplateParse name' tpl' (TMap vals')])
                  scriptPath data ExecutablePerms = None
             \<longrightarrow> fst (configureKubernetes p ctx w) = Inr [k8sInstallScript]
                 \<and> events (snd (configureKubernetes p ctx w)) =
                     events x3 @
                     [TemplateParse name' tpl' (TMap vals'),
                      WriteFile scriptPath data ExecutablePerms])"
      by (intro conjI) (rule conjunct1, assumption | rule conjunct2, assumption | assumption)+
  qed
qed

theorem warnings_are_not_errors_witness:
  "(fst (configureKubernetes (demo_platform None [\<lparr>EntryName = ''k3s'', IsDir = False\<rparr>])
          (demo_ctx ''v1.29.0+k3s1''
             [\<lparr>Hostname = ''node-1'', Type = ''server''\<rparr>, \<lparr>Hostname = ''node-2'', Type = ''server''\<rparr>]
             [] [])
          demo_world) = Inr [''20-k8s-install.sh'']
    \<and> Audit ''WARNING: Kubernetes clusters consisting of two server nodes cannot form a highly available architecture''
       \<in> set (logs (snd (configureKubernetes
             (demo_platform None [\<lparr>EntryName = ''k3s'', IsDir = False\<rparr>])
             (demo_ctx ''v1.29.0+k3s1''
                [\<lparr>Hostname = ''node-1'', Type = ''server''\<rparr>, \<lparr>Hostname = ''node-2'', Type = ''server''\<rparr>]
                [] [])
             demo_world)))
    \<and> WriteFile ''/build/combustion/20-k8s-install.sh'' ''multi-node-k3s'' ExecutablePerms
       \<in> set (events (snd (configureKubernetes
             (demo_platform None [\<lparr>EntryName = ''k3s'', IsDir = False\<rparr>])
             (demo_ctx ''v1.29.0+k3s1''
                [\<lparr>Hostname = ''node-1'', Type = ''server''\<rparr>, \<lparr>Hostname = ''node-2'', Type = ''server''\<rparr>]
                [] [])
             demo_world))))
   \<and> (fst (configureKubernetes (demo_platform None [\<lparr>EntryName = ''k3s'', IsDir = False\<rparr>])
          (demo_ctx ''v1.29.0+k3s1'' [\<lparr>Hostname = ''node-1'', Type = ''server''\<rparr>]
             ''192.168.100.10'' ''api.cluster01.example'')
          demo_world) = Inr [''20-k8s-install.sh'']
    \<and> Audit (''WARNING: A Virtual IP address for the k3s cluster has been provided. '' @
             ''An external IP address for the Ingress Controller (Traefik) must be manually configured.'')
       \<in> set (logs (snd (configureKubernetes
             (demo_platform None [\<lparr>EntryName = ''k3s'', IsDir = False\<rparr>])
             (demo_ctx ''v1.29.0+k3s1'' [\<lparr>Hostname = ''node-1'', Type = ''server''\<rparr>]
                ''192.168.100.10'' ''api.cluster01.example'')
             demo_world)))
    \<and> WriteFile ''/build/combustion/20-k8s-install.sh'' ''single-node-k3s'' ExecutablePerms
       \<in> set (events (snd (configureKubernetes
             (demo_platform None [\<lparr>EntryName = ''k3s'', IsDir = False\<rparr>])
             (demo_ctx ''v1.29.0+k3s1'' [\<lparr>Hostname = ''node-1'', Type = ''server''\<rparr>]
                ''192.168.100.10'' ''api.cluster01.example'')
             demo_world))))
   \<and> (fst (configureKubernetes (demo_platform None [])
          (demo_ctx ''v1.29.0+rke2r1''
             [\<lparr>Hostname = ''node-1'', Type = ''server''\<rparr>, \<lparr>Hostname = ''node-2'', Type = ''server''\<rparr>]
             [] [])
          demo_world) = Inr [''20-k8s-install.sh'']
    \<and> Audit ''WARNING: Kubernetes clusters consisting of two server nodes cannot form a highly available architecture''
       \<in> set (logs (snd (configureKubernetes (demo_platform None [])
             (demo_ctx ''v1.29.0+rke2r1''
                [\<lparr>Hostname = ''node-1'', Type = ''server''\<rparr>, \<lparr>Hostname = ''node-2'', Type = ''server''\<rparr>]
                [] [])
             demo_world)))
    \<and> WriteFile ''/build/combustion/20-k8s-install.sh'' ''multi-node-rke2'' ExecutablePerms
       \<in> set (events (snd (configureKubernetes (demo_platform None [])
             (demo_ctx ''v1.29.0+rke2r1''
                [\<lparr>Hostname = ''node-1'', Type = ''server''\<rparr>, \<lparr>Hostname = ''node-2'', Type = ''server''\<rparr>]
                [] [])
             demo_world))))"
proof (intro conjI)
  let ?P = "demo_platform None [\<lparr>EntryName = ''k3s'', IsDir = False\<rparr>]"
  let ?C = "demo_ctx ''v1.29.0+k3s1''
             [\<lparr>Hostname = ''node-1'', Type = ''server''\<rparr>, \<lparr>Hostname = ''node-2'', Type = ''server''\<rparr>]
             [] []"
  let ?W = "if ServersCount ?P (Nodes (Kubernetes (ImageDefinition ?C))) = 2 then
              log (ZapWarn ''Kubernetes cluster of two server nodes has been requested'')
                (log (Audit ''WARNING: Kubernetes clusters consisting of two server nodes cannot form a highly available architecture'')
                   (log (Audit ''Configuring Kubernetes component...'') demo_world))
            else log (Audit ''Configuring Kubernetes component...'') demo_world"
  define w3 where "w3 = snd (kubernetes_NewCluster ?P (Kubernetes (ImageDefinition ?C))
              (filepath_Join [generateComponentPath ?P ?C k8sDir, k8sConfigDir]) ?W)"
  define w4 where "w4 = snd (os_MkdirAll ?P (kubernetesArtefactsPath ?C) ModePerm w3)"
  define w5 where "w5 = snd (storeKubernetesClusterConfig ?P demo_cluster (kubernetesArtefactsPath ?C) w4)"
  define v1 where "v1 = snd (downloadKubernetesInstallScript ?P ?C (KubernetesDistroK3S ?P)
            (log (ZapInfo ''Configuring K3s cluster'') w5))"
  define v2 where "v2 = snd (downloadK3sArtefacts ?P ?C v1)"
  define v3 where "v3 = snd (configureManifests ?P ?C v2)"
  have v: "Version (Kubernetes (ImageDefinition ?C)) \<noteq> []"
    by (simp add: demo_ctx_def)
  have f: "kubernetesConfigurator ?P (Version (Kubernetes (ImageDefinition ?C))) = Some (configureK3S ?P)"
    by (simp add: demo_ctx_def demo_platform_def kubernetesConfigurator_def)
  have two: "ServersCount ?P (Nodes (Kubernetes (ImageDefinition ?C))) = 2"
    by (simp add: demo_ctx_def demo_platform_def)
  have n: "kubernetes_NewCluster ?P (Kubernetes (ImageDefinition ?C))
              (filepath_Join [generateComponentPath ?P ?C k8sDir, k8sConfigDir]) ?W
             = (Inr demo_cluster, w3)"
    unfolding w3_def by (simp add: kubernetes_NewCluster_def demo_platform_def)
  have m: "os_MkdirAll ?P (kubernetesArtefactsPath ?C) ModePerm w3 = (None, w4)"
    unfolding w4_def by (simp add: os_MkdirAll_def demo_platform_def)
  have s: "storeKubernetesClusterConfig ?P demo_cluster (kubernetesArtefactsPath ?C) w4 = (None, w5)"
    unfolding w5_def
    by (simp add: prod_eq_iff storeKubernetesClusterConfig_def storeKubernetesConfig_def
          os_WriteFile_def demo_platform_def demo_cluster_def Let_def)
  have d1: "downloadKubernetesInstallScript ?P ?C (KubernetesDistroK3S ?P)
            (log (ZapInfo ''Configuring K3s cluster'') w5)
             = (Inr ''$ARTEFACTS_DIR/kubernetes/install.sh'', v1)"
    unfolding v1_def
    by (simp add: prod_eq_iff downloadKubernetesInstallScript_def
          downloader_DownloadInstallScript_def demo_platform_def filepath_Join_def
          filepath_Clean_def k8sDir_def Let_def)
  have d2: "downloadK3sArtefacts ?P ?C v1
             = (Inr (''$ARTEFACTS_DIR/kubernetes/install/k3s'', ''$ARTEFACTS_DIR/kubernetes/images''), v2)"
    unfolding v2_def
    by (simp add: prod_eq_iff downloadK3sArtefacts_def os_MkdirAll_def os_ReadDir_def
          downloader_DownloadK3sArtefacts_def demo_platform_def demo_ctx_def
          demo_cluster_def filepath_Join_def
          filepath_Clean_def k8sDir_def k8sInstallDir_def k8sImagesDir_def Let_def split_beta)
  have d3: "configureManifests ?P ?C v2 = (Inr [], v3)"
    unfolding v3_def
    by (simp add: prod_eq_iff configureManifests_nothing demo_ctx_def demo_platform_def)
  note t = warnings_are_not_errors[where p = ?P and ctx = ?C and w = demo_world
      and cluster = demo_cluster and ?w3.0 = w3 and ?w4.0 = w4 and ?w5.0 = w5
      and installScript = "''$ARTEFACTS_DIR/kubernetes/install.sh''" and ?v1.0 = v1
      and binaryPath = "''$ARTEFACTS_DIR/kubernetes/install/k3s''"
      and imagesPath = "''$ARTEFACTS_DIR/kubernetes/images''" and ?v2.0 = v2
      and manifestsPath = "[]" and ?v3.0 = v3,
      THEN conjunct2, THEN conjunct1, THEN mp,
      OF conjI[OF v conjI[OF f conjI[OF n conjI[OF m conjI[OF s conjI[OF d1 conjI[OF d2
           conjI[OF d3 conjI[OF refl conjI[OF refl refl]]]]]]]]]]]
  note r = t[THEN conjunct2, THEN conjunct2, THEN conjunct2,
             THEN spec[of _ "''multi-node-k3s''"], THEN mp]
  have ok: "fst (configureKubernetes ?P ?C demo_world) = Inr [k8sInstallScript]
      \<and> events (snd (configureKubernetes ?P ?C demo_world)) =
          events v3 @
          [TemplateParse
             (if length (Nodes (Kubernetes (ImageDefinition ?C))) < 2 then ''single-node-k3s''
              else ''multi-node-k3s'')
             (if length (Nodes (Kubernetes (ImageDefinition ?C))) < 2 then k3sSingleNodeInstaller
              else k3sMultiNodeInstaller)
             (TMap (if length (Nodes (Kubernetes (ImageDefinition ?C))) < 2 then
              map_assign ''configFile'' (TString k8sServerConfigFile)
                (templateValues_base ?P ?C ''$ARTEFACTS_DIR/kubernetes/install.sh'' ''binaryPath''
                   ''$ARTEFACTS_DIR/kubernetes/install/k3s'' ''$ARTEFACTS_DIR/kubernetes/images'' [])
            else
              map_assign ''initialiserConfigFile'' (TString k8sInitServerConfigFile)
                (map_assign ''initialiser'' (TString (InitialiserName demo_cluster))
                   (map_assign ''nodes'' (TNodes (Nodes (Kubernetes (ImageDefinition ?C))))
                      (templateValues_base ?P ?C ''$ARTEFACTS_DIR/kubernetes/install.sh''
                         ''binaryPath'' ''$ARTEFACTS_DIR/kubernetes/install/k3s''
                         ''$ARTEFACTS_DIR/kubernetes/images'' []))))),
           WriteFile (filepath_Join [CombustionDir ?C, k8sInstallScript]) ''multi-node-k3s''
             ExecutablePerms]"
    by (rule r) (simp add: demo_platform_def demo_ctx_def)
  show "fst (configureKubernetes ?P ?C demo_world) = Inr [''20-k8s-install.sh'']"
    using ok[THEN conjunct1] by (simp add: k8sInstallScript_def)
  show "Audit ''WARNING: Kubernetes clusters consisting of two server nodes cannot form a highly available architecture''
       \<in> set (logs (snd (configureKubernetes ?P ?C demo_world)))"
    by (rule t[THEN conjunct1, THEN mp, OF two])
  show "WriteFile ''/build/combustion/20-k8s-install.sh'' ''multi-node-k3s'' ExecutablePerms
       \<in> set (events (snd (configureKubernetes ?P ?C demo_world)))"
    unfolding ok[THEN conjunct2]
    by (simp add: demo_ctx_def filepath_Join_def filepath_Clean_def k8sInstallScript_def Let_def)
next
  let ?P = "demo_platform None [\<lparr>EntryName = ''k3s'', IsDir = False\<rparr>]"
  let ?C = "demo_ctx ''v1.29.0+k3s1'' [\<lparr>Hostname = ''node-1'', Type = ''server''\<rparr>]
             ''192.168.100.10'' ''api.cluster01.example''"
  let ?W = "if ServersCount ?P (Nodes (Kubernetes (ImageDefinition ?C))) = 2 then
              log (ZapWarn ''Kubernetes cluster of two server nodes has been requested'')
                (log (Audit ''WARNING: Kubernetes clusters consisting of two server nodes cannot form a highly available architecture'')
                   (log (Audit ''Configuring Kubernetes component...'') demo_world))
            else log (Audit ''Configuring Kubernetes component...'') demo_world"
  define w3 where "w3 = snd (kubernetes_NewCluster ?P (Kubernetes (ImageDefinition ?C))
              (filepath_Join [generateComponentPath ?P ?C k8sDir, k8sConfigDir]) ?W)"
  define w4 where "w4 = snd (os_MkdirAll ?P (kubernetesArtefactsPath ?C) ModePerm w3)"
  define w5 where "w5 = snd (storeKubernetesClusterConfig ?P demo_cluster (kubernetesArtefactsPath ?C) w4)"
  define v1 where "v1 = snd (downloadKubernetesInstallScript ?P ?C (KubernetesDistroK3S ?P)
            (log (ZapInfo ''Configuring K3s cluster'') w5))"
  define v2 where "v2 = snd (downloadK3sArtefacts ?P ?C v1)"
  define v3 where "v3 = snd (configureManifests ?P ?C v2)"
  have v: "Version (Kubernetes (ImageDefinition ?C)) \<noteq> []"
    by (simp add: demo_ctx_def)
  have f: "kubernetesConfigurator ?P (Version (Kubernetes (ImageDefinition ?C))) = Some (configureK3S ?P)"
    by (simp add: demo_ctx_def demo_platform_def kubernetesConfigurator_def)
  have vip: "length (Nodes (Kubernetes (ImageDefinition ?C))) < 2
       \<and> APIVIP (Network (Kubernetes (ImageDefinition ?C))) \<noteq> []"
    by (simp add: demo_ctx_def)
  have n: "kubernetes_NewCluster ?P (Kubernetes (ImageDefinition ?C))
              (filepath_Join [generateComponentPath ?P ?C k8sDir, k8sConfigDir]) ?W
             = (Inr demo_cluster, w3)"
    unfolding w3_def by (simp add: kubernetes_NewCluster_def demo_platform_def)
  have m: "os_MkdirAll ?P (kubernetesArtefactsPath ?C) ModePerm w3 = (None, w4)"
    unfolding w4_def by (simp add: os_MkdirAll_def demo_platform_def)
  have s: "storeKubernetesClusterConfig ?P demo_cluster (kubernetesArtefactsPath ?C) w4 = (None, w5)"
    unfolding w5_def
    by (simp add: prod_eq_iff storeKubernetesClusterConfig_def storeKubernetesConfig_def
          os_WriteFile_def demo_platform_def demo_cluster_def Let_def)
  have d1: "downloadKubernetesInstallScript ?P ?C (KubernetesDistroK3S ?P)
            (log (ZapInfo ''Configuring K3s cluster'') w5)
             = (Inr ''$ARTEFACTS_DIR/kubernetes/install.sh'', v1)"
    unfolding v1_def
    by (simp add: prod_eq_iff downloadKubernetesInstallScript_def
          downloader_DownloadInstallScript_def demo_platform_def filepath_Join_def
          filepath_Clean_def k8sDir_def Let_def)
  have d2: "downloadK3sArtefacts ?P ?C v1
             = (Inr (''$ARTEFACTS_DIR/kubernetes/install/k3s'', ''$ARTEFACTS_DIR/kubernetes/images''), v2)"
    unfolding v2_def
    by (simp add: prod_eq_iff downloadK3sArtefacts_def os_MkdirAll_def os_ReadDir_def
          downloader_DownloadK3sArtefacts_def demo_platform_def demo_ctx_def
          demo_cluster_def filepath_Join_def
          filepath_Clean_def k8sDir_def k8sInstallDir_def k8sImagesDir_def Let_def split_beta)
  have d3: "configureManifests ?P ?C v2 = (Inr ''$ARTEFACTS_DIR/kubernetes/manifests'', v3)"
    unfolding v3_def
    by (simp add: prod_eq_iff configureManifests_def configureManifests_vip_def
          kubernetesVIPManifest_def template_Parse_def os_MkdirAll_def os_WriteFile_def
          demo_platform_def demo_ctx_def filepath_Join_def filepath_Clean_def
          localKubernetesManifestsPath_def k8sDir_def k8sManifestsDir_def Let_def split_beta)
  note t = warnings_are_not_errors[where p = ?P and ctx = ?C and w = demo_world
      and cluster = demo_cluster and ?w3.0 = w3 and ?w4.0 = w4 and ?w5.0 = w5
      and installScript = "''$ARTEFACTS_DIR/kubernetes/install.sh''" and ?v1.0 = v1
      and binaryPath = "''$ARTEFACTS_DIR/kubernetes/install/k3s''"
      and imagesPath = "''$ARTEFACTS_DIR/kubernetes/images''" and ?v2.0 = v2
      and manifestsPath = "''$ARTEFACTS_DIR/kubernetes/manifests''" and ?v3.0 = v3,
      THEN conjunct2, THEN conjunct1, THEN mp,
      OF conjI[OF v conjI[OF f conjI[OF n conjI[OF m conjI[OF s conjI[OF d1 conjI[OF d2
           conjI[OF d3 conjI[OF refl conjI[OF refl refl]]]]]]]]]]]
  note r = t[THEN conjunct2, THEN conjunct2, THEN conjunct2,
             THEN spec[of _ "''single-node-k3s''"], THEN mp]
  have ok: "fst (configureKubernetes ?P ?C demo_world) = Inr [k8sInstallScript]
      \<and> events (snd (configureKubernetes ?P ?C demo_world)) =
          events v3 @
          [TemplateParse
             (if length (Nodes (Kubernetes (ImageDefinition ?C))) < 2 then ''single-node-k3s''
              else ''multi-node-k3s'')
             (if length (Nodes (Kubernetes (ImageDefinition ?C))) < 2 then k3sSingleNodeInstaller
              else k3sMultiNodeInstaller)
             (TMap (if length (Nodes (Kubernetes (ImageDefinition ?C))) < 2 then
              map_assign ''configFile'' (TString k8sServerConfigFile)
                (templateValues_base ?P ?C ''$ARTEFACTS_DIR/kubernetes/install.sh'' ''binaryPath''
                   ''$ARTEFACTS_DIR/kubernetes/install/k3s'' ''$ARTEFACTS_DIR/kubernetes/images'' ''$ARTEFACTS_DIR/kubernetes/manifests'')
            else
              map_assign ''initialiserConfigFile'' (TString k8sInitServerConfigFile)
                (map_assign ''initialiser'' (TString (InitialiserName demo_cluster))
                   (map_assign ''nodes'' (TNodes (Nodes (Kubernetes (ImageDefinition ?C))))
                      (templateValues_base ?P ?C ''$ARTEFACTS_DIR/kubernetes/install.sh''
                         ''binaryPath'' ''$ARTEFACTS_DIR/kubernetes/install/k3s''
                         ''$ARTEFACTS_DIR/kubernetes/images'' ''$ARTEFACTS_DIR/kubernetes/manifests''))))),
           WriteFile (filepath_Join [CombustionDir ?C, k8sInstallScript]) ''single-node-k3s''
             ExecutablePerms]"
    by (rule r) (simp add: demo_platform_def demo_ctx_def)
  show "fst (configureKubernetes ?P ?C demo_world) = Inr [''20-k8s-install.sh'']"
    using ok[THEN conjunct1] by (simp add: k8sInstallScript_def)
  show "Audit (''WARNING: A Virtual IP address for the k3s cluster has been provided. '' @
             ''An external IP address for the Ingress Controller (Traefik) must be manually configured.'')
       \<in> set (logs (snd (configureKubernetes ?P ?C demo_world)))"
    by (rule t[THEN conjunct2, THEN conjunct1, THEN mp, OF vip])
  show "WriteFile ''/build/combustion/20-k8s-install.sh'' ''single-node-k3s'' ExecutablePerms
       \<in> set (events (snd (configureKubernetes ?P ?C demo_world)))"
    unfolding ok[THEN conjunct2]
    by (simp add: demo_ctx_def filepath_Join_def filepath_Clean_def k8sInstallScript_def Let_def)
next
  let ?P = "demo_platform None []"
  let ?C = "demo_ctx ''v1.29.0+rke2r1''
             [\<lparr>Hostname = ''node-1'', Type = ''server''\<rparr>, \<lparr>Hostname = ''node-2'', Type = ''server''\<rparr>]
             [] []"
  let ?W = "if ServersCount ?P (Nodes (Kubernetes (ImageDefinition ?C))) = 2 then
              log (ZapWarn ''Kubernetes cluster of two server nodes has been requested'')
                (log (Audit ''WARNING: Kubernetes clusters consisting of two server nodes cannot form a highly available architecture'')
                   (log (Audit ''Configuring Kubernetes component...'') demo_world))
            else log (Audit ''Configuring Kubernetes component...'') demo_world"
  define w3 where "w3 = snd (kubernetes_NewCluster ?P (Kubernetes (ImageDefinition ?C))
              (filepath_Join [generateComponentPath ?P ?C k8sDir, k8sConfigDir]) ?W)"
  define w4 where "w4 = snd (os_MkdirAll ?P (kubernetesArtefactsPath ?C) ModePerm w3)"
  define w5 where "w5 = snd (storeKubernetesClusterConfig ?P demo_cluster (kubernetesArtefactsPath ?C) w4)"
  define v1 where "v1 = snd (downloadKubernetesInstallScript ?P ?C (KubernetesDistroRKE2 ?P)
            (log (ZapInfo ''Configuring RKE2 cluster'') w5))"
  define v2 where "v2 = snd (downloadRKE2Artefacts ?P ?C demo_cluster v1)"
  define v3 where "v3 = snd (configureManifests ?P ?C v2)"
  have v: "Version (Kubernetes (ImageDefinition ?C)) \<noteq> []"
    by (simp add: demo_ctx_def)
  have f: "kubernetesConfigurator ?P (Version (Kubernetes (ImageDefinition ?C))) = Some (configureRKE2 ?P)"
    by (simp add: demo_ctx_def demo_platform_def kubernetesConfigurator_def)
  have two: "ServersCount ?P (Nodes (Kubernetes (ImageDefinition ?C))) = 2"
    by (simp add: demo_ctx_def demo_platform_def)
  have n: "kubernetes_NewCluster ?P (Kubernetes (ImageDefinition ?C))
              (filepath_Join [generateComponentPath ?P ?C k8sDir, k8sConfigDir]) ?W
             = (Inr demo_cluster, w3)"
    unfolding w3_def by (simp add: kubernetes_NewCluster_def demo_platform_def)
  have m: "os_MkdirAll ?P (kubernetesArtefactsPath ?C) ModePerm w3 = (None, w4)"
    unfolding w4_def by (simp add: os_MkdirAll_def demo_platform_def)
  have s: "storeKubernetesClusterConfig ?P demo_cluster (kubernetesArtefactsPath ?C) w4 = (None, w5)"
    unfolding w5_def
    by (simp add: prod_eq_iff storeKubernetesClusterConfig_def storeKubernetesConfig_def
          os_WriteFile_def demo_platform_def demo_cluster_def Let_def)
  have d1: "downloadKubernetesInstallScript ?P ?C (KubernetesDistroRKE2 ?P)
            (log (ZapInfo ''Configuring RKE2 cluster'') w5)
             = (Inr ''$ARTEFACTS_DIR/kubernetes/install.sh'', v1)"
    unfolding v1_def
    by (simp add: prod_eq_iff downloadKubernetesInstallScript_def
          downloader_DownloadInstallScript_def demo_platform_def filepath_Join_def
          filepath_Clean_def k8sDir_def Let_def)
  have d2: "downloadRKE2Artefacts ?P ?C demo_cluster v1
             = (Inr (''$ARTEFACTS_DIR/kubernetes/install'', ''$ARTEFACTS_DIR/kubernetes/images''), v2)"
    unfolding v2_def
    by (simp add: prod_eq_iff downloadRKE2Artefacts_def os_MkdirAll_def
          downloader_DownloadRKE2Artefacts_def demo_platform_def demo_ctx_def
          demo_cluster_def filepath_Join_def
          filepath_Clean_def k8sDir_def k8sInstallDir_def k8sImagesDir_def Let_def split_beta)
  have d3: "configureManifests ?P ?C v2 = (Inr [], v3)"
    unfolding v3_def
    by (simp add: prod_eq_iff configureManifests_nothing demo_ctx_def demo_platform_def)
  note t = warnings_are_not_errors[where p = ?P and ctx = ?C and w = demo_world
      and cluster' = demo_cluster and ?u3.0 = w3 and ?u4.0 = w4 and ?u5.0 = w5
      and installScript' = "''$ARTEFACTS_DIR/kubernetes/install.sh''" and ?x1.0 = v1
      and installPath = "''$ARTEFACTS_DIR/kubernetes/install''"
      and imagesPath' = "''$ARTEFACTS_DIR/kubernetes/images''" and ?x2.0 = v2
      and manifestsPath' = "[]" and ?x3.0 = v3,
      THEN conjunct2, THEN conjunct2, THEN mp,
      OF conjI[OF v conjI[OF f conjI[OF n conjI[OF m conjI[OF s conjI[OF d1 conjI[OF d2
           conjI[OF d3 conjI[OF refl conjI[OF refl refl]]]]]]]]]]]
  note r = t[THEN conjunct2, THEN conjunct2,
             THEN spec[of _ "''multi-node-rke2''"], THEN mp]
  have ok: "fst (configureKubernetes ?P ?C demo_world) = Inr [k8sInstallScript]
      \<and> events (snd (configureKubernetes ?P ?C demo_world)) =
          events v3 @
          [TemplateParse
             (if length (Nodes (Kubernetes (ImageDefinition ?C))) < 2 then ''single-node-rke2''
              else ''multi-node-rke2'')
             (if length (Nodes (Kubernetes (ImageDefinition ?C))) < 2 then rke2SingleNodeInstaller
              else rke2MultiNodeInstaller)
             (TMap (if length (Nodes (Kubernetes (ImageDefinition ?C))) < 2 then
              map_assign ''configFile'' (TString k8sServerConfigFile)
                (templateValues_base ?P ?C ''$ARTEFACTS_DIR/kubernetes/install.sh'' ''installPath''
                   ''$ARTEFACTS_DIR/kubernetes/install'' ''$ARTEFACTS_DIR/kubernetes/images'' [])
            else
              map_assign ''initialiserConfigFile'' (TString k8sInitServerConfigFile)
                (map_assign ''initialiser'' (TString (InitialiserName demo_cluster))
                   (map_assign ''nodes'' (TNodes (Nodes (Kubernetes (ImageDefinition ?C))))
                      (templateValues_base ?P ?C ''$ARTEFACTS_DIR/kubernetes/install.sh''
                         ''installPath'' ''$ARTEFACTS_DIR/kubernetes/install''
                         ''$ARTEFACTS_DIR/kubernetes/images'' []))))),
           WriteFile (filepath_Join [CombustionDir ?C, k8sInstallScript]) ''multi-node-rke2''
             ExecutablePerms]"
    by (rule r) (simp add: demo_platform_def demo_ctx_def)
  show "fst (configureKubernetes ?P ?C demo_world) = Inr [''20-k8s-install.sh'']"
    using ok[THEN conjunct1] by (simp add: k8sInstallScript_def)
  show "Audit ''WARNING: Kubernetes clusters consisting of two server nodes cannot form a highly available architecture''
       \<in> set (logs (snd (configureKubernetes ?P ?C demo_world)))"
    by (rule t[THEN conjunct1, THEN mp, OF two])
  show "WriteFile ''/build/combustion/20-k8s-install.sh'' ''multi-node-rke2'' ExecutablePerms
       \<in> set (events (snd (configureKubernetes ?P ?C demo_world)))"
    unfolding ok[THEN conjunct2]
    by (simp add: demo_ctx_def filepath_Join_def filepath_Clean_def k8sInstallScript_def Let_def)
qed

section \<open>Creation of the manifests directory\<close>

lemma created_after_True [simp]: "created_after p d True h es = True"
  by (induction es arbitrary: h) simp_all

lemma placed_after_creation_True [simp]: "placed_after_creation p d places True h es = True"
  by (induction es arbitrary: h) simp_all

lemma created_after_append:
  "created_after p d c h (xs @ ys) = created_after p d (created_after p d c h xs) (h @ xs) ys"
  by (induction xs arbitrary: c h) simp_all


lemma new_events_same [simp]: "new_events w w = []"
  by (simp add: new_events_def)









lemma configureManifests_vip_unset:
  "APIVIP (Network (Kubernetes (ImageDefinition ctx))) = [] \<Longrightarrow>
   configureManifests_vip p ctx d w = (Inr False, w)"
  by (simp add: configureManifests_vip_def)












section \<open>Properties of the shell fragment\<close>

text \<open>A command that does not assign a variable leaves it as it was.\<close>

lemma exec_frame:
  "\<not> assigns x c \<Longrightarrow> vars (snd (exec env c st)) x = vars st x"
  "\<not> list_ex (assigns x) cs \<Longrightarrow> vars (snd (exec_list env cs st)) x = vars st x"
proof (induction env c st and env cs st rule: exec_exec_list.induct)
  case (12 env c cs st)
  then show ?case
    by (cases "exec env c st") (auto split: flow.splits)
qed (auto simp add: external_def Let_def split: option.splits bool.splits prod.splits flow.splits)

text \<open>The assignments to \<open>hosts\<close> build the table.\<close>

lemma exec_hosts_entries:
  "arrays st ''hosts'' = Some m \<Longrightarrow>
   exec_list env (hosts_entries ns @ rest) st =
   exec_list env rest
     (st\<lparr>arrays := (arrays st)(''hosts'' \<mapsto> fold (\<lambda>n m. m(Hostname n \<mapsto> Type n)) ns m)\<rparr>)"
proof (induction ns arbitrary: st m)
  case Nil
  then have "(arrays st)(''hosts'' \<mapsto> m) = arrays st"
    by (rule fun_upd_idem)
  then show ?case by (simp add: hosts_entries_def del: fun_upd_apply)
next
  case (Cons n ns)
  show ?case
    using Cons.prems
      Cons.IH[of "st\<lparr>arrays := (arrays st)(''hosts'' \<mapsto> m(Hostname n \<mapsto> Type n))\<rparr>"
                 "m(Hostname n \<mapsto> Type n)"]
    by (simp add: hosts_entries_def fun_upd_same del: fun_upd_apply)
qed

lemma exec_table:
  "exec_list env (DeclareAssoc ''hosts'' # hosts_entries ns @ rest) init_state =
   exec_list env rest (init_state\<lparr>arrays := [''hosts'' \<mapsto> hosts_table ns]\<rparr>)"
proof -
  let ?st = "init_state\<lparr>arrays := [''hosts'' \<mapsto> Map.empty]\<rparr>"
  have "exec_list env (DeclareAssoc ''hosts'' # hosts_entries ns @ rest) init_state
          = exec_list env (hosts_entries ns @ rest) ?st"
    by (simp add: init_state_def)
  also have "\<dots> = exec_list env rest
     (?st\<lparr>arrays := (arrays ?st)(''hosts'' \<mapsto> fold (\<lambda>n m. m(Hostname n \<mapsto> Type n)) ns Map.empty)\<rparr>)"
    by (rule exec_hosts_entries) simp
  also have "?st\<lparr>arrays := (arrays ?st)(''hosts'' \<mapsto> fold (\<lambda>n m. m(Hostname n \<mapsto> Type n)) ns Map.empty)\<rparr>
        = init_state\<lparr>arrays := [''hosts'' \<mapsto> hosts_table ns]\<rparr>"
    by (simp add: hosts_table_def)
  finally show ?thesis .
qed

text \<open>Hostname discovery (lines 10 to 17), in its three outcomes.\<close>

lemma discovery_primary:
  assumes "exit_status env (Ran [''cat'', ''/etc/hostname'']) = 0"
    and "cat_out env ''/etc/hostname'' \<noteq> []"
  shows "exec_list env (hostname_discovery @ rest) st =
     exec_list env rest
       (st\<lparr>actions := actions st @ [Ran [''cat'', ''/etc/hostname'']],
           vars := (vars st)(''HOSTNAME'' \<mapsto> cat_out env ''/etc/hostname'')\<rparr>)"
  using assms
  by (simp add: hostname_discovery_def external_def lookup_var_def Let_def)

lemma discovery_fallback:
  assumes "exit_status env (Ran [''cat'', ''/etc/hostname'']) = 0"
    and "cat_out env ''/etc/hostname'' = []"
    and "exit_status env (Ran [''cat'', ''/proc/sys/kernel/hostname'']) = 0"
    and "cat_out env ''/proc/sys/kernel/hostname'' \<noteq> []"
    and "cat_out env ''/proc/sys/kernel/hostname'' \<noteq> ''localhost.localdomain''"
  shows "exec_list env (hostname_discovery @ rest) st =
     exec_list env rest
       (st\<lparr>actions := actions st @ [Ran [''cat'', ''/etc/hostname''],
                                     Ran [''cat'', ''/proc/sys/kernel/hostname'']],
           vars := (vars st)(''HOSTNAME'' \<mapsto> cat_out env ''/proc/sys/kernel/hostname'')\<rparr>)"
  using assms
  by (simp add: hostname_discovery_def external_def lookup_var_def Let_def)

lemma discovery_fatal:
  assumes "exit_status env (Ran [''cat'', ''/etc/hostname'']) = 0"
    and "cat_out env ''/etc/hostname'' = []"
    and "exit_status env (Ran [''cat'', ''/proc/sys/kernel/hostname'']) = 0"
    and "cat_out env ''/proc/sys/kernel/hostname'' = []
         \<or> cat_out env ''/proc/sys/kernel/hostname'' = ''localhost.localdomain''"
  shows "\<exists>n st'. exec_list env (hostname_discovery @ rest) st = (Stop n, st') \<and> 0 < n
     \<and> actions st' = actions st @
          [Ran [''cat'', ''/etc/hostname''], Ran [''cat'', ''/proc/sys/kernel/hostname''],
           Ran [''echo'', ''ERROR: Could not identify whether the host is a k3s server or agent due to missing hostname'']]
     \<and> vars st' ''CONFIGFILE'' = vars st ''CONFIGFILE''"
  using assms
  by (auto simp add: hostname_discovery_def external_def lookup_var_def Let_def)

text \<open>Role lookup (lines 19 to 23).\<close>

lemma lookup_found:
  assumes "vars st ''HOSTNAME'' = Some h" "arrays st ''hosts'' = Some tbl" "tbl h = Some role"
    and "role \<noteq> []" "role \<noteq> ''none''"
  shows "exec_list env (nodetype_lookup @ rest) st =
           exec_list env rest (st\<lparr>vars := (vars st)(''NODETYPE'' \<mapsto> role)\<rparr>)"
  using assms
  by (simp add: nodetype_lookup_def lookup_var_def)

lemma lookup_missing:
  assumes "vars st ''HOSTNAME'' = Some h" "arrays st ''hosts'' = Some tbl" "tbl h = None"
  shows "\<exists>n st'. exec_list env (nodetype_lookup @ rest) st = (Stop n, st') \<and> 0 < n
     \<and> actions st' = actions st @
          [Ran [''echo'', ''ERROR: Could not identify whether host '' @ squote @ h @ squote
                          @ '' is a k3s server or agent'']]
     \<and> vars st' ''CONFIGFILE'' = vars st ''CONFIGFILE''"
  using assms
  by (auto simp add: nodetype_lookup_def external_def lookup_var_def Let_def)

text \<open>Expansion of a word made of two parts, and of a text printed outside quotes
  that refers to no variable the script has assigned.\<close>

lemma expand_seg_actions [simp]:
  "expand_seg env (st\<lparr>actions := a\<rparr>) s = expand_seg env st s"
  by (cases s) (simp_all add: lookup_var_def cong: option.case_cong)

lemma expand_actions [simp]: "expand env (st\<lparr>actions := a\<rparr>) w = expand env st w"
  by (induction w) (simp_all cong: option.case_cong)

lemma expand_append:
  "expand env st (xs @ ys) =
     (case expand env st xs of
        None \<Rightarrow> None
      | Some a \<Rightarrow> (case expand env st ys of None \<Rightarrow> None | Some b \<Rightarrow> Some (a @ b)))"
  by (induction xs) (simp_all split: option.splits)

lemma expand_shell_text:
  assumes "\<And>x. Var x \<in> set (shell_text s) \<Longrightarrow> vars st x = None"
  shows "expand env st (shell_text s) = shell_value env s"
  using assms
proof (induction s rule: shell_text.induct)
  case 1
  show ?case by (simp add: shell_value_def)
next
  case (2 c cs)
  show ?case
  proof (cases "c = CHR ''$'' \<and> cs \<noteq> [] \<and> name_start (hd cs)")
    case True
    have "expand env st (shell_text (dropWhile name_char cs))
            = shell_value env (dropWhile name_char cs)"
      using True "2.prems" by (intro "2.IH"(1)) simp_all
    moreover have "vars st (takeWhile name_char cs) = None"
      using True "2.prems" by simp
    ultimately show ?thesis
      using True
      by (simp add: shell_value_def lookup_var_def init_state_def split: option.splits)
  next
    case False
    have "expand env st (shell_text cs) = shell_value env cs"
      using False "2.prems" by (intro "2.IH"(2)) auto
    then show ?thesis
      using False by (auto simp add: shell_value_def split: option.splits)
  qed
qed

lemma expand_spliced:
  assumes "\<not> refers s ''HOSTNAME''" "\<not> refers s ''NODETYPE''" "\<not> refers s ''CONFIGFILE''"
    and "\<And>x. x \<noteq> ''HOSTNAME'' \<Longrightarrow> x \<noteq> ''NODETYPE'' \<Longrightarrow> x \<noteq> ''CONFIGFILE''
           \<Longrightarrow> vars st x = None"
  shows "expand env st (shell_text s) = shell_value env s"
proof (rule expand_shell_text)
  fix x
  assume "Var x \<in> set (shell_text s)"
  with assms(1-3) have "x \<noteq> ''HOSTNAME''" "x \<noteq> ''NODETYPE''" "x \<noteq> ''CONFIGFILE''"
    by (auto simp add: refers_def)
  then show "vars st x = None" by (rule assms(4))
qed

text \<open>Image staging (lines 25 to 30), when its four commands succeed.\<close>

lemma staging_ok:
  assumes "expand env st (shell_text (print_value (vals ''imagesPath''))) = Some images"
    and "exit_status env (Ran [''mount'', ''/var'']) = 0"
    and "exit_status env (Ran [''mkdir'', ''-p'', ''/var/lib/rancher/k3s/agent/images/'']) = 0"
    and "exit_status env (Ran [''cp'', images @ ''/*'',
                               ''/var/lib/rancher/k3s/agent/images/'']) = 0"
    and "exit_status env (Ran [''umount'', ''/var'']) = 0"
  shows "exec_list env (image_staging vals @ rest) st =
     exec_list env rest
       (st\<lparr>actions := actions st @
          [Ran [''mount'', ''/var''],
           Ran [''mkdir'', ''-p'', ''/var/lib/rancher/k3s/agent/images/''],
           Ran [''cp'', images @ ''/*'', ''/var/lib/rancher/k3s/agent/images/''],
           Ran [''umount'', ''/var'']]\<rparr>)"
  using assms
  by (simp add: image_staging_def external_def expand_append Let_def)

text \<open>Under \<open>set -u\<close>, a variable of \<open>imagesPath\<close> that is not set ends the script
  at the copy of the images, with status 1.\<close>

lemma staging_unset:
  assumes "expand env st (shell_text (print_value (vals ''imagesPath''))) = None"
    and "exit_status env (Ran [''mount'', ''/var'']) = 0"
    and "exit_status env (Ran [''mkdir'', ''-p'', ''/var/lib/rancher/k3s/agent/images/'']) = 0"
  shows "\<exists>st'. exec_list env (image_staging vals @ rest) st = (Stop 1, st')
           \<and> vars st' = vars st"
  using assms
  by (simp add: image_staging_def external_def expand_append Let_def)

text \<open>Nothing after the hostname discovery assigns \<open>HOSTNAME\<close>, nothing after the lookup
  assigns \<open>NODETYPE\<close>, and nothing after the configuration selection assigns \<open>CONFIGFILE\<close>.\<close>

lemma manifests_install_no_assign: "\<not> list_ex (assigns x) (manifests_install vals)"
  by (simp add: manifests_install_def)

lemma tail_no_CONFIGFILE:
  "\<not> list_ex (assigns ''CONFIGFILE'')
       (vip_hosts_entry vals @ config_placement vals @ runtime_installation vals)"
  by (simp add: vip_hosts_entry_def config_placement_def runtime_installation_def)

lemma after_lookup_no_NODETYPE:
  "\<not> list_ex (assigns ''NODETYPE'')
       (image_staging vals @ config_selection vals @ vip_hosts_entry vals
        @ config_placement vals @ runtime_installation vals)"
  by (simp add: image_staging_def config_selection_def manifests_install_def vip_hosts_entry_def
        config_placement_def runtime_installation_def)

lemma after_discovery_no_HOSTNAME:
  "\<not> list_ex (assigns ''HOSTNAME'')
       (nodetype_lookup @ image_staging vals @ config_selection vals @ vip_hosts_entry vals
        @ config_placement vals @ runtime_installation vals)"
  by (simp add: nodetype_lookup_def image_staging_def config_selection_def manifests_install_def
        vip_hosts_entry_def config_placement_def runtime_installation_def)

text \<open>Configuration selection (lines 32 to 35).\<close>

lemma selection:
  assumes h: "vars st ''HOSTNAME'' = Some h" and r: "vars st ''NODETYPE'' = Some role"
    and others: "\<And>x. x \<noteq> ''HOSTNAME'' \<Longrightarrow> x \<noteq> ''NODETYPE'' \<Longrightarrow> x \<noteq> ''CONFIGFILE''
                   \<Longrightarrow> vars st x = None"
    and rest: "\<not> list_ex (assigns ''CONFIGFILE'') rest"
    and fdir: "\<not> refers (print_value (vals ''configFilePath'')) ''HOSTNAME''"
        "\<not> refers (print_value (vals ''configFilePath'')) ''NODETYPE''"
        "\<not> refers (print_value (vals ''configFilePath'')) ''CONFIGFILE''"
    and fini: "\<not> refers (print_value (vals ''initialiser'')) ''HOSTNAME''"
        "\<not> refers (print_value (vals ''initialiser'')) ''NODETYPE''"
        "\<not> refers (print_value (vals ''initialiser'')) ''CONFIGFILE''"
    and ficf: "\<not> refers (print_value (vals ''initialiserConfigFile'')) ''HOSTNAME''"
        "\<not> refers (print_value (vals ''initialiserConfigFile'')) ''NODETYPE''"
        "\<not> refers (print_value (vals ''initialiserConfigFile'')) ''CONFIGFILE''"
    and dir: "shell_value env (print_value (vals ''configFilePath'')) = Some dir"
    and ini: "shell_value env (print_value (vals ''initialiser'')) = Some ini"
    and icf: "shell_value env (print_value (vals ''initialiserConfigFile'')) = Some icf"
  shows "vars (snd (exec_list env (config_selection vals @ rest) st)) ''CONFIGFILE'' =
     Some (if h = ini then dir @ ''/'' @ icf else dir @ ''/'' @ role @ ''.yaml'')"
proof -
  let ?own = "dir @ ''/'' @ role @ ''.yaml''"
  let ?init = "dir @ ''/'' @ icf"
  let ?st1 = "st\<lparr>vars := (vars st)(''CONFIGFILE'' \<mapsto> ?own)\<rparr>"
  let ?st2 = "?st1\<lparr>vars := (vars ?st1)(''CONFIGFILE'' \<mapsto> ?init)\<rparr>"
  have others1: "vars ?st1 x = None"
    if "x \<noteq> ''HOSTNAME''" "x \<noteq> ''NODETYPE''" "x \<noteq> ''CONFIGFILE''" for x
    using others[OF that] that by simp
  have e0: "expand env st (shell_text (print_value (vals ''configFilePath''))) = Some dir"
    using expand_spliced[OF fdir others] dir by simp
  have e1: "expand env ?st1 (shell_text (print_value (vals ''configFilePath''))) = Some dir"
    using expand_spliced[OF fdir others1] dir by simp
  have e2: "expand env ?st1 (shell_text (print_value (vals ''initialiser''))) = Some ini"
    using expand_spliced[OF fini others1] ini by simp
  have e3: "expand env ?st1 (shell_text (print_value (vals ''initialiserConfigFile''))) = Some icf"
    using expand_spliced[OF ficf others1] icf by simp
  have first: "exec env (Assign ''CONFIGFILE''
        (shell_text (print_value (vals ''configFilePath''))
         @ [Lit ''/'', Var ''NODETYPE'', Lit ''.yaml''])) st = (Continue, ?st1)"
    using e0 r by (simp add: expand_append lookup_var_def)
  have test: "exec env (If (StrEq [Var ''HOSTNAME''] (shell_text (print_value (vals ''initialiser''))))
                         body) ?st1
      = (if h = ini then exec_list env body ?st1 else (Continue, ?st1))" for body
    using e2 h by (simp add: lookup_var_def)
  have second: "exec env (Assign ''CONFIGFILE''
           (shell_text (print_value (vals ''configFilePath'')) @ [Lit ''/'']
            @ shell_text (print_value (vals ''initialiserConfigFile'')))) ?st1 = (Continue, ?st2)"
    using e1 e3 by (simp add: expand_append)
  show ?thesis
  proof (cases "h = ini")
    case False
    have "exec_list env (config_selection vals @ rest) st = exec_list env rest ?st1"
      using False first test[of "Assign ''CONFIGFILE''
           (shell_text (print_value (vals ''configFilePath'')) @ [Lit ''/'']
            @ shell_text (print_value (vals ''initialiserConfigFile'')))
         # manifests_install vals"]
      by (simp add: config_selection_def del: exec.simps)
    moreover have "vars (snd (exec_list env rest ?st1)) ''CONFIGFILE'' = vars ?st1 ''CONFIGFILE''"
      using rest by (rule exec_frame(2))
    ultimately show ?thesis using False by simp
  next
    case True
    obtain fl st3 where m: "exec_list env (manifests_install vals) ?st2 = (fl, st3)"
      by (cases "exec_list env (manifests_install vals) ?st2")
    have f3: "vars st3 ''CONFIGFILE'' = vars ?st2 ''CONFIGFILE''"
      using exec_frame(2)[of "''CONFIGFILE''" "manifests_install vals" env ?st2,
              OF manifests_install_no_assign] m
      by simp
    have body: "exec env (If (StrEq [Var ''HOSTNAME''] (shell_text (print_value (vals ''initialiser''))))
        (Assign ''CONFIGFILE''
           (shell_text (print_value (vals ''configFilePath'')) @ [Lit ''/'']
            @ shell_text (print_value (vals ''initialiserConfigFile'')))
         # manifests_install vals)) ?st1 = (fl, st3)"
      using True second m test[of "Assign ''CONFIGFILE''
           (shell_text (print_value (vals ''configFilePath'')) @ [Lit ''/'']
            @ shell_text (print_value (vals ''initialiserConfigFile'')))
         # manifests_install vals"]
      by (simp del: exec.simps)
    have run: "exec_list env (config_selection vals @ rest) st =
        (case fl of Stop n \<Rightarrow> (Stop n, st3) | Continue \<Rightarrow> exec_list env rest st3)"
      using first body by (simp add: config_selection_def del: exec.simps split: flow.splits)
    have "vars (snd (exec_list env (config_selection vals @ rest) st)) ''CONFIGFILE''
            = vars st3 ''CONFIGFILE''"
    proof (cases fl)
      case Continue
      then show ?thesis
        using run exec_frame(2)[of "''CONFIGFILE''" rest env st3, OF rest] by simp
    next
      case (Stop n)
      then show ?thesis using run by simp
    qed
    then show ?thesis using f3 True by simp
  qed
qed

lemma render_script:
  assumes "render_k3s_multi_node vals = Some script"
  shows "\<exists>ns. range_nodes (vals ''nodes'') = Some ns
     \<and> script = DeclareAssoc ''hosts'' # hosts_entries ns
                @ hostname_discovery
                @ nodetype_lookup
                @ image_staging vals
                @ config_selection vals
                @ vip_hosts_entry vals
                @ config_placement vals
                @ runtime_installation vals"
  using assms by (auto simp add: render_k3s_multi_node_def split: option.splits)

text \<open>
  C3. In the rendered script, with \<open>/etc/hostname\<close> read: a non-empty content is the
  hostname. An empty content makes the script read the kernel's hostname; when that
  is empty or \<open>localhost.localdomain\<close> the script ends with a non-zero status, having run
  nothing but the two \<open>cat\<close> and the \<open>echo\<close> of the error (no \<open>mount\<close>, no \<open>cp\<close>);
  otherwise the kernel's hostname is the hostname.
\<close>

theorem hostname_discovery_outcomes:
  assumes "render_k3s_multi_node vals = Some script"
    and "exit_status env (Ran [''cat'', ''/etc/hostname'']) = 0"
  shows
  "(cat_out env ''/etc/hostname'' \<noteq> [] \<longrightarrow>
      vars (snd (run_script env script)) ''HOSTNAME'' = Some (cat_out env ''/etc/hostname''))
   \<and> (cat_out env ''/etc/hostname'' = []
       \<and> exit_status env (Ran [''cat'', ''/proc/sys/kernel/hostname'']) = 0 \<longrightarrow>
      (if cat_out env ''/proc/sys/kernel/hostname'' = []
          \<or> cat_out env ''/proc/sys/kernel/hostname'' = ''localhost.localdomain''
       then \<exists>n st. run_script env script = (Stop n, st) \<and> 0 < n
              \<and> actions st =
                  [Ran [''cat'', ''/etc/hostname''], Ran [''cat'', ''/proc/sys/kernel/hostname''],
                   Ran [''echo'', ''ERROR: Could not identify whether the host is a k3s server or agent due to missing hostname'']]
       else vars (snd (run_script env script)) ''HOSTNAME''
              = Some (cat_out env ''/proc/sys/kernel/hostname'')))"
proof -
  let ?rest = "nodetype_lookup @ image_staging vals @ config_selection vals
        @ vip_hosts_entry vals @ config_placement vals @ runtime_installation vals"
  from render_script[OF assms(1)] obtain ns where
    script: "script = DeclareAssoc ''hosts'' # hosts_entries ns @ hostname_discovery @ ?rest"
    by blast
  let ?st0 = "init_state\<lparr>arrays := [''hosts'' \<mapsto> hosts_table ns]\<rparr>"
  have run: "run_script env script = exec_list env (hostname_discovery @ ?rest) ?st0"
    unfolding run_script_def script by (rule exec_table)
  have a0: "actions ?st0 = []"
    by (simp add: init_state_def)
  have primary: "vars (snd (run_script env script)) ''HOSTNAME'' = Some (cat_out env ''/etc/hostname'')"
    if "cat_out env ''/etc/hostname'' \<noteq> []"
    unfolding run discovery_primary[OF assms(2) that]
    using exec_frame(2)[OF after_discovery_no_HOSTNAME] by simp
  have fallback: "vars (snd (run_script env script)) ''HOSTNAME''
              = Some (cat_out env ''/proc/sys/kernel/hostname'')"
    if "cat_out env ''/etc/hostname'' = []"
      "exit_status env (Ran [''cat'', ''/proc/sys/kernel/hostname'']) = 0"
      "cat_out env ''/proc/sys/kernel/hostname'' \<noteq> []"
      "cat_out env ''/proc/sys/kernel/hostname'' \<noteq> ''localhost.localdomain''"
    unfolding run discovery_fallback[OF assms(2) that]
    using exec_frame(2)[OF after_discovery_no_HOSTNAME] by simp
  have fatal: "\<exists>n st. run_script env script = (Stop n, st) \<and> 0 < n
              \<and> actions st =
                  [Ran [''cat'', ''/etc/hostname''], Ran [''cat'', ''/proc/sys/kernel/hostname''],
                   Ran [''echo'', ''ERROR: Could not identify whether the host is a k3s server or agent due to missing hostname'']]"
    if "cat_out env ''/etc/hostname'' = []"
      "exit_status env (Ran [''cat'', ''/proc/sys/kernel/hostname'']) = 0"
      "cat_out env ''/proc/sys/kernel/hostname'' = []
          \<or> cat_out env ''/proc/sys/kernel/hostname'' = ''localhost.localdomain''"
    using discovery_fatal[OF assms(2) that, of ?rest ?st0] unfolding run a0 by auto
  from primary fallback fatal show ?thesis by auto
qed

theorem hostname_discovery_outcomes_witness:
  "(\<exists>n st. run_script (demo_env [] ''localhost.localdomain'')
              (the (render_k3s_multi_node (demo_values [] [] []))) = (Stop n, st) \<and> 0 < n
        \<and> actions st =
             [Ran [''cat'', ''/etc/hostname''], Ran [''cat'', ''/proc/sys/kernel/hostname''],
              Ran [''echo'', ''ERROR: Could not identify whether the host is a k3s server or agent due to missing hostname'']])
   \<and> (\<exists>n st. run_script (demo_env [] [])
              (the (render_k3s_multi_node (demo_values [] [] []))) = (Stop n, st) \<and> 0 < n
        \<and> actions st =
             [Ran [''cat'', ''/etc/hostname''], Ran [''cat'', ''/proc/sys/kernel/hostname''],
              Ran [''echo'', ''ERROR: Could not identify whether the host is a k3s server or agent due to missing hostname'']])
   \<and> vars (snd (run_script (demo_env [] ''node-3'')
                    (the (render_k3s_multi_node (demo_values [] [] []))))) ''HOSTNAME''
       = Some ''node-3''
   \<and> vars (snd (run_script (demo_env ''node-2'' [])
                    (the (render_k3s_multi_node (demo_values [] [] []))))) ''HOSTNAME''
       = Some ''node-2''"
proof -
  have r: "render_k3s_multi_node (demo_values [] [] [])
             = Some (the (render_k3s_multi_node (demo_values [] [] [])))"
    by (simp add: render_k3s_multi_node_def demo_values_def)
  have e: "exit_status (demo_env a b) x = 0" for a b x
    by (simp add: demo_env_def)
  have c: "cat_out (demo_env a b) ''/etc/hostname'' = a"
    "cat_out (demo_env a b) ''/proc/sys/kernel/hostname'' = b" for a b
    by (simp_all add: demo_env_def)
  note t = hostname_discovery_outcomes[OF r e]
  show ?thesis
    using t[of "[]" "''localhost.localdomain''"] t[of "[]" "[]"] t[of "[]" "''node-3''"]
      t[of "''node-2''" "[]"]
    by (simp add: c e)
qed

text \<open>
  C5. The rendered script has the command that appends \<open><apiVIP> <apiHost>\<close> to
  \<open>/etc/hosts\<close> exactly when both \<open>apiVIP\<close> and \<open>apiHost\<close> are set (true for the template
  engine) in the values it is rendered with; and exactly then it has any command that
  writes \<open>/etc/hosts\<close>, so a script rendered without a VIP has none.
\<close>

theorem vip_hosts_entry_rendered_iff:
  assumes "render_k3s_multi_node vals = Some script"
  shows
  "(RunAppend [[Lit ''echo''],
               [Lit (print_value (vals ''apiVIP'')), Lit '' '', Lit (print_value (vals ''apiHost''))]]
      ''/etc/hosts'' \<in> set script
      \<longleftrightarrow> truth (vals ''apiVIP'') \<and> truth (vals ''apiHost''))
   \<and> (list_ex (writes_file ''/etc/hosts'') script
      \<longleftrightarrow> truth (vals ''apiVIP'') \<and> truth (vals ''apiHost''))"
proof -
  from render_script[OF assms] obtain ns where
    script: "script = DeclareAssoc ''hosts'' # hosts_entries ns
                @ hostname_discovery @ nodetype_lookup @ image_staging vals
                @ config_selection vals @ vip_hosts_entry vals
                @ config_placement vals @ runtime_installation vals"
    by blast
  have both: "truth (tpl_and (vals ''apiVIP'') (vals ''apiHost''))
                \<longleftrightarrow> truth (vals ''apiVIP'') \<and> truth (vals ''apiHost'')"
    by (simp add: tpl_and_def)
  have h1: "\<not> list_ex (writes_file f) (hosts_entries ns)" for f
    by (simp add: hosts_entries_def list_ex_iff)
  have h2: "RunAppend ws f \<notin> set (hosts_entries ns)" for ws f
    by (auto simp add: hosts_entries_def)
  have w: "list_ex (writes_file ''/etc/hosts'') script
             \<longleftrightarrow> truth (tpl_and (vals ''apiVIP'') (vals ''apiHost''))"
    unfolding script
    by (simp add: h1 hostname_discovery_def nodetype_lookup_def image_staging_def
          config_selection_def manifests_install_def vip_hosts_entry_def config_placement_def
          runtime_installation_def)
  have m: "RunAppend [[Lit ''echo''],
               [Lit (print_value (vals ''apiVIP'')), Lit '' '', Lit (print_value (vals ''apiHost''))]]
      ''/etc/hosts'' \<in> set script
             \<longleftrightarrow> truth (tpl_and (vals ''apiVIP'') (vals ''apiHost''))"
    unfolding script
    by (simp add: h2 hostname_discovery_def nodetype_lookup_def image_staging_def
          config_selection_def vip_hosts_entry_def config_placement_def
          runtime_installation_def)
  from w m both show ?thesis by simp
qed

theorem vip_hosts_entry_rendered_iff_witness:
  "RunAppend [[Lit ''echo''], [Lit ''192.168.100.10'', Lit '' '', Lit ''api.cluster01.example'']]
     ''/etc/hosts''
     \<in> set (the (render_k3s_multi_node (demo_values ''192.168.100.10'' ''api.cluster01.example'' [])))
   \<and> list_ex (writes_file ''/etc/hosts'')
        (the (render_k3s_multi_node (demo_values ''192.168.100.10'' ''api.cluster01.example'' [])))
   \<and> \<not> list_ex (writes_file ''/etc/hosts'')
        (the (render_k3s_multi_node (demo_values [] ''api.cluster01.example'' [])))
   \<and> \<not> list_ex (writes_file ''/etc/hosts'')
        (the (render_k3s_multi_node (demo_values ''192.168.100.10'' [] [])))"
proof -
  have r: "render_k3s_multi_node (demo_values a b c)
             = Some (the (render_k3s_multi_node (demo_values a b c)))" for a b c
    by (simp add: render_k3s_multi_node_def demo_values_def)
  have v: "demo_values a b c ''apiVIP'' = Some (TString a)"
    "demo_values a b c ''apiHost'' = Some (TString b)" for a b c
    by (simp_all add: demo_values_def)
  show ?thesis
    using vip_hosts_entry_rendered_iff[OF r, of "''192.168.100.10''" "''api.cluster01.example''" "[]"]
      vip_hosts_entry_rendered_iff[OF r, of "[]" "''api.cluster01.example''" "[]"]
      vip_hosts_entry_rendered_iff[OF r, of "''192.168.100.10''" "[]" "[]"]
    by (simp add: v)
qed

text \<open>
  C1. In the rendered multi-node script, let \<open>h\<close> be the discovered hostname (the content
  of \<open>/etc/hostname\<close>, or the kernel's hostname when that content is empty).

  The values \<open>imagesPath\<close>, \<open>configFilePath\<close>, \<open>initialiser\<close> and
  \<open>initialiserConfigFile\<close> are printed outside quotes, so the shell expands them: they are
  taken to be texts of \<open>shell_plain\<close> that refer to none of the variables the script
  assigns before the selection, and whose variables are set where the script starts;
  \<open>images\<close>, \<open>dir\<close>, \<open>ini\<close> and \<open>icf\<close> are their expansions there.

  When the table built from the nodes maps \<open>h\<close> to a role (a type that is neither empty
  nor the word \<open>none\<close>, which the lookup takes for a missing entry) and the four commands
  of the image staging succeed, the script sets \<open>NODETYPE\<close> to the role and leaves
  \<open>CONFIGFILE\<close> at \<open>dir/<role>.yaml\<close>, unless \<open>h\<close> equals the expanded initialiser name
  \<open>ini\<close>: then \<open>CONFIGFILE\<close> is \<open>dir/icf\<close>.

  When the table has no entry for \<open>h\<close>, the script ends with a non-zero status after the
  \<open>echo\<close> of the error, and it has not assigned \<open>CONFIGFILE\<close>.
\<close>

theorem config_file_selection:
  assumes "render_k3s_multi_node vals = Some script"
    and "range_nodes (vals ''nodes'') = Some ns"
    and "exit_status env (Ran [''cat'', ''/etc/hostname'']) = 0"
    and "(cat_out env ''/etc/hostname'' \<noteq> [] \<and> h = cat_out env ''/etc/hostname'')
         \<or> (cat_out env ''/etc/hostname'' = []
             \<and> exit_status env (Ran [''cat'', ''/proc/sys/kernel/hostname'']) = 0
             \<and> h = cat_out env ''/proc/sys/kernel/hostname''
             \<and> h \<noteq> [] \<and> h \<noteq> ''localhost.localdomain'')"
  shows
  "(hosts_table ns h = Some role \<and> role \<noteq> [] \<and> role \<noteq> ''none''
     \<and> (\<forall>key \<in> {''imagesPath'', ''configFilePath'', ''initialiser'', ''initialiserConfigFile''}.
           shell_plain (print_value (vals key))
           \<and> \<not> refers (print_value (vals key)) ''HOSTNAME''
           \<and> \<not> refers (print_value (vals key)) ''NODETYPE''
           \<and> \<not> refers (print_value (vals key)) ''CONFIGFILE'')
     \<and> shell_value env (print_value (vals ''imagesPath'')) = Some images
     \<and> shell_value env (print_value (vals ''configFilePath'')) = Some dir
     \<and> shell_value env (print_value (vals ''initialiser'')) = Some ini
     \<and> shell_value env (print_value (vals ''initialiserConfigFile'')) = Some icf
     \<and> exit_status env (Ran [''mount'', ''/var'']) = 0
     \<and> exit_status env (Ran [''mkdir'', ''-p'', ''/var/lib/rancher/k3s/agent/images/'']) = 0
     \<and> exit_status env (Ran [''cp'', images @ ''/*'',
                               ''/var/lib/rancher/k3s/agent/images/'']) = 0
     \<and> exit_status env (Ran [''umount'', ''/var'']) = 0
    \<longrightarrow> vars (snd (run_script env script)) ''NODETYPE'' = Some role
       \<and> vars (snd (run_script env script)) ''CONFIGFILE'' =
           Some (if h = ini then dir @ ''/'' @ icf else dir @ ''/'' @ role @ ''.yaml''))
   \<and> (hosts_table ns h = None
    \<longrightarrow> (\<exists>n st cats. run_script env script = (Stop n, st) \<and> 0 < n
           \<and> vars st ''CONFIGFILE'' = None
           \<and> actions st = cats @
               [Ran [''echo'', ''ERROR: Could not identify whether host '' @ squote @ h @ squote
                               @ '' is a k3s server or agent'']]
           \<and> set cats \<subseteq> {Ran [''cat'', ''/etc/hostname''], Ran [''cat'', ''/proc/sys/kernel/hostname'']}))"
proof -
  let ?tail = "vip_hosts_entry vals @ config_placement vals @ runtime_installation vals"
  let ?after = "image_staging vals @ config_selection vals @ ?tail"
  let ?rest = "nodetype_lookup @ ?after"
  from render_script[OF assms(1)] assms(2) have
    script: "script = DeclareAssoc ''hosts'' # hosts_entries ns @ hostname_discovery @ ?rest"
    by auto
  let ?st0 = "init_state\<lparr>arrays := [''hosts'' \<mapsto> hosts_table ns]\<rparr>"
  have run0: "run_script env script = exec_list env (hostname_discovery @ ?rest) ?st0"
    unfolding run_script_def script by (rule exec_table)
  obtain cats where cats: "set cats \<subseteq> {Ran [''cat'', ''/etc/hostname''], Ran [''cat'', ''/proc/sys/kernel/hostname'']}"
    and run1: "run_script env script =
       exec_list env ?rest (?st0\<lparr>actions := actions ?st0 @ cats, vars := (vars ?st0)(''HOSTNAME'' \<mapsto> h)\<rparr>)"
  proof -
    from assms(4) show ?thesis
    proof
      assume a: "cat_out env ''/etc/hostname'' \<noteq> [] \<and> h = cat_out env ''/etc/hostname''"
      show ?thesis
        by (rule that[of "[Ran [''cat'', ''/etc/hostname'']]"])
           (simp_all add: run0 discovery_primary[OF assms(3) conjunct1[OF a]] a)
    next
      assume a: "cat_out env ''/etc/hostname'' = []
             \<and> exit_status env (Ran [''cat'', ''/proc/sys/kernel/hostname'']) = 0
             \<and> h = cat_out env ''/proc/sys/kernel/hostname''
             \<and> h \<noteq> [] \<and> h \<noteq> ''localhost.localdomain''"
      then have b: "cat_out env ''/etc/hostname'' = []"
        "exit_status env (Ran [''cat'', ''/proc/sys/kernel/hostname'']) = 0"
        "cat_out env ''/proc/sys/kernel/hostname'' \<noteq> []"
        "cat_out env ''/proc/sys/kernel/hostname'' \<noteq> ''localhost.localdomain''"
        by auto
      show ?thesis
        by (rule that[of "[Ran [''cat'', ''/etc/hostname''], Ran [''cat'', ''/proc/sys/kernel/hostname'']]"])
           (simp_all add: run0 discovery_fallback[OF assms(3) b] a)
    qed
  qed
  let ?st1 = "?st0\<lparr>actions := actions ?st0 @ cats, vars := (vars ?st0)(''HOSTNAME'' \<mapsto> h)\<rparr>"
  have s1: "vars ?st1 ''HOSTNAME'' = Some h" "arrays ?st1 ''hosts'' = Some (hosts_table ns)"
    "vars ?st1 ''CONFIGFILE'' = None" "actions ?st1 = cats"
    by (simp_all add: init_state_def)
  have found: "vars (snd (run_script env script)) ''NODETYPE'' = Some role
       \<and> vars (snd (run_script env script)) ''CONFIGFILE'' =
           Some (if h = ini then dir @ ''/'' @ icf else dir @ ''/'' @ role @ ''.yaml'')"
    if r: "hosts_table ns h = Some role" "role \<noteq> []" "role \<noteq> ''none''"
      and fimg: "\<not> refers (print_value (vals ''imagesPath'')) ''HOSTNAME''"
        "\<not> refers (print_value (vals ''imagesPath'')) ''NODETYPE''"
        "\<not> refers (print_value (vals ''imagesPath'')) ''CONFIGFILE''"
      and fdir: "\<not> refers (print_value (vals ''configFilePath'')) ''HOSTNAME''"
        "\<not> refers (print_value (vals ''configFilePath'')) ''NODETYPE''"
        "\<not> refers (print_value (vals ''configFilePath'')) ''CONFIGFILE''"
      and fini: "\<not> refers (print_value (vals ''initialiser'')) ''HOSTNAME''"
        "\<not> refers (print_value (vals ''initialiser'')) ''NODETYPE''"
        "\<not> refers (print_value (vals ''initialiser'')) ''CONFIGFILE''"
      and ficf: "\<not> refers (print_value (vals ''initialiserConfigFile'')) ''HOSTNAME''"
        "\<not> refers (print_value (vals ''initialiserConfigFile'')) ''NODETYPE''"
        "\<not> refers (print_value (vals ''initialiserConfigFile'')) ''CONFIGFILE''"
      and images: "shell_value env (print_value (vals ''imagesPath'')) = Some images"
      and dir: "shell_value env (print_value (vals ''configFilePath'')) = Some dir"
      and ini: "shell_value env (print_value (vals ''initialiser'')) = Some ini"
      and icf: "shell_value env (print_value (vals ''initialiserConfigFile'')) = Some icf"
      and st: "exit_status env (Ran [''mount'', ''/var'']) = 0"
        "exit_status env (Ran [''mkdir'', ''-p'', ''/var/lib/rancher/k3s/agent/images/'']) = 0"
        "exit_status env (Ran [''cp'', images @ ''/*'',
                               ''/var/lib/rancher/k3s/agent/images/'']) = 0"
        "exit_status env (Ran [''umount'', ''/var'']) = 0"
  proof -
    let ?st2 = "?st1\<lparr>vars := (vars ?st1)(''NODETYPE'' \<mapsto> role)\<rparr>"
    have run2: "run_script env script = exec_list env ?after ?st2"
      unfolding run1 by (rule lookup_found[OF s1(1) s1(2) r])
    have nt: "vars (snd (run_script env script)) ''NODETYPE'' = Some role"
      unfolding run2 using exec_frame(2)[of "''NODETYPE''" ?after env ?st2, OF after_lookup_no_NODETYPE[of vals]] by simp
    have others2: "vars ?st2 x = None"
      if "x \<noteq> ''HOSTNAME''" "x \<noteq> ''NODETYPE''" "x \<noteq> ''CONFIGFILE''" for x
      using that by (simp add: init_state_def)
    have ex: "expand env ?st2 (shell_text (print_value (vals ''imagesPath''))) = Some images"
      using expand_spliced[of "print_value (vals ''imagesPath'')" ?st2 env, OF fimg others2] images
      by simp
    let ?st3 = "?st2\<lparr>actions := actions ?st2 @
          [Ran [''mount'', ''/var''],
           Ran [''mkdir'', ''-p'', ''/var/lib/rancher/k3s/agent/images/''],
           Ran [''cp'', images @ ''/*'', ''/var/lib/rancher/k3s/agent/images/''],
           Ran [''umount'', ''/var'']]\<rparr>"
    have run3: "run_script env script = exec_list env (config_selection vals @ ?tail) ?st3"
      unfolding run2 by (rule staging_ok[of env ?st2 vals images, OF ex st])
    have v3: "vars ?st3 ''HOSTNAME'' = Some h" "vars ?st3 ''NODETYPE'' = Some role"
      by simp_all
    have others3: "vars ?st3 x = None"
      if "x \<noteq> ''HOSTNAME''" "x \<noteq> ''NODETYPE''" "x \<noteq> ''CONFIGFILE''" for x
      using that by (simp add: init_state_def)
    from selection[where env = env and vals = vals and rest = ?tail and st = ?st3,
           OF v3 others3 tail_no_CONFIGFILE[of vals] fdir fini ficf dir ini icf] nt
    show ?thesis unfolding run3 by simp
  qed
  have missing: "\<exists>n st cats. run_script env script = (Stop n, st) \<and> 0 < n
           \<and> vars st ''CONFIGFILE'' = None
           \<and> actions st = cats @
               [Ran [''echo'', ''ERROR: Could not identify whether host '' @ squote @ h @ squote
                               @ '' is a k3s server or agent'']]
           \<and> set cats \<subseteq> {Ran [''cat'', ''/etc/hostname''], Ran [''cat'', ''/proc/sys/kernel/hostname'']}"
    if "hosts_table ns h = None"
    using lookup_missing[OF s1(1) s1(2) that, of env ?after] cats
    unfolding run1 s1(3) s1(4) by blast
  show ?thesis
  proof (intro conjI impI)
    assume a: "hosts_table ns h = Some role \<and> role \<noteq> [] \<and> role \<noteq> ''none''
     \<and> (\<forall>key \<in> {''imagesPath'', ''configFilePath'', ''initialiser'', ''initialiserConfigFile''}.
           shell_plain (print_value (vals key))
           \<and> \<not> refers (print_value (vals key)) ''HOSTNAME''
           \<and> \<not> refers (print_value (vals key)) ''NODETYPE''
           \<and> \<not> refers (print_value (vals key)) ''CONFIGFILE'')
     \<and> shell_value env (print_value (vals ''imagesPath'')) = Some images
     \<and> shell_value env (print_value (vals ''configFilePath'')) = Some dir
     \<and> shell_value env (print_value (vals ''initialiser'')) = Some ini
     \<and> shell_value env (print_value (vals ''initialiserConfigFile'')) = Some icf
     \<and> exit_status env (Ran [''mount'', ''/var'']) = 0
     \<and> exit_status env (Ran [''mkdir'', ''-p'', ''/var/lib/rancher/k3s/agent/images/'']) = 0
     \<and> exit_status env (Ran [''cp'', images @ ''/*'',
                               ''/var/lib/rancher/k3s/agent/images/'']) = 0
     \<and> exit_status env (Ran [''umount'', ''/var'']) = 0"
    have f: "vars (snd (run_script env script)) ''NODETYPE'' = Some role
       \<and> vars (snd (run_script env script)) ''CONFIGFILE'' =
           Some (if h = ini then dir @ ''/'' @ icf else dir @ ''/'' @ role @ ''.yaml'')"
      by (rule found) (use a in simp_all)
    from f show "vars (snd (run_script env script)) ''NODETYPE'' = Some role" ..
    from f show "vars (snd (run_script env script)) ''CONFIGFILE'' =
           Some (if h = ini then dir @ ''/'' @ icf else dir @ ''/'' @ role @ ''.yaml'')" ..
  next
    assume "hosts_table ns h = None"
    then show "\<exists>n st cats. run_script env script = (Stop n, st) \<and> 0 < n
           \<and> vars st ''CONFIGFILE'' = None
           \<and> actions st = cats @
               [Ran [''echo'', ''ERROR: Could not identify whether host '' @ squote @ h @ squote
                               @ '' is a k3s server or agent'']]
           \<and> set cats \<subseteq> {Ran [''cat'', ''/etc/hostname''], Ran [''cat'', ''/proc/sys/kernel/hostname'']}"
      by (rule missing)
  qed
qed

theorem config_file_selection_witness:
  "vars (snd (run_script (demo_env ''node-2'' [])
                (the (render_k3s_multi_node (demo_values [] [] []))))) ''CONFIGFILE''
     = Some ''/artefacts/kubernetes/agent.yaml''
   \<and> vars (snd (run_script (demo_env ''node-1'' [])
                (the (render_k3s_multi_node (demo_values [] [] []))))) ''CONFIGFILE''
     = Some ''/artefacts/kubernetes/init_server.yaml''
   \<and> vars (snd (run_script (demo_env [] ''node-3'')
                (the (render_k3s_multi_node (demo_values [] [] []))))) ''NODETYPE''
     = Some ''agent''
   \<and> (\<exists>n st cats. run_script (demo_env ''node-9'' [])
                (the (render_k3s_multi_node (demo_values [] [] []))) = (Stop n, st) \<and> 0 < n
           \<and> vars st ''CONFIGFILE'' = None
           \<and> actions st = cats @
               [Ran [''echo'', ''ERROR: Could not identify whether host '' @ squote @ ''node-9'' @ squote
                               @ '' is a k3s server or agent'']]
           \<and> set cats \<subseteq> {Ran [''cat'', ''/etc/hostname''], Ran [''cat'', ''/proc/sys/kernel/hostname'']})"
proof -
  let ?V = "demo_values [] [] []"
  have r: "render_k3s_multi_node ?V = Some (the (render_k3s_multi_node ?V))"
    by (simp add: render_k3s_multi_node_def demo_values_def)
  have n: "range_nodes (?V ''nodes'') = Some demo_nodes"
    by (simp add: demo_values_def)
  have e: "exit_status (demo_env a b) x = 0" for a b x
    by (simp add: demo_env_def)
  have c: "cat_out (demo_env a b) ''/etc/hostname'' = a"
    "cat_out (demo_env a b) ''/proc/sys/kernel/hostname'' = b" for a b
    by (simp_all add: demo_env_def)
  have tbl: "hosts_table demo_nodes ''node-1'' = Some ''server''"
    "hosts_table demo_nodes ''node-2'' = Some ''agent''"
    "hosts_table demo_nodes ''node-3'' = Some ''agent''"
    "hosts_table demo_nodes ''node-9'' = None"
    by (simp_all add: hosts_table_def demo_nodes_def)
  have pl: "shell_plain (print_value (?V ''imagesPath''))"
    "shell_plain (print_value (?V ''initialiser''))"
    "shell_plain (print_value (?V ''configFilePath''))"
    "shell_plain (print_value (?V ''initialiserConfigFile''))"
    by (simp_all add: demo_values_def name_start_def name_char_def)
  have rf: "\<not> refers (print_value (?V ''imagesPath'')) x"
    "\<not> refers (print_value (?V ''initialiser'')) x"
    "\<not> refers (print_value (?V ''configFilePath'')) x"
    "\<not> refers (print_value (?V ''initialiserConfigFile'')) x"
    if "x \<noteq> ''ARTEFACTS_DIR''" for x
    using that by (auto simp add: demo_values_def refers_def name_start_def name_char_def)
  have sv: "shell_value (demo_env a b) (print_value (?V ''imagesPath''))
              = Some ''/artefacts/kubernetes/images''"
    "shell_value (demo_env a b) (print_value (?V ''initialiser'')) = Some ''node-1''"
    "shell_value (demo_env a b) (print_value (?V ''configFilePath''))
       = Some ''/artefacts/kubernetes''"
    "shell_value (demo_env a b) (print_value (?V ''initialiserConfigFile''))
       = Some ''init_server.yaml''" for a b
    by (simp_all add: demo_values_def shell_value_def name_start_def name_char_def lookup_var_def
          init_state_def demo_env_def)
  note t = config_file_selection[OF r n e]
  have d2: "(cat_out (demo_env ''node-2'' []) ''/etc/hostname'' \<noteq> []
              \<and> ''node-2'' = cat_out (demo_env ''node-2'' []) ''/etc/hostname'')
         \<or> (cat_out (demo_env ''node-2'' []) ''/etc/hostname'' = []
             \<and> exit_status (demo_env ''node-2'' []) (Ran [''cat'', ''/proc/sys/kernel/hostname'']) = 0
             \<and> ''node-2'' = cat_out (demo_env ''node-2'' []) ''/proc/sys/kernel/hostname''
             \<and> ''node-2'' \<noteq> [] \<and> ''node-2'' \<noteq> ''localhost.localdomain'')"
    by (simp add: c)
  have d1: "(cat_out (demo_env ''node-1'' []) ''/etc/hostname'' \<noteq> []
              \<and> ''node-1'' = cat_out (demo_env ''node-1'' []) ''/etc/hostname'')
         \<or> (cat_out (demo_env ''node-1'' []) ''/etc/hostname'' = []
             \<and> exit_status (demo_env ''node-1'' []) (Ran [''cat'', ''/proc/sys/kernel/hostname'']) = 0
             \<and> ''node-1'' = cat_out (demo_env ''node-1'' []) ''/proc/sys/kernel/hostname''
             \<and> ''node-1'' \<noteq> [] \<and> ''node-1'' \<noteq> ''localhost.localdomain'')"
    by (simp add: c)
  have d3: "(cat_out (demo_env [] ''node-3'') ''/etc/hostname'' \<noteq> []
              \<and> ''node-3'' = cat_out (demo_env [] ''node-3'') ''/etc/hostname'')
         \<or> (cat_out (demo_env [] ''node-3'') ''/etc/hostname'' = []
             \<and> exit_status (demo_env [] ''node-3'') (Ran [''cat'', ''/proc/sys/kernel/hostname'']) = 0
             \<and> ''node-3'' = cat_out (demo_env [] ''node-3'') ''/proc/sys/kernel/hostname''
             \<and> ''node-3'' \<noteq> [] \<and> ''node-3'' \<noteq> ''localhost.localdomain'')"
    by (simp add: c e)
  have d9: "(cat_out (demo_env ''node-9'' []) ''/etc/hostname'' \<noteq> []
              \<and> ''node-9'' = cat_out (demo_env ''node-9'' []) ''/etc/hostname'')
         \<or> (cat_out (demo_env ''node-9'' []) ''/etc/hostname'' = []
             \<and> exit_status (demo_env ''node-9'' []) (Ran [''cat'', ''/proc/sys/kernel/hostname'']) = 0
             \<and> ''node-9'' = cat_out (demo_env ''node-9'' []) ''/proc/sys/kernel/hostname''
             \<and> ''node-9'' \<noteq> [] \<and> ''node-9'' \<noteq> ''localhost.localdomain'')"
    by (simp add: c)
  have A: "vars (snd (run_script (demo_env ''node-2'' []) (the (render_k3s_multi_node ?V)))) ''CONFIGFILE''
     = Some ''/artefacts/kubernetes/agent.yaml''"
    using t[OF d2, where role = "''agent''" and images = "''/artefacts/kubernetes/images''"
              and dir = "''/artefacts/kubernetes''" and ini = "''node-1''"
              and icf = "''init_server.yaml''", THEN conjunct1]
    by (simp add: tbl e pl rf sv)
  have B: "vars (snd (run_script (demo_env ''node-1'' []) (the (render_k3s_multi_node ?V)))) ''CONFIGFILE''
     = Some ''/artefacts/kubernetes/init_server.yaml''"
    using t[OF d1, where role = "''server''" and images = "''/artefacts/kubernetes/images''"
              and dir = "''/artefacts/kubernetes''" and ini = "''node-1''"
              and icf = "''init_server.yaml''", THEN conjunct1]
    by (simp add: tbl e pl rf sv)
  have C: "vars (snd (run_script (demo_env [] ''node-3'') (the (render_k3s_multi_node ?V)))) ''NODETYPE''
     = Some ''agent''"
    using t[OF d3, where role = "''agent''" and images = "''/artefacts/kubernetes/images''"
              and dir = "''/artefacts/kubernetes''" and ini = "''node-1''"
              and icf = "''init_server.yaml''", THEN conjunct1]
    by (simp add: tbl e pl rf sv)
  note D = t[OF d9, of "''agent''", THEN conjunct2, THEN mp, OF tbl(4)]
  from A B C D show ?thesis by (intro conjI)
qed

end
